theory Spec2Isabelle
  imports Complex_Main "HOL-Library.Word" "HOL-Library.Sublist" "HOL-Library.AList"
begin

unbundle bit_operations_syntax

section \<open>Numbers\<close>

text \<open>
  A JavaScript number is an IEEE 754 double and an element of a \<^verbatim>\<open>Float32Array\<close> is
  an IEEE 754 single. The finite ones are modelled as the reals they denote, and every
  arithmetic operation of the source on coordinates is followed by the rounding it
  performs: \<open>fl\<close> rounds a real to the nearest double, \<open>fround\<close> to the nearest single,
  ties to the even significand. \<open>roundTo p emin\<close> is rounding to \<open>p\<close> significant bits with
  least exponent \<open>emin\<close> (below it the spacing stays that of the subnormal numbers).
  \<^verbatim>\<open>Math.floor\<close>, \<^verbatim>\<open>Math.min\<close>, \<^verbatim>\<open>Math.max\<close> and the comparisons are exact.
  Overflow to an infinity, \<^verbatim>\<open>NaN\<close> and the sign of zero are not modelled: the model
  follows the source as long as no result reaches \<open>2\<^sup>1\<^sup>0\<^sup>2\<^sup>4\<close> in magnitude (\<open>2\<^sup>1\<^sup>2\<^sup>8\<close> for
  a number stored in a \<^verbatim>\<open>Float32Array\<close>). Numbers that are indices, counters or
  capacities are integers. Object identifiers are strings.
\<close>

definition roundEven :: "real \<Rightarrow> int" where
  "roundEven r =
     (let f = \<lfloor>r\<rfloor>; d = r - of_int f
      in if d < 1 / 2 then f else if 1 / 2 < d then f + 1 else if even f then f else f + 1)"

definition roundTo :: "int \<Rightarrow> int \<Rightarrow> real \<Rightarrow> real" where
  "roundTo p emin x =
     (if x = 0 then 0
      else (let e = max \<lfloor>log 2 \<bar>x\<bar>\<rfloor> emin;
                u = 2 powr of_int (e - p + 1)
            in of_int (roundEven (x / u)) * u))"

definition fl :: "real \<Rightarrow> real" where
  "fl x = roundTo 53 (- 1022) x"

definition fround :: "real \<Rightarrow> real" where
  "fround x = roundTo 24 (- 126) x"

section \<open>Shared types\<close>

record BoundingBox =
  bbox_x :: real
  bbox_y :: real
  bbox_width :: real
  bbox_height :: real

datatype LODLevel = Near | Mid | Far | Overview

record DrawObject =
  obj_id :: string
  obj_bbox :: "BoundingBox option"
  obj_zIndex :: "real option"

record Viewport =
  vp_scale :: real
  vp_lodLevel :: "LODLevel option"

record Rectangle =
  rect_x :: real
  rect_y :: real
  rect_width :: real
  rect_height :: real

text \<open>
  What the source throws: the node pool's two \<^verbatim>\<open>Error\<close>s, the
  \<^verbatim>\<open>TypeError\<close> of reading a field of \<^verbatim>\<open>obj.bbox!\<close> when the box is absent,
  and the \<^verbatim>\<open>RangeError\<close> of allocating an array of negative length.
\<close>

datatype error = NodePoolExhausted | InvalidPoolCapacity | TypeError | RangeError

section \<open>Chunk cache (ChunkManager.ts)\<close>

definition CHUNK_SIZE :: real where
  "CHUNK_SIZE = 1024"

record ChunkSegment =
  seg_objectId :: string
  seg_chunkKey :: "int \<times> int"
  seg_localX :: real
  seg_localY :: real
  seg_clipRect :: Rectangle
  seg_zIndex :: real
  seg_lod :: LODLevel

text \<open>
  A chunk key \<^verbatim>\<open>`${cx},${cy}`\<close> is modelled by the pair it prints (the source parses it
  back with \<^verbatim>\<open>split(',')\<close>), and a segment key \<^verbatim>\<open>`${objectId}:${chunkKey}`\<close> by the
  pair of its two parts. A JavaScript \<^verbatim>\<open>Map\<close> that is iterated is an association
  list in insertion order. \<open>previousLod\<close> is \<open>None\<close> for \<^verbatim>\<open>null\<close> and
  \<open>Some None\<close> for \<^verbatim>\<open>undefined\<close>. The children of the two PIXI containers are
  modelled by the identifiers of the objects drawn into them; \<open>liveRebuilds\<close> and
  \<open>textureRebuilds\<close> count the calls of \<^verbatim>\<open>rebuildLive\<close> and
  \<^verbatim>\<open>rebuildRenderTexture\<close> on the chunk (they are not fields of the source).
\<close>

type_synonym segmentKey = "string \<times> (int \<times> int)"

record Chunk =
  chunk_key :: "int \<times> int"
  sprite_x :: real
  sprite_y :: real
  segments :: "(segmentKey \<times> ChunkSegment) list"
  isDirty :: bool
  previousLod :: "LODLevel option option"
  updatedLodContent :: bool
  live_children :: "string list"
  render_children :: "string list"
  live_visible :: bool
  sprite_visible :: bool
  liveRebuilds :: nat
  textureRebuilds :: nat

definition newChunk :: "int \<Rightarrow> int \<Rightarrow> Chunk" where
  "newChunk cx cy =
     \<lparr> chunk_key = (cx, cy),
       sprite_x = fl (real_of_int cx * CHUNK_SIZE),
       sprite_y = fl (real_of_int cy * CHUNK_SIZE),
       segments = [],
       isDirty = True,
       previousLod = None,
       updatedLodContent = False,
       live_children = [],
       render_children = [],
       live_visible = True,
       sprite_visible = True,
       liveRebuilds = 0,
       textureRebuilds = 0 \<rparr>"

definition addSegment :: "Chunk \<Rightarrow> ChunkSegment \<Rightarrow> Chunk" where
  "addSegment c segment =
     (let segmentKey = (seg_objectId segment, seg_chunkKey segment)
      in if segmentKey \<notin> set (map fst (segments c))
         then c\<lparr> segments := AList.update segmentKey segment (segments c),
                 isDirty := True, updatedLodContent := True \<rparr>
         else c)"

text \<open>
  \<^verbatim>\<open>key.startsWith(`${objectId}:`)\<close> on a segment key: a chunk key holds no colon, so
  the prefix ends inside the identifier part of the key or at its colon.
\<close>

definition keyStartsWith :: "segmentKey \<Rightarrow> string \<Rightarrow> bool" where
  "keyStartsWith k objectId = prefix (objectId @ '':'') (fst k @ '':'')"

definition removeSegmentsByObjectId :: "Chunk \<Rightarrow> string \<Rightarrow> Chunk" where
  "removeSegmentsByObjectId c objectId =
     (let changed = list_ex (\<lambda>kv. keyStartsWith (fst kv) objectId) (segments c);
          c1 = c\<lparr> segments := filter (\<lambda>kv. \<not> keyStartsWith (fst kv) objectId) (segments c) \<rparr>
      in if changed then c1\<lparr> isDirty := True, updatedLodContent := True \<rparr> else c1)"

text \<open>
  \<^verbatim>\<open>drawObjectToPixi\<close> is the renderer plug-in; the cache only looks at whether it
  returns a display object or \<^verbatim>\<open>null\<close>, which is the parameter \<open>draws\<close>.
\<close>

fun rebuildLive_loop ::
  "(DrawObject \<Rightarrow> LODLevel \<Rightarrow> bool) \<Rightarrow> (string \<Rightarrow> DrawObject option) \<Rightarrow>
   (segmentKey \<times> ChunkSegment) list \<Rightarrow> string list \<Rightarrow> error + string list" where
  "rebuildLive_loop draws getObject [] children = Inr children"
| "rebuildLive_loop draws getObject (kv # rest) children =
     (case getObject (seg_objectId (snd kv)) of
        None \<Rightarrow> rebuildLive_loop draws getObject rest children
      | Some obj \<Rightarrow>
          if \<not> draws obj Near then rebuildLive_loop draws getObject rest children
          else (case obj_bbox obj of
                  None \<Rightarrow> Inl TypeError
                | Some bb \<Rightarrow> rebuildLive_loop draws getObject rest (children @ [obj_id obj])))"

definition rebuildLive ::
  "(DrawObject \<Rightarrow> LODLevel \<Rightarrow> bool) \<Rightarrow> (string \<Rightarrow> DrawObject option) \<Rightarrow> Chunk \<Rightarrow> error + Chunk" where
  "rebuildLive draws getObject c =
     (case rebuildLive_loop draws getObject (segments c) [] of
        Inl e \<Rightarrow> Inl e
      | Inr children \<Rightarrow> Inr (c\<lparr> live_children := children, liveRebuilds := Suc (liveRebuilds c) \<rparr>))"

fun rebuildRenderTexture_loop ::
  "(DrawObject \<Rightarrow> LODLevel \<Rightarrow> bool) \<Rightarrow> (string \<Rightarrow> DrawObject option) \<Rightarrow>
   (segmentKey \<times> ChunkSegment) list \<Rightarrow> string list \<Rightarrow> string list" where
  "rebuildRenderTexture_loop draws getObject [] children = children"
| "rebuildRenderTexture_loop draws getObject (kv # rest) children =
     (case getObject (seg_objectId (snd kv)) of
        None \<Rightarrow> rebuildRenderTexture_loop draws getObject rest children
      | Some obj \<Rightarrow>
          if \<not> draws obj (seg_lod (snd kv)) then rebuildRenderTexture_loop draws getObject rest children
          else rebuildRenderTexture_loop draws getObject rest (children @ [obj_id obj]))"

definition rebuildRenderTexture ::
  "(DrawObject \<Rightarrow> LODLevel \<Rightarrow> bool) \<Rightarrow> (string \<Rightarrow> DrawObject option) \<Rightarrow> Chunk \<Rightarrow> Chunk" where
  "rebuildRenderTexture draws getObject c =
     c\<lparr> render_children := rebuildRenderTexture_loop draws getObject (segments c) [],
        textureRebuilds := Suc (textureRebuilds c) \<rparr>"

definition computeLOD :: "BoundingBox \<Rightarrow> Viewport \<Rightarrow> LODLevel" where
  "computeLOD bbox viewport =
     (let pxDiag = fl (fl (sqrt (fl (fl ((bbox_width bbox)\<^sup>2) + fl ((bbox_height bbox)\<^sup>2))))
                         * vp_scale viewport)
      in if pxDiag \<ge> 130 then Near
         else if pxDiag \<ge> 60 then Mid
         else if pxDiag \<ge> 30 then Far
         else Overview)"

fun updateSegmentLods ::
  "Viewport \<Rightarrow> (string \<Rightarrow> DrawObject option) \<Rightarrow> (segmentKey \<times> ChunkSegment) list \<Rightarrow>
   error + (segmentKey \<times> ChunkSegment) list" where
  "updateSegmentLods viewport getObject [] = Inr []"
| "updateSegmentLods viewport getObject (kv # rest) =
     (case getObject (seg_objectId (snd kv)) of
        None \<Rightarrow>
          (case updateSegmentLods viewport getObject rest of
             Inl e \<Rightarrow> Inl e
           | Inr rest' \<Rightarrow> Inr (kv # rest'))
      | Some obj \<Rightarrow>
          (case obj_bbox obj of
             None \<Rightarrow> Inl TypeError
           | Some bb \<Rightarrow>
               (case updateSegmentLods viewport getObject rest of
                  Inl e \<Rightarrow> Inl e
                | Inr rest' \<Rightarrow>
                    Inr ((fst kv, (snd kv)\<lparr> seg_lod := computeLOD bb viewport \<rparr>) # rest'))))"

definition chunk_update ::
  "(DrawObject \<Rightarrow> LODLevel \<Rightarrow> bool) \<Rightarrow> Viewport \<Rightarrow> (string \<Rightarrow> DrawObject option) \<Rightarrow>
   Chunk \<Rightarrow> error + Chunk" where
  "chunk_update draws viewport getObject c =
     (let lod = vp_lodLevel viewport;
          c1 = (if previousLod c \<noteq> None \<and> previousLod c \<noteq> Some lod
                then (if (lod = Some Near \<or> previousLod c = Some (Some Near)) \<and> updatedLodContent c
                      then c\<lparr> isDirty := True, updatedLodContent := False \<rparr>
                      else c)
                else c);
          c2 = c1\<lparr> previousLod := Some lod \<rparr>
      in case updateSegmentLods viewport getObject (segments c2) of
           Inl e \<Rightarrow> Inl e
         | Inr segs \<Rightarrow>
             (let c3 = c2\<lparr> segments := segs \<rparr>
              in if lod = Some Near
                 then (if isDirty c3 \<or> length (live_children c3) = 0
                       then (case rebuildLive draws getObject c3 of
                               Inl e \<Rightarrow> Inl e
                             | Inr c4 \<Rightarrow>
                                 Inr (c4\<lparr> isDirty := False, live_visible := True, sprite_visible := False \<rparr>))
                       else Inr (c3\<lparr> live_visible := True, sprite_visible := False \<rparr>))
                 else (if isDirty c3
                       then Inr ((rebuildRenderTexture draws getObject c3)
                                   \<lparr> isDirty := False, live_visible := False, sprite_visible := True \<rparr>)
                       else Inr (c3\<lparr> live_visible := False, sprite_visible := True \<rparr>))))"

record ChunkManager =
  chunks :: "((int \<times> int) \<times> Chunk) list"
  objectToChunks :: "string \<Rightarrow> (int \<times> int) list option"
  objects :: "string \<Rightarrow> DrawObject option"

definition newChunkManager :: ChunkManager where
  "newChunkManager = \<lparr> chunks = [], objectToChunks = (\<lambda>_. None), objects = (\<lambda>_. None) \<rparr>"

text \<open>
  The two \<^verbatim>\<open>for\<close> loops of \<^verbatim>\<open>getChunksForBbox\<close> count a double up by one:
  \<^verbatim>\<open>for (let cx = left; cx <= right; cx++)\<close>. From \<open>2\<^sup>5\<^sup>3\<close> on the increment rounds back
  to the counter and the loop does not end: \<open>countUp\<close> is partial, and \<open>None\<close> is a call that
  does not return. The inner loop runs once for every column, with the same bounds each
  time. A counter that the loop does leave is an integer below \<open>2\<^sup>5\<^sup>3\<close> in magnitude, which
  prints as its digits and parses back to itself.
\<close>

partial_function (option) countUp :: "real \<Rightarrow> real \<Rightarrow> real list \<Rightarrow> real list option" where
  "countUp c hi acc = (if c \<le> hi then countUp (fl (c + 1)) hi (acc @ [c]) else Some acc)"

definition getChunksForBbox :: "BoundingBox \<Rightarrow> (int \<times> int) list option" where
  "getChunksForBbox bbox =
     (let left = real_of_int \<lfloor>fl (bbox_x bbox / CHUNK_SIZE)\<rfloor>;
          right = real_of_int \<lfloor>fl (fl (fl (bbox_x bbox + bbox_width bbox) - 1) / CHUNK_SIZE)\<rfloor>;
          top = real_of_int \<lfloor>fl (bbox_y bbox / CHUNK_SIZE)\<rfloor>;
          bottom = real_of_int \<lfloor>fl (fl (fl (bbox_y bbox + bbox_height bbox) - 1) / CHUNK_SIZE)\<rfloor>
      in case countUp left right [] of
           None \<Rightarrow> None
         | Some cols \<Rightarrow>
             if cols = [] then Some []
             else (case countUp top bottom [] of
                     None \<Rightarrow> None
                   | Some rows \<Rightarrow>
                       Some (concat (map (\<lambda>cx. map (\<lambda>cy. (\<lfloor>cx\<rfloor>, \<lfloor>cy\<rfloor>)) rows) cols))))"

definition segmentFor :: "DrawObject \<Rightarrow> BoundingBox \<Rightarrow> int \<times> int \<Rightarrow> ChunkSegment option" where
  "segmentFor obj bbox key =
     (let chunkX = fl (real_of_int (fst key) * CHUNK_SIZE);
          chunkY = fl (real_of_int (snd key) * CHUNK_SIZE);
          ix = max (bbox_x bbox) chunkX;
          iy = max (bbox_y bbox) chunkY;
          ax = min (fl (bbox_x bbox + bbox_width bbox)) (fl (chunkX + CHUNK_SIZE));
          ay = min (fl (bbox_y bbox + bbox_height bbox)) (fl (chunkY + CHUNK_SIZE))
      in if ax \<le> ix \<or> ay \<le> iy then None
         else Some \<lparr> seg_objectId = obj_id obj,
                     seg_chunkKey = key,
                     seg_localX = fl (ix - chunkX),
                     seg_localY = fl (iy - chunkY),
                     seg_clipRect = \<lparr> rect_x = fl (ix - bbox_x bbox), rect_y = fl (iy - bbox_y bbox),
                                      rect_width = fl (ax - ix), rect_height = fl (ay - iy) \<rparr>,
                     seg_zIndex = (case obj_zIndex obj of None \<Rightarrow> 0 | Some z \<Rightarrow> z),
                     seg_lod = Near \<rparr>)"

definition computeSegmentsForObject :: "DrawObject \<Rightarrow> ChunkSegment list option" where
  "computeSegmentsForObject obj =
     (case obj_bbox obj of
        None \<Rightarrow> Some []
      | Some bbox \<Rightarrow>
          (case getChunksForBbox bbox of
             None \<Rightarrow> None
           | Some keys \<Rightarrow> Some (List.map_filter (segmentFor obj bbox) keys)))"

definition installSegment ::
  "((int \<times> int) \<times> Chunk) list \<Rightarrow> ChunkSegment \<Rightarrow> ((int \<times> int) \<times> Chunk) list" where
  "installSegment cs segment =
     (let key = seg_chunkKey segment;
          chunk = (case map_of cs key of
                     None \<Rightarrow> newChunk (fst key) (snd key)
                   | Some c \<Rightarrow> c)
      in AList.update key (addSegment chunk segment) cs)"

definition removeOldSegments ::
  "string \<Rightarrow> ((int \<times> int) \<times> Chunk) list \<Rightarrow> (int \<times> int) \<Rightarrow> ((int \<times> int) \<times> Chunk) list" where
  "removeOldSegments objectId cs key =
     (case map_of cs key of
        None \<Rightarrow> cs
      | Some chunk \<Rightarrow> AList.update key (removeSegmentsByObjectId chunk objectId) cs)"

definition addObject :: "ChunkManager \<Rightarrow> DrawObject \<Rightarrow> ChunkManager option" where
  "addObject m obj =
     (case obj_bbox obj of
        None \<Rightarrow> Some m
      | Some bbox \<Rightarrow>
          (let objects1 = (objects m)(obj_id obj := Some obj);
               chunks1 = (case objectToChunks m (obj_id obj) of
                            None \<Rightarrow> chunks m
                          | Some oldChunkKeys \<Rightarrow>
                              foldl (removeOldSegments (obj_id obj)) (chunks m) oldChunkKeys)
           in case computeSegmentsForObject obj of
                None \<Rightarrow> None
              | Some segs \<Rightarrow>
                  (let chunks2 = foldl installSegment chunks1 segs;
                       newChunkKeys = remdups (map seg_chunkKey segs)
                   in Some \<lparr> chunks = chunks2,
                             objectToChunks = (objectToChunks m)(obj_id obj := Some newChunkKeys),
                             objects = objects1 \<rparr>)))"

fun addObjects :: "ChunkManager \<Rightarrow> DrawObject list \<Rightarrow> ChunkManager option" where
  "addObjects m [] = Some m"
| "addObjects m (obj # rest) =
     (case addObject m obj of
        None \<Rightarrow> None
      | Some m1 \<Rightarrow> addObjects m1 rest)"

text \<open>\<^verbatim>\<open>PIXI.Rectangle.intersects\<close> (library code), without a transform.\<close>

definition rect_intersects :: "Rectangle \<Rightarrow> Rectangle \<Rightarrow> bool" where
  "rect_intersects this other =
     (let x0 = (if rect_x this < rect_x other then rect_x other else rect_x this);
          x1 = (if fl (rect_x this + rect_width this) > fl (rect_x other + rect_width other)
                then fl (rect_x other + rect_width other) else fl (rect_x this + rect_width this))
      in if x1 \<le> x0 then False
         else (let y0 = (if rect_y this < rect_y other then rect_y other else rect_y this);
                   y1 = (if fl (rect_y this + rect_height this) > fl (rect_y other + rect_height other)
                         then fl (rect_y other + rect_height other)
                         else fl (rect_y this + rect_height this))
               in y1 > y0))"

definition chunkVisible :: "Rectangle \<Rightarrow> Chunk \<Rightarrow> bool" where
  "chunkVisible visible chunk =
     rect_intersects visible
       \<lparr> rect_x = sprite_x chunk, rect_y = sprite_y chunk,
         rect_width = CHUNK_SIZE, rect_height = CHUNK_SIZE \<rparr>"

fun updateChunks ::
  "(DrawObject \<Rightarrow> LODLevel \<Rightarrow> bool) \<Rightarrow> Viewport \<Rightarrow> Rectangle \<Rightarrow> (string \<Rightarrow> DrawObject option) \<Rightarrow>
   ((int \<times> int) \<times> Chunk) list \<Rightarrow> error + ((int \<times> int) \<times> Chunk) list" where
  "updateChunks draws viewport visible getObject [] = Inr []"
| "updateChunks draws viewport visible getObject (kc # rest) =
     (if chunkVisible visible (snd kc)
      then (case chunk_update draws viewport getObject (snd kc) of
              Inl e \<Rightarrow> Inl e
            | Inr c' \<Rightarrow>
                (case updateChunks draws viewport visible getObject rest of
                   Inl e \<Rightarrow> Inl e
                 | Inr rest' \<Rightarrow> Inr ((fst kc, c') # rest')))
      else (case updateChunks draws viewport visible getObject rest of
              Inl e \<Rightarrow> Inl e
            | Inr rest' \<Rightarrow> Inr (kc # rest')))"

definition updateVisibleChunks ::
  "(DrawObject \<Rightarrow> LODLevel \<Rightarrow> bool) \<Rightarrow> ChunkManager \<Rightarrow> Viewport \<Rightarrow> Rectangle \<Rightarrow> error + ChunkManager" where
  "updateVisibleChunks draws m viewport visible =
     (case updateChunks draws viewport visible (objects m) (chunks m) of
        Inl e \<Rightarrow> Inl e
      | Inr cs \<Rightarrow> Inr (m\<lparr> chunks := cs \<rparr>))"

section \<open>Quadtree node pool (ObjectStoreNode.ts)\<close>

text \<open>
  Typed arrays are total maps from the index to the cell; a store is modelled as taking
  effect, which is what the source does at every index below the array's length. The lengths
  that the source reads are kept as fields. A JavaScript array used as a stack
  (\<^verbatim>\<open>push\<close>/\<^verbatim>\<open>pop\<close>) is a list whose head is the top.
  \<^verbatim>\<open>Uint16Array\<close> and \<^verbatim>\<open>Uint8Array\<close> cells wrap on store.
\<close>

record NodeBounds =
  centerX :: real
  centerY :: real
  halfWidth :: real
  halfHeight :: real

definition NodeFlag_Leaf :: "8 word" where
  "NodeFlag_Leaf = 1"

record ObjectStoreNodePool =
  pool_capacity :: int
  pool_bounds :: "int \<Rightarrow> real"
  pool_firstObject :: "int \<Rightarrow> int"
  pool_objectCount :: "int \<Rightarrow> int"
  pool_parent :: "int \<Rightarrow> int"
  pool_children :: "int \<Rightarrow> int"
  pool_depth :: "int \<Rightarrow> int"
  pool_flags :: "int \<Rightarrow> 8 word"
  pool_freeList :: "int list"
  pool_nodeCount :: int

definition newNodePool :: "int \<Rightarrow> error + ObjectStoreNodePool" where
  "newNodePool capacity =
     (if capacity \<le> 0 then Inl InvalidPoolCapacity
      else Inr \<lparr> pool_capacity = capacity,
                 pool_bounds = (\<lambda>_. 0),
                 pool_firstObject = (\<lambda>_. - 1),
                 pool_objectCount = (\<lambda>_. 0),
                 pool_parent = (\<lambda>_. - 1),
                 pool_children = (\<lambda>_. - 1),
                 pool_depth = (\<lambda>_. 0),
                 pool_flags = (\<lambda>_. 0),
                 pool_freeList = [],
                 pool_nodeCount = 0 \<rparr>)"

definition obtainNodeId :: "ObjectStoreNodePool \<Rightarrow> error + (int \<times> ObjectStoreNodePool)" where
  "obtainNodeId pool =
     (case pool_freeList pool of
        nodeId # rest \<Rightarrow> Inr (nodeId, pool\<lparr> pool_freeList := rest \<rparr>)
      | [] \<Rightarrow>
          if pool_nodeCount pool \<ge> pool_capacity pool then Inl NodePoolExhausted
          else Inr (pool_nodeCount pool, pool\<lparr> pool_nodeCount := pool_nodeCount pool + 1 \<rparr>))"

definition allocateNode ::
  "ObjectStoreNodePool \<Rightarrow> int \<Rightarrow> int \<Rightarrow> NodeBounds \<Rightarrow> error + (int \<times> ObjectStoreNodePool)" where
  "allocateNode pool parentId depth bounds =
     (case obtainNodeId pool of
        Inl e \<Rightarrow> Inl e
      | Inr (nodeId, pool1) \<Rightarrow>
          (let offset = nodeId * 4;
               childrenOffset = nodeId * 4
           in Inr (nodeId,
                pool1\<lparr> pool_bounds := (pool_bounds pool1)
                          (offset := fround (centerX bounds), offset + 1 := fround (centerY bounds),
                           offset + 2 := fround (halfWidth bounds),
                           offset + 3 := fround (halfHeight bounds)),
                       pool_parent := (pool_parent pool1)(nodeId := parentId),
                       pool_depth := (pool_depth pool1)(nodeId := depth mod 256),
                       pool_flags := (pool_flags pool1)(nodeId := NodeFlag_Leaf),
                       pool_firstObject := (pool_firstObject pool1)(nodeId := - 1),
                       pool_objectCount := (pool_objectCount pool1)(nodeId := 0),
                       pool_children := (pool_children pool1)
                          (childrenOffset := - 1, childrenOffset + 1 := - 1,
                           childrenOffset + 2 := - 1, childrenOffset + 3 := - 1) \<rparr>)))"

definition releaseNode :: "ObjectStoreNodePool \<Rightarrow> int \<Rightarrow> ObjectStoreNodePool" where
  "releaseNode pool nodeId =
     (if nodeId < 0 \<or> nodeId \<ge> pool_capacity pool then pool
      else (let childrenOffset = nodeId * 4
            in pool\<lparr> pool_firstObject := (pool_firstObject pool)(nodeId := - 1),
                     pool_objectCount := (pool_objectCount pool)(nodeId := 0),
                     pool_flags := (pool_flags pool)(nodeId := NodeFlag_Leaf),
                     pool_children := (pool_children pool)
                        (childrenOffset := - 1, childrenOffset + 1 := - 1,
                         childrenOffset + 2 := - 1, childrenOffset + 3 := - 1),
                     pool_freeList := nodeId # pool_freeList pool \<rparr>))"

definition setLeaf :: "ObjectStoreNodePool \<Rightarrow> int \<Rightarrow> bool \<Rightarrow> ObjectStoreNodePool" where
  "setLeaf pool nodeId v =
     (if v then pool\<lparr> pool_flags := (pool_flags pool)(nodeId := pool_flags pool nodeId OR NodeFlag_Leaf) \<rparr>
      else pool\<lparr> pool_flags := (pool_flags pool)(nodeId := pool_flags pool nodeId AND NOT NodeFlag_Leaf) \<rparr>)"

definition isLeaf :: "ObjectStoreNodePool \<Rightarrow> int \<Rightarrow> bool" where
  "isLeaf pool nodeId = (pool_flags pool nodeId AND NodeFlag_Leaf \<noteq> 0)"

definition getParent :: "ObjectStoreNodePool \<Rightarrow> int \<Rightarrow> int" where
  "getParent pool nodeId = pool_parent pool nodeId"

definition getBounds :: "ObjectStoreNodePool \<Rightarrow> int \<Rightarrow> NodeBounds" where
  "getBounds pool nodeId =
     (let offset = nodeId * 4
      in \<lparr> centerX = pool_bounds pool offset, centerY = pool_bounds pool (offset + 1),
           halfWidth = pool_bounds pool (offset + 2), halfHeight = pool_bounds pool (offset + 3) \<rparr>)"

definition setBounds :: "ObjectStoreNodePool \<Rightarrow> int \<Rightarrow> NodeBounds \<Rightarrow> ObjectStoreNodePool" where
  "setBounds pool nodeId bounds =
     (let offset = nodeId * 4
      in pool\<lparr> pool_bounds := (pool_bounds pool)
                  (offset := fround (centerX bounds), offset + 1 := fround (centerY bounds),
                   offset + 2 := fround (halfWidth bounds),
                   offset + 3 := fround (halfHeight bounds)) \<rparr>)"

definition getFirstObject :: "ObjectStoreNodePool \<Rightarrow> int \<Rightarrow> int" where
  "getFirstObject pool nodeId = pool_firstObject pool nodeId"

definition setFirstObject :: "ObjectStoreNodePool \<Rightarrow> int \<Rightarrow> int \<Rightarrow> ObjectStoreNodePool" where
  "setFirstObject pool nodeId ref = pool\<lparr> pool_firstObject := (pool_firstObject pool)(nodeId := ref) \<rparr>"

definition getObjectCount :: "ObjectStoreNodePool \<Rightarrow> int \<Rightarrow> int" where
  "getObjectCount pool nodeId = pool_objectCount pool nodeId"

definition incrementObjectCount :: "ObjectStoreNodePool \<Rightarrow> int \<Rightarrow> ObjectStoreNodePool" where
  "incrementObjectCount pool nodeId =
     pool\<lparr> pool_objectCount := (pool_objectCount pool)(nodeId := (pool_objectCount pool nodeId + 1) mod 65536) \<rparr>"

definition decrementObjectCount :: "ObjectStoreNodePool \<Rightarrow> int \<Rightarrow> ObjectStoreNodePool" where
  "decrementObjectCount pool nodeId =
     (if pool_objectCount pool nodeId > 0
      then pool\<lparr> pool_objectCount := (pool_objectCount pool)(nodeId := pool_objectCount pool nodeId - 1) \<rparr>
      else pool)"

definition getChild :: "ObjectStoreNodePool \<Rightarrow> int \<Rightarrow> int \<Rightarrow> int" where
  "getChild pool nodeId index = pool_children pool (nodeId * 4 + index)"

definition setChild :: "ObjectStoreNodePool \<Rightarrow> int \<Rightarrow> int \<Rightarrow> int \<Rightarrow> ObjectStoreNodePool" where
  "setChild pool nodeId index childId =
     pool\<lparr> pool_children := (pool_children pool)(nodeId * 4 + index := childId) \<rparr>"

definition createRootBounds :: "BoundingBox \<Rightarrow> NodeBounds" where
  "createRootBounds worldBounds =
     (let hw = fl (bbox_width worldBounds / 2);
          hh = fl (bbox_height worldBounds / 2)
      in \<lparr> centerX = fl (bbox_x worldBounds + hw), centerY = fl (bbox_y worldBounds + hh),
           halfWidth = hw, halfHeight = hh \<rparr>)"

section \<open>Spatial index (ObjectStore.ts)\<close>

record LooseObjectStoreOptions =
  minNodeSize :: real
  maxDepth :: int
  maxObjectsPerNode :: int
  mergeThreshold :: int
  looseness :: real
  nodePoolSize :: int
  opt_objectCapacity :: int
  opt_objectRefCapacity :: int
  dynamicUpdateThreshold :: int
  dynamicUpdateWindow :: int

definition DEFAULT_OPTIONS :: LooseObjectStoreOptions where
  "DEFAULT_OPTIONS =
     \<lparr> minNodeSize = 256, maxDepth = 8, maxObjectsPerNode = 32, mergeThreshold = 12,
       looseness = 3 / 2, nodePoolSize = 16384, opt_objectCapacity = 4096,
       opt_objectRefCapacity = 4096, dynamicUpdateThreshold = 6, dynamicUpdateWindow = 16 \<rparr>"

definition Flags_None :: "32 word" where "Flags_None = 0"
definition Flags_Static :: "32 word" where "Flags_Static = 1"
definition Flags_Dynamic :: "32 word" where "Flags_Dynamic = 2"
definition Flags_Dirty :: "32 word" where "Flags_Dirty = 4"
definition Flags_Deleted :: "32 word" where "Flags_Deleted = 8"
definition Flags_Oversized :: "32 word" where "Flags_Oversized = 16"
definition Flags_TileCoverageDirty :: "32 word" where "Flags_TileCoverageDirty = 32"

record ObjectRecord =
  rec_id :: string
  rec_handle :: int
  rec_nodeId :: int
  rec_flags :: "32 word"
  rec_updateTicks :: int
  rec_windowTicks :: int

record InsertionResult =
  ins_handle :: int
  ins_nodeId :: int
  ins_flags :: "32 word"

datatype UpdateStatus = Updated | Moved | Failed

record UpdateResult =
  upd_handle :: int
  upd_nodeId :: int
  upd_flags :: "32 word"
  upd_status :: UpdateStatus

datatype FindMode = ModeAll | ModeNonDeleted

record FindOptions =
  includeDynamic :: "bool option"
  mode :: "FindMode option"

text \<open>
  The store. The handle-indexed typed arrays all have length \<open>objectCapacity\<close> and the
  reference-indexed ones length \<open>objectRefCapacity\<close> (the constructor and the two resize
  functions keep it so), so these two fields stand for their lengths; \<open>handleToId\<close> (a
  plain array) and \<open>dynamicHandles\<close> (grown on its own) carry their own length. The
  scratch buffers hold no state between calls and are not fields; their lengths are
  \<open>nodeStackLength\<close> and \<open>handleStackLength\<close>. The object map \<open>objectStore\<close>, whose
  size is read, is an association list.
\<close>

record ObjectStore =
  nodePool :: ObjectStoreNodePool
  objectIndex :: "string \<Rightarrow> ObjectRecord option"
  handleToId :: "int \<Rightarrow> string option"
  handleToId_length :: int
  objectStore :: "(string \<times> DrawObject) list"
  objectBounds :: "int \<Rightarrow> real"
  objectFlags :: "int \<Rightarrow> 32 word"
  objectNode :: "int \<Rightarrow> int"
  objectRefIndex :: "int \<Rightarrow> int"
  objectUpdateCounter :: "int \<Rightarrow> int"
  objectWindowCounter :: "int \<Rightarrow> int"
  objectRefHandle :: "int \<Rightarrow> int"
  objectRefNext :: "int \<Rightarrow> int"
  dynamicHandles :: "int \<Rightarrow> int"
  dynamicHandles_length :: int
  objectCapacity :: int
  objectRefCapacity :: int
  handleFreeList :: "int list"
  objectRefFreeList :: "int list"
  objectRefUsed :: int
  dynamicHandleCount :: int
  usedHandles :: int
  rootNodeId :: int
  externalGetter :: "(string \<Rightarrow> DrawObject option) option"

definition nodeStackLength :: "LooseObjectStoreOptions \<Rightarrow> int" where
  "nodeStackLength opts = maxDepth opts * 16"

definition handleStackLength :: "LooseObjectStoreOptions \<Rightarrow> int" where
  "handleStackLength opts = maxObjectsPerNode opts * 4"

definition newObjectStore :: "LooseObjectStoreOptions \<Rightarrow> error + ObjectStore" where
  "newObjectStore opts =
     (case newNodePool (nodePoolSize opts) of
        Inl e \<Rightarrow> Inl e
      | Inr pool \<Rightarrow>
          if opt_objectCapacity opts < 0 \<or> opt_objectRefCapacity opts < 0
             \<or> maxDepth opts < 0 \<or> maxObjectsPerNode opts < 0
          then Inl RangeError
          else (case allocateNode pool (- 1) 0
                       (createRootBounds \<lparr> bbox_x = 0, bbox_y = 0,
                          bbox_width = minNodeSize opts, bbox_height = minNodeSize opts \<rparr>) of
                  Inl e \<Rightarrow> Inl e
                | Inr (rootId, pool1) \<Rightarrow>
                    Inr \<lparr> nodePool = pool1,
                          objectIndex = (\<lambda>_. None),
                          handleToId = (\<lambda>_. None),
                          handleToId_length = opt_objectCapacity opts,
                          objectStore = [],
                          objectBounds = (\<lambda>_. 0),
                          objectFlags = (\<lambda>_. 0),
                          objectNode = (\<lambda>_. - 1),
                          objectRefIndex = (\<lambda>_. - 1),
                          objectUpdateCounter = (\<lambda>_. 0),
                          objectWindowCounter = (\<lambda>_. 0),
                          objectRefHandle = (\<lambda>_. 0),
                          objectRefNext = (\<lambda>_. - 1),
                          dynamicHandles = (\<lambda>_. 0),
                          dynamicHandles_length = opt_objectCapacity opts,
                          objectCapacity = opt_objectCapacity opts,
                          objectRefCapacity = opt_objectRefCapacity opts,
                          handleFreeList = [],
                          objectRefFreeList = [],
                          objectRefUsed = 0,
                          dynamicHandleCount = 0,
                          usedHandles = 0,
                          rootNodeId = rootId,
                          externalGetter = None \<rparr>))"

definition ensureRootBounds :: "LooseObjectStoreOptions \<Rightarrow> ObjectStore \<Rightarrow> BoundingBox \<Rightarrow> ObjectStore" where
  "ensureRootBounds opts s bbox =
     (let nb = getBounds (nodePool s) (rootNodeId s);
          minX = fl (centerX nb - halfWidth nb);
          maxX = fl (centerX nb + halfWidth nb);
          minY = fl (centerY nb - halfHeight nb);
          maxY = fl (centerY nb + halfHeight nb);
          bboxMinX = bbox_x bbox;
          bboxMaxX = fl (bbox_x bbox + bbox_width bbox);
          bboxMinY = bbox_y bbox;
          bboxMaxY = fl (bbox_y bbox + bbox_height bbox)
      in if bboxMinX \<ge> minX \<and> bboxMaxX \<le> maxX \<and> bboxMinY \<ge> minY \<and> bboxMaxY \<le> maxY then s
         else (let newCenterX = fl (min minX bboxMinX
                                     + fl (fl (max maxX bboxMaxX - min minX bboxMinX) / 2));
                   newCenterY = fl (min minY bboxMinY
                                     + fl (fl (max maxY bboxMaxY - min minY bboxMinY) / 2));
                   newHalfWidth = fl (fl (max maxX bboxMaxX - min minX bboxMinX) / 2);
                   newHalfHeight = fl (fl (max maxY bboxMaxY - min minY bboxMinY) / 2);
                   nextHalfWidth = max newHalfWidth (fl (minNodeSize opts / 2));
                   nextHalfHeight = max newHalfHeight (fl (minNodeSize opts / 2))
               in s\<lparr> nodePool := setBounds (nodePool s) (rootNodeId s)
                        \<lparr> centerX = newCenterX, centerY = newCenterY,
                          halfWidth = nextHalfWidth, halfHeight = nextHalfHeight \<rparr> \<rparr>))"

text \<open>New cells of a grown typed array: \<open>v\<close> from the old length up to the new one.\<close>

definition grown :: "(int \<Rightarrow> 'a) \<Rightarrow> int \<Rightarrow> int \<Rightarrow> 'a \<Rightarrow> (int \<Rightarrow> 'a)" where
  "grown a oldLength newLength v = (\<lambda>i. if oldLength \<le> i \<and> i < newLength then v else a i)"

definition resizeHandles :: "ObjectStore \<Rightarrow> int \<Rightarrow> ObjectStore" where
  "resizeHandles s newCapacity =
     (let oldCapacity = objectCapacity s
      in s\<lparr> objectCapacity := newCapacity,
            objectBounds := grown (objectBounds s) (oldCapacity * 4) (newCapacity * 4) 0,
            objectFlags := grown (objectFlags s) oldCapacity newCapacity 0,
            objectNode := grown (objectNode s) oldCapacity newCapacity (- 1),
            objectRefIndex := grown (objectRefIndex s) oldCapacity newCapacity (- 1),
            objectUpdateCounter := grown (objectUpdateCounter s) oldCapacity newCapacity 0,
            objectWindowCounter := grown (objectWindowCounter s) oldCapacity newCapacity 0,
            dynamicHandles := grown (dynamicHandles s) (dynamicHandles_length s) newCapacity 0,
            dynamicHandles_length := max (dynamicHandles_length s) newCapacity,
            handleToId := grown (handleToId s) oldCapacity newCapacity None,
            handleToId_length := (if oldCapacity < newCapacity
                                  then max (handleToId_length s) newCapacity
                                  else handleToId_length s) \<rparr>)"

definition expandHandles :: "ObjectStore \<Rightarrow> int \<times> ObjectStore" where
  "expandHandles s =
     (let s1 = (if objectCapacity s = handleToId_length s
                then resizeHandles s (objectCapacity s * 2) else s)
      in (usedHandles s1, s1))"

definition obtainHandle :: "ObjectStore \<Rightarrow> string \<Rightarrow> int \<times> ObjectStore" where
  "obtainHandle s objectId =
     (case objectIndex s objectId of
        Some r \<Rightarrow> (rec_handle r, s)
      | None \<Rightarrow>
          (let (handle, s1) =
                 (case handleFreeList s of
                    h # rest \<Rightarrow> (h, s\<lparr> handleFreeList := rest \<rparr>)
                  | [] \<Rightarrow> if usedHandles s \<ge> objectCapacity s then expandHandles s
                          else (usedHandles s, s))
           in (handle,
               s1\<lparr> usedHandles := usedHandles s1 + 1,
                    handleToId := (handleToId s1)(handle := Some objectId),
                    handleToId_length := max (handleToId_length s1) (handle + 1),
                    objectFlags := (objectFlags s1)(handle := Flags_None),
                    objectNode := (objectNode s1)(handle := - 1),
                    objectRefIndex := (objectRefIndex s1)(handle := - 1),
                    objectUpdateCounter := (objectUpdateCounter s1)(handle := 0),
                    objectWindowCounter := (objectWindowCounter s1)(handle := 0) \<rparr>)))"

definition writeBoundingBox :: "ObjectStore \<Rightarrow> int \<Rightarrow> BoundingBox \<Rightarrow> ObjectStore" where
  "writeBoundingBox s handle bbox =
     (let offset = handle * 4
      in s\<lparr> objectBounds := (objectBounds s)
               (offset := fround (bbox_x bbox), offset + 1 := fround (bbox_y bbox),
                offset + 2 := fround (bbox_width bbox),
                offset + 3 := fround (bbox_height bbox)) \<rparr>)"

definition readBoundingBox :: "ObjectStore \<Rightarrow> int \<Rightarrow> BoundingBox" where
  "readBoundingBox s handle =
     (let offset = handle * 4
      in \<lparr> bbox_x = objectBounds s offset, bbox_y = objectBounds s (offset + 1),
           bbox_width = objectBounds s (offset + 2), bbox_height = objectBounds s (offset + 3) \<rparr>)"

definition expandObjectRefs :: "ObjectStore \<Rightarrow> ObjectStore" where
  "expandObjectRefs s =
     (let newCapacity = objectRefCapacity s * 2
      in s\<lparr> objectRefCapacity := newCapacity,
            objectRefHandle := grown (objectRefHandle s) (objectRefCapacity s) newCapacity 0,
            objectRefNext := grown (objectRefNext s) (objectRefCapacity s) newCapacity (- 1) \<rparr>)"

definition obtainObjectRefIndex :: "ObjectStore \<Rightarrow> int \<times> ObjectStore" where
  "obtainObjectRefIndex s =
     (case objectRefFreeList s of
        r # rest \<Rightarrow> (r, s\<lparr> objectRefFreeList := rest \<rparr>)
      | [] \<Rightarrow>
          (let s1 = (if objectRefUsed s \<ge> objectRefCapacity s then expandObjectRefs s else s)
           in (objectRefUsed s1, s1\<lparr> objectRefUsed := objectRefUsed s1 + 1 \<rparr>)))"

definition attachToNode :: "ObjectStore \<Rightarrow> int \<Rightarrow> int \<Rightarrow> ObjectStore" where
  "attachToNode s handle nodeId =
     (let (refIndex, s1) = obtainObjectRefIndex s;
          first = getFirstObject (nodePool s1) nodeId
      in s1\<lparr> objectRefHandle := (objectRefHandle s1)(refIndex := handle),
             objectRefNext := (objectRefNext s1)(refIndex := first),
             nodePool := incrementObjectCount (setFirstObject (nodePool s1) nodeId refIndex) nodeId,
             objectRefIndex := (objectRefIndex s1)(handle := refIndex),
             objectNode := (objectNode s1)(handle := nodeId) \<rparr>)"

definition detachRef :: "ObjectStore \<Rightarrow> int \<Rightarrow> int \<Rightarrow> int \<Rightarrow> int option \<Rightarrow> ObjectStore" where
  "detachRef s nodeId refIndex prevRef handle =
     (let next = objectRefNext s refIndex;
          s1 = (if prevRef = - 1
                then s\<lparr> nodePool := setFirstObject (nodePool s) nodeId next \<rparr>
                else s\<lparr> objectRefNext := (objectRefNext s)(prevRef := next) \<rparr>);
          s2 = s1\<lparr> objectRefNext := (objectRefNext s1)(refIndex := - 1),
                   objectRefHandle := (objectRefHandle s1)(refIndex := 0) \<rparr>;
          s3 = (case handle of
                  None \<Rightarrow> s2
                | Some h \<Rightarrow>
                    if h \<ge> 0 \<and> h < objectCapacity s2 \<and> objectRefIndex s2 h = refIndex
                    then s2\<lparr> objectRefIndex := (objectRefIndex s2)(h := - 1),
                             objectNode := (objectNode s2)(h := - 1) \<rparr>
                    else s2)
      in s3\<lparr> objectRefFreeList := refIndex # objectRefFreeList s3,
             nodePool := decrementObjectCount (nodePool s3) nodeId \<rparr>)"

text \<open>
  The two list walks with no bound of their own (\<^verbatim>\<open>while (current !== -1)\<close> in
  \<^verbatim>\<open>purgeHandleFromNode\<close>, \<^verbatim>\<open>while (ref !== -1)\<close> in \<^verbatim>\<open>tryMerge\<close>) are partial:
  \<open>None\<close> is a walk that never ends. Whatever calls them returns an option, and a
  function that can also throw returns \<open>(error + 'a) option\<close>.
\<close>

partial_function (option) purgeFind ::
  "(int \<Rightarrow> int) \<Rightarrow> (int \<Rightarrow> int) \<Rightarrow> int \<Rightarrow> int \<Rightarrow> int \<Rightarrow> (int \<times> int) option option" where
  "purgeFind refNext refHandle handle current prev =
     (if current = - 1 then Some None
      else if refHandle current = handle then Some (Some (current, prev))
      else purgeFind refNext refHandle handle (refNext current) current)"

definition purgeHandleFromNode :: "ObjectStore \<Rightarrow> int \<Rightarrow> int \<Rightarrow> (bool \<times> ObjectStore) option" where
  "purgeHandleFromNode s handle nodeId =
     (if nodeId = - 1 then Some (False, s)
      else (case purgeFind (objectRefNext s) (objectRefHandle s) handle
                   (getFirstObject (nodePool s) nodeId) (- 1) of
              None \<Rightarrow> None
            | Some None \<Rightarrow> Some (False, s)
            | Some (Some (current, prev)) \<Rightarrow>
                Some (True, detachRef s nodeId current prev (Some handle))))"

partial_function (option) mergeWalk :: "ObjectStore \<Rightarrow> int \<Rightarrow> int \<Rightarrow> ObjectStore option" where
  "mergeWalk s parentId ref =
     (if ref = - 1 then Some s
      else (let s1 = attachToNode s (objectRefHandle s ref) parentId
            in mergeWalk s1 parentId (objectRefNext s1 ref)))"

fun mergeScan :: "ObjectStoreNodePool \<Rightarrow> int \<Rightarrow> int list \<Rightarrow> int \<Rightarrow> int \<times> bool" where
  "mergeScan pool parentId [] totalCount = (totalCount, True)"
| "mergeScan pool parentId (i # rest) totalCount =
     (let childId = getChild pool parentId i
      in if childId = - 1 then mergeScan pool parentId rest totalCount
         else if \<not> isLeaf pool childId then (totalCount, False)
         else mergeScan pool parentId rest (totalCount + getObjectCount pool childId))"

fun mergeChildren :: "ObjectStore \<Rightarrow> int \<Rightarrow> int list \<Rightarrow> ObjectStore option" where
  "mergeChildren s parentId [] = Some s"
| "mergeChildren s parentId (i # rest) =
     (let childId = getChild (nodePool s) parentId i
      in if childId = - 1 then mergeChildren s parentId rest
         else (case mergeWalk s parentId (getFirstObject (nodePool s) childId) of
                 None \<Rightarrow> None
               | Some s1 \<Rightarrow>
                   mergeChildren
                     (s1\<lparr> nodePool := setChild (releaseNode (nodePool s1) childId) parentId i (- 1) \<rparr>)
                     parentId rest))"

definition tryMerge :: "LooseObjectStoreOptions \<Rightarrow> ObjectStore \<Rightarrow> int \<Rightarrow> ObjectStore option" where
  "tryMerge opts s nodeId =
     (let parentId = getParent (nodePool s) nodeId
      in if parentId = - 1 then Some s
         else (let (totalCount, canMerge) = mergeScan (nodePool s) parentId [0, 1, 2, 3] 0
               in if \<not> canMerge \<or> totalCount > mergeThreshold opts then Some s
                  else (case mergeChildren s parentId [0, 1, 2, 3] of
                          None \<Rightarrow> None
                        | Some s1 \<Rightarrow> Some (s1\<lparr> nodePool := setLeaf (nodePool s1) parentId True \<rparr>))))"

definition detachFromNode :: "LooseObjectStoreOptions \<Rightarrow> ObjectStore \<Rightarrow> int \<Rightarrow> int \<Rightarrow> ObjectStore option" where
  "detachFromNode opts s handle nodeId =
     (if nodeId = - 1 then Some s
      else (case purgeHandleFromNode s handle nodeId of
              None \<Rightarrow> None
            | Some (removed, s1) \<Rightarrow> if removed then tryMerge opts s1 nodeId else Some s1))"

definition selectChild :: "LooseObjectStoreOptions \<Rightarrow> ObjectStore \<Rightarrow> int \<Rightarrow> BoundingBox \<Rightarrow> int \<Rightarrow> int" where
  "selectChild opts s nodeId bbox depth =
     (if depth \<ge> maxDepth opts then - 1
      else (let nb = getBounds (nodePool s) nodeId;
                width = halfWidth nb;
                height = halfHeight nb
            in if width \<le> minNodeSize opts \<and> height \<le> minNodeSize opts then - 1
               else (let midX = centerX nb;
                         midY = centerY nb;
                         bboxMinX = bbox_x bbox;
                         bboxMinY = bbox_y bbox;
                         bboxMaxX = fl (bbox_x bbox + bbox_width bbox);
                         bboxMaxY = fl (bbox_y bbox + bbox_height bbox);
                         fitsLeft = (bboxMaxX \<le> midX);
                         fitsRight = (bboxMinX \<ge> midX);
                         fitsTop = (bboxMaxY \<le> midY);
                         fitsBottom = (bboxMinY \<ge> midY)
                     in if fitsLeft then (if fitsTop then 0 else if fitsBottom then 2 else - 1)
                        else if fitsRight then (if fitsTop then 1 else if fitsBottom then 3 else - 1)
                        else - 1)))"

text \<open>
  \<^verbatim>\<open>redistribute\<close> first copies at most \<^verbatim>\<open>handleStack.length\<close> handles of the node's
  list into the scratch buffer, then moves each one that fits a child.
\<close>

fun collectHandles :: "ObjectStore \<Rightarrow> int \<Rightarrow> nat \<Rightarrow> int list" where
  "collectHandles s ref 0 = []"
| "collectHandles s ref (Suc n) =
     (if ref = - 1 then []
      else objectRefHandle s ref # collectHandles s (objectRefNext s ref) n)"

fun redistribute_loop ::
  "LooseObjectStoreOptions \<Rightarrow> ObjectStore \<Rightarrow> int \<Rightarrow> int \<Rightarrow> int list \<Rightarrow> ObjectStore option" where
  "redistribute_loop opts s nodeId depth [] = Some s"
| "redistribute_loop opts s nodeId depth (handle # rest) =
     (let childIndex = selectChild opts s nodeId (readBoundingBox s handle) depth
      in if childIndex \<noteq> - 1
         then (let childId = getChild (nodePool s) nodeId childIndex
               in if childId \<noteq> - 1
                  then (case detachFromNode opts s handle nodeId of
                          None \<Rightarrow> None
                        | Some s1 \<Rightarrow>
                            redistribute_loop opts (attachToNode s1 handle childId) nodeId depth rest)
                  else redistribute_loop opts s nodeId depth rest)
         else redistribute_loop opts s nodeId depth rest)"

definition redistribute :: "LooseObjectStoreOptions \<Rightarrow> ObjectStore \<Rightarrow> int \<Rightarrow> int \<Rightarrow> ObjectStore option" where
  "redistribute opts s nodeId depth =
     redistribute_loop opts s nodeId depth
       (collectHandles s (getFirstObject (nodePool s) nodeId) (nat (handleStackLength opts)))"

fun allocateChildren ::
  "ObjectStoreNodePool \<Rightarrow> int \<Rightarrow> int \<Rightarrow> (int \<times> NodeBounds) list \<Rightarrow> error + ObjectStoreNodePool" where
  "allocateChildren pool nodeId childDepth [] = Inr pool"
| "allocateChildren pool nodeId childDepth (ib # rest) =
     (case allocateNode pool nodeId childDepth (snd ib) of
        Inl e \<Rightarrow> Inl e
      | Inr (childId, pool1) \<Rightarrow>
          allocateChildren (setChild pool1 nodeId (fst ib) childId) nodeId childDepth rest)"

definition splitNode ::
  "LooseObjectStoreOptions \<Rightarrow> ObjectStore \<Rightarrow> int \<Rightarrow> int \<Rightarrow> (error + ObjectStore) option" where
  "splitNode opts s nodeId depth =
     (let pool0 = setLeaf (nodePool s) nodeId False;
          nb = getBounds pool0 nodeId;
          hw = fl (halfWidth nb / 2);
          hh = fl (halfHeight nb / 2);
          cx = centerX nb;
          cy = centerY nb;
          childDepth = depth + 1;
          childBounds =
            [(0, \<lparr> centerX = fl (cx - hw), centerY = fl (cy - hh), halfWidth = hw, halfHeight = hh \<rparr>),
             (1, \<lparr> centerX = fl (cx + hw), centerY = fl (cy - hh), halfWidth = hw, halfHeight = hh \<rparr>),
             (2, \<lparr> centerX = fl (cx - hw), centerY = fl (cy + hh), halfWidth = hw, halfHeight = hh \<rparr>),
             (3, \<lparr> centerX = fl (cx + hw), centerY = fl (cy + hh), halfWidth = hw, halfHeight = hh \<rparr>)]
      in case allocateChildren pool0 nodeId childDepth childBounds of
           Inl e \<Rightarrow> Some (Inl e)
         | Inr pool1 \<Rightarrow>
             (case redistribute opts (s\<lparr> nodePool := pool1 \<rparr>) nodeId depth of
                None \<Rightarrow> None
              | Some s1 \<Rightarrow> Some (Inr s1)))"

text \<open>
  One pass of the \<^verbatim>\<open>while (true)\<close> body of \<^verbatim>\<open>insertHandle\<close> up to the descent:
  the state after the split, if one happened, and the child to descend into, or \<open>None\<close>
  when the handle is attached to this node.
\<close>

definition insertHandle_step ::
  "LooseObjectStoreOptions \<Rightarrow> ObjectStore \<Rightarrow> BoundingBox \<Rightarrow> int \<Rightarrow> int \<Rightarrow>
   (error + (ObjectStore \<times> int option)) option" where
  "insertHandle_step opts s bbox nodeId depth =
     (let descend = (\<lambda>s1.
            (let childIndex = selectChild opts s1 nodeId bbox depth
             in if childIndex = - 1 then (s1, None)
                else (let childId = getChild (nodePool s1) nodeId childIndex
                      in if childId = - 1 then (s1, None) else (s1, Some childId))))
      in if isLeaf (nodePool s) nodeId
         then (if getObjectCount (nodePool s) nodeId < maxObjectsPerNode opts \<or> depth \<ge> maxDepth opts
               then Some (Inr (s, None))
               else (case splitNode opts s nodeId depth of
                       None \<Rightarrow> None
                     | Some (Inl e) \<Rightarrow> Some (Inl e)
                     | Some (Inr s1) \<Rightarrow> Some (Inr (descend s1))))
         else Some (Inr (descend s)))"

function insertHandle_loop ::
  "LooseObjectStoreOptions \<Rightarrow> ObjectStore \<Rightarrow> int \<Rightarrow> BoundingBox \<Rightarrow> int \<Rightarrow> int \<Rightarrow>
   (error + (int \<times> ObjectStore)) option" where
  "insertHandle_loop opts s handle bbox nodeId depth =
     (case insertHandle_step opts s bbox nodeId depth of
        None \<Rightarrow> None
      | Some (Inl e) \<Rightarrow> Some (Inl e)
      | Some (Inr (s1, None)) \<Rightarrow> Some (Inr (nodeId, attachToNode s1 handle nodeId))
      | Some (Inr (s1, Some childId)) \<Rightarrow>
          if depth + 1 > maxDepth opts + 5
          then Some (Inr (childId, attachToNode s1 handle childId))
          else insertHandle_loop opts s1 handle bbox childId (depth + 1))"
  by pat_completeness auto
termination
  by (relation "measure (\<lambda>(opts, s, handle, bbox, nodeId, depth). nat (maxDepth opts + 6 - depth))") auto

declare insertHandle_loop.simps [simp del]

definition insertHandle ::
  "LooseObjectStoreOptions \<Rightarrow> ObjectStore \<Rightarrow> int \<Rightarrow> BoundingBox \<Rightarrow> (error + (int \<times> ObjectStore)) option" where
  "insertHandle opts s handle bbox =
     (let s1 = ensureRootBounds opts s bbox
      in insertHandle_loop opts s1 handle bbox (rootNodeId s1) 0)"

definition fitsNode :: "LooseObjectStoreOptions \<Rightarrow> ObjectStore \<Rightarrow> int \<Rightarrow> BoundingBox \<Rightarrow> bool" where
  "fitsNode opts s nodeId bbox =
     (let nb = getBounds (nodePool s) nodeId;
          hw = fl (halfWidth nb * looseness opts);
          hh = fl (halfHeight nb * looseness opts);
          minX = fl (centerX nb - hw);
          minY = fl (centerY nb - hh);
          maxX = fl (centerX nb + hw);
          maxY = fl (centerY nb + hh)
      in bbox_x bbox \<ge> minX \<and> bbox_y bbox \<ge> minY
         \<and> fl (bbox_x bbox + bbox_width bbox) \<le> maxX
         \<and> fl (bbox_y bbox + bbox_height bbox) \<le> maxY)"

text \<open>
  The public operations. \<open>insertObj\<close>, \<open>removeObj\<close>, \<open>getObj\<close> and \<open>addObj\<close> are the
  methods \<^verbatim>\<open>insert\<close>, \<^verbatim>\<open>remove\<close>, \<^verbatim>\<open>get\<close> and \<^verbatim>\<open>add\<close>.
\<close>

definition insertObj ::
  "LooseObjectStoreOptions \<Rightarrow> ObjectStore \<Rightarrow> string \<Rightarrow> BoundingBox \<Rightarrow> 32 word \<Rightarrow>
   (error + (InsertionResult \<times> ObjectStore)) option" where
  "insertObj opts s objectId bbox flags =
     (let (handle, s1) = obtainHandle s objectId;
          s2 = writeBoundingBox s1 handle bbox;
          s3 = ensureRootBounds opts s2 bbox;
          nodeId0 = objectNode s3 handle
      in case (if nodeId0 \<noteq> - 1 then purgeHandleFromNode s3 handle nodeId0 else Some (False, s3)) of
           None \<Rightarrow> None
         | Some (removed, s4) \<Rightarrow>
             (case insertHandle opts s4 handle bbox of
                None \<Rightarrow> None
              | Some (Inl e) \<Rightarrow> Some (Inl e)
              | Some (Inr (nodeId, s5)) \<Rightarrow>
                  Some (Inr
                    (\<lparr> ins_handle = handle, ins_nodeId = nodeId, ins_flags = flags \<rparr>,
                     s5\<lparr> objectIndex := (objectIndex s5)(objectId :=
                            Some \<lparr> rec_id = objectId, rec_handle = handle, rec_nodeId = nodeId,
                                   rec_flags = flags, rec_updateTicks = 0, rec_windowTicks = 0 \<rparr>),
                          objectNode := (objectNode s5)(handle := nodeId),
                          objectFlags := (objectFlags s5)(handle := flags) \<rparr>))))"

definition removeObj :: "LooseObjectStoreOptions \<Rightarrow> ObjectStore \<Rightarrow> string \<Rightarrow> ObjectStore option" where
  "removeObj opts s objectId =
     (case objectIndex s objectId of
        None \<Rightarrow> Some s
      | Some record \<Rightarrow>
          (case detachFromNode opts s (rec_handle record) (rec_nodeId record) of
             None \<Rightarrow> None
           | Some s1 \<Rightarrow>
               (let h = rec_handle record
                in Some (s1\<lparr> objectFlags := (objectFlags s1)(h := objectFlags s1 h OR Flags_Deleted),
                             handleToId := (handleToId s1)(h := None),
                             handleToId_length := max (handleToId_length s1) (h + 1),
                             objectIndex := (objectIndex s1)(objectId := None),
                             objectNode := (objectNode s1)(h := - 1),
                             objectRefIndex := (objectRefIndex s1)(h := - 1),
                             handleFreeList := h # handleFreeList s1,
                             usedHandles := usedHandles s1 - 1 \<rparr>))))"

definition bumpDynamicCounters :: "LooseObjectStoreOptions \<Rightarrow> ObjectStore \<Rightarrow> int \<Rightarrow> ObjectStore" where
  "bumpDynamicCounters opts s handle =
     (let updateCount = objectUpdateCounter s handle + 1;
          s1 = s\<lparr> objectUpdateCounter := (objectUpdateCounter s)(handle := updateCount mod 65536) \<rparr>;
          windowCount = objectWindowCounter s1 handle + 1;
          s2 = s1\<lparr> objectWindowCounter := (objectWindowCounter s1)(handle := windowCount mod 65536) \<rparr>;
          s3 = (if windowCount \<ge> dynamicUpdateWindow opts
                then s2\<lparr> objectUpdateCounter := (objectUpdateCounter s2)(handle := 0),
                         objectWindowCounter := (objectWindowCounter s2)(handle := 0) \<rparr>
                else s2)
      in if updateCount \<ge> dynamicUpdateThreshold opts
         then (if objectFlags s3 handle AND Flags_Dynamic = 0
               then (let s4 = s3\<lparr> objectFlags := (objectFlags s3)(handle := objectFlags s3 handle OR Flags_Dynamic) \<rparr>;
                         s5 = (if dynamicHandleCount s4 \<ge> dynamicHandles_length s4
                               then s4\<lparr> dynamicHandles := grown (dynamicHandles s4) (dynamicHandles_length s4)
                                                           (dynamicHandles_length s4 * 2) 0,
                                        dynamicHandles_length := max (dynamicHandles_length s4)
                                                                   (dynamicHandles_length s4 * 2) \<rparr>
                               else s4)
                     in s5\<lparr> dynamicHandles := (dynamicHandles s5)(dynamicHandleCount s5 := handle),
                            dynamicHandleCount := dynamicHandleCount s5 + 1 \<rparr>)
               else s3)
         else s3)"

definition finishUpdate ::
  "LooseObjectStoreOptions \<Rightarrow> ObjectStore \<Rightarrow> int \<Rightarrow> int \<Rightarrow> UpdateStatus \<Rightarrow> UpdateResult \<times> ObjectStore" where
  "finishUpdate opts s handle newNode status =
     (let s1 = s\<lparr> objectFlags := (objectFlags s)
                   (handle := objectFlags s handle OR (Flags_Dirty OR Flags_TileCoverageDirty)) \<rparr>;
          s2 = bumpDynamicCounters opts s1 handle
      in (\<lparr> upd_handle = handle, upd_nodeId = newNode, upd_flags = objectFlags s2 handle,
            upd_status = status \<rparr>, s2))"

definition updateBoundingBox ::
  "LooseObjectStoreOptions \<Rightarrow> ObjectStore \<Rightarrow> string \<Rightarrow> BoundingBox \<Rightarrow>
   (error + (UpdateResult \<times> ObjectStore)) option" where
  "updateBoundingBox opts s objectId bbox =
     (case objectIndex s objectId of
        None \<Rightarrow>
          Some (Inr (\<lparr> upd_handle = - 1, upd_nodeId = - 1, upd_flags = Flags_None,
                       upd_status = Failed \<rparr>, s))
      | Some record \<Rightarrow>
          (let handle = rec_handle record;
               currentNode = rec_nodeId record;
               s1 = writeBoundingBox s handle bbox;
               record1 = record\<lparr> rec_flags := objectFlags s1 handle \<rparr>;
               s2 = s1\<lparr> objectIndex := (objectIndex s1)(objectId := Some record1) \<rparr>
           in if \<not> fitsNode opts s2 currentNode bbox
              then (case detachFromNode opts s2 handle currentNode of
                      None \<Rightarrow> None
                    | Some s3 \<Rightarrow>
                        (case insertHandle opts s3 handle bbox of
                           None \<Rightarrow> None
                         | Some (Inl e) \<Rightarrow> Some (Inl e)
                         | Some (Inr (newNode, s4)) \<Rightarrow>
                             Some (Inr (finishUpdate opts
                               (s4\<lparr> objectIndex := (objectIndex s4)
                                       (objectId := Some (record1\<lparr> rec_nodeId := newNode \<rparr>)),
                                     objectNode := (objectNode s4)(handle := newNode) \<rparr>)
                               handle newNode Moved))))
              else Some (Inr (finishUpdate opts s2 handle currentNode Updated))))"

definition getObj :: "ObjectStore \<Rightarrow> string \<Rightarrow> DrawObject option" where
  "getObj s objectId =
     (case externalGetter s of
        Some getter \<Rightarrow> getter objectId
      | None \<Rightarrow> map_of (objectStore s) objectId)"

text \<open>
  \<^verbatim>\<open>ObjectUtils.getObjectBoundingBox\<close> computes a box from the drawing content, which the
  index does not look at; it is the parameter \<open>getObjectBoundingBox\<close>.
\<close>

definition ensureBoundingBox :: "(DrawObject \<Rightarrow> BoundingBox) \<Rightarrow> DrawObject \<Rightarrow> DrawObject \<times> BoundingBox" where
  "ensureBoundingBox getObjectBoundingBox obj =
     (case obj_bbox obj of
        None \<Rightarrow> (obj\<lparr> obj_bbox := Some (getObjectBoundingBox obj) \<rparr>, getObjectBoundingBox obj)
      | Some bbox \<Rightarrow> (obj, bbox))"

definition addObj ::
  "LooseObjectStoreOptions \<Rightarrow> (DrawObject \<Rightarrow> BoundingBox) \<Rightarrow> ObjectStore \<Rightarrow> DrawObject \<Rightarrow>
   (error + ObjectStore) option" where
  "addObj opts getObjectBoundingBox s obj =
     (let (obj1, bbox) = ensureBoundingBox getObjectBoundingBox obj;
          obj2 = (if obj_zIndex obj1 = None \<or> obj_zIndex obj1 = Some 0
                  then obj1\<lparr> obj_zIndex := Some (real (length (objectStore s))) \<rparr>
                  else obj1);
          s1 = s\<lparr> objectStore := AList.update (obj_id obj2) obj2 (objectStore s) \<rparr>
      in case objectIndex s1 (obj_id obj2) of
           Some existing \<Rightarrow>
             (case updateBoundingBox opts s1 (obj_id obj2) bbox of
                None \<Rightarrow> None
              | Some (Inl e) \<Rightarrow> Some (Inl e)
              | Some (Inr (res, s2)) \<Rightarrow> Some (Inr s2))
         | None \<Rightarrow>
             (case insertObj opts s1 (obj_id obj2) bbox Flags_None of
                None \<Rightarrow> None
              | Some (Inl e) \<Rightarrow> Some (Inl e)
              | Some (Inr (res, s2)) \<Rightarrow> Some (Inr s2)))"

subsection \<open>Region query\<close>

definition bboxIntersects :: "BoundingBox \<Rightarrow> BoundingBox \<Rightarrow> bool" where
  "bboxIntersects lhs rhs =
     (let lhsMaxX = fl (bbox_x lhs + bbox_width lhs);
          lhsMaxY = fl (bbox_y lhs + bbox_height lhs);
          rhsMaxX = fl (bbox_x rhs + bbox_width rhs);
          rhsMaxY = fl (bbox_y rhs + bbox_height rhs)
      in bbox_x lhs < rhsMaxX \<and> lhsMaxX > bbox_x rhs \<and> bbox_y lhs < rhsMaxY \<and> lhsMaxY > bbox_y rhs)"

definition nodeIntersects :: "LooseObjectStoreOptions \<Rightarrow> ObjectStore \<Rightarrow> int \<Rightarrow> BoundingBox \<Rightarrow> bool" where
  "nodeIntersects opts s nodeId bounds =
     (let nb = getBounds (nodePool s) nodeId;
          minX = fl (centerX nb - fl (halfWidth nb * looseness opts));
          maxX = fl (centerX nb + fl (halfWidth nb * looseness opts));
          minY = fl (centerY nb - fl (halfHeight nb * looseness opts));
          maxY = fl (centerY nb + fl (halfHeight nb * looseness opts));
          boundsMaxX = fl (bbox_x bounds + bbox_width bounds);
          boundsMaxY = fl (bbox_y bounds + bbox_height bounds)
      in minX < boundsMaxX \<and> maxX > bbox_x bounds \<and> minY < boundsMaxY \<and> maxY > bbox_y bounds)"

text \<open>
  The test that makes the query skip and purge a reference:
  \<^verbatim>\<open>!this.handleToId[handle]\<close> holds for \<^verbatim>\<open>null\<close> and for the empty string.
\<close>

definition staleHandle :: "ObjectStore \<Rightarrow> int \<Rightarrow> int \<Rightarrow> bool" where
  "staleHandle s nodeId handle =
     (handle < 0 \<or> handle \<ge> objectCapacity s
      \<or> handleToId s handle = None \<or> handleToId s handle = Some []
      \<or> objectNode s handle \<noteq> nodeId
      \<or> objectFlags s handle AND Flags_Deleted \<noteq> 0)"

text \<open>
  The inner \<^verbatim>\<open>while\<close> of \<^verbatim>\<open>findInBounds\<close> over one node's reference list. The result
  is: whether the output buffer became full (the source returns at once), the store, the
  count, the buffer and the number of references traversed. The output buffer is a list of
  fixed length; a store beyond its length is dropped, as a typed array does.
\<close>

function walkRefs ::
  "bool \<Rightarrow> FindMode \<Rightarrow> ObjectStore \<Rightarrow> int \<Rightarrow> BoundingBox \<Rightarrow> int \<Rightarrow> int \<Rightarrow> int \<Rightarrow> int \<Rightarrow>
   int \<Rightarrow> int list \<Rightarrow> bool \<times> ObjectStore \<times> int \<times> int list \<times> int" where
  "walkRefs incDyn md s nodeId bounds ref prevRef traversedObjs maxTraverse count out =
     (if ref \<noteq> - 1 \<and> traversedObjs < maxTraverse
      then (if ref < 0 \<or> ref \<ge> objectRefCapacity s
            then (False, s, count, out, traversedObjs + 1)
            else (let handle = objectRefHandle s ref
                  in if staleHandle s nodeId handle
                     then walkRefs incDyn md (detachRef s nodeId ref prevRef (Some handle)) nodeId bounds
                            (objectRefNext s ref) prevRef (traversedObjs + 1) maxTraverse count out
                     else (let flags = objectFlags s handle
                           in if (md = ModeAll \<or> flags AND Flags_Deleted = 0)
                                 \<and> bboxIntersects (readBoundingBox s handle) bounds
                                 \<and> (incDyn \<or> flags AND Flags_Dynamic = 0)
                              then (if count + 1 \<ge> int (length out)
                                    then (True, s, count + 1, out[nat count := handle], traversedObjs + 1)
                                    else walkRefs incDyn md s nodeId bounds (objectRefNext s ref) ref
                                           (traversedObjs + 1) maxTraverse (count + 1)
                                           (out[nat count := handle]))
                              else walkRefs incDyn md s nodeId bounds (objectRefNext s ref) ref
                                     (traversedObjs + 1) maxTraverse count out)))
      else (False, s, count, out, traversedObjs))"
  by pat_completeness auto
termination
  by (relation "measure (\<lambda>(incDyn, md, s, nodeId, bounds, ref, prevRef, traversedObjs, maxTraverse, count, out).
                  nat (maxTraverse - traversedObjs))") auto

declare walkRefs.simps [simp del]

text \<open>
  The node stack is a list, top first, whose length is \<^verbatim>\<open>stackSize\<close>. A push at an index
  beyond the length of the scratch \<^verbatim>\<open>Int32Array\<close> is dropped by the array, and the pop
  reads \<^verbatim>\<open>undefined\<close> there: such an entry is \<open>None\<close>, and \<^verbatim>\<open>nodeIntersects\<close> is false
  for it (its comparisons are on \<^verbatim>\<open>NaN\<close>).
\<close>

fun pushChildren ::
  "LooseObjectStoreOptions \<Rightarrow> ObjectStoreNodePool \<Rightarrow> int \<Rightarrow> int list \<Rightarrow> int option list \<Rightarrow> int option list" where
  "pushChildren opts pool nodeId [] stack = stack"
| "pushChildren opts pool nodeId (i # rest) stack =
     (let childId = getChild pool nodeId i
      in if childId \<noteq> - 1
         then pushChildren opts pool nodeId rest
                ((if int (length stack) < nodeStackLength opts then Some childId else None) # stack)
         else pushChildren opts pool nodeId rest stack)"

function findLoop ::
  "LooseObjectStoreOptions \<Rightarrow> bool \<Rightarrow> FindMode \<Rightarrow> ObjectStore \<Rightarrow> BoundingBox \<Rightarrow> int option list \<Rightarrow>
   int \<Rightarrow> int \<Rightarrow> int list \<Rightarrow> int \<times> int list \<times> ObjectStore" where
  "findLoop opts incDyn md s bounds stack nodeVisitCount count out =
     (case stack of
        [] \<Rightarrow> (count, out, s)
      | entry # rest \<Rightarrow>
          if nodeVisitCount + 1 > 10000 then (0, out, s)
          else (case entry of
                  None \<Rightarrow> findLoop opts incDyn md s bounds rest (nodeVisitCount + 1) count out
                | Some nodeId \<Rightarrow>
                    if \<not> nodeIntersects opts s nodeId bounds
                    then findLoop opts incDyn md s bounds rest (nodeVisitCount + 1) count out
                    else (let firstRef = getFirstObject (nodePool s) nodeId;
                              expectedObjCount = getObjectCount (nodePool s) nodeId;
                              maxTraverse = expectedObjCount * 2 + 10
                          in case walkRefs incDyn md s nodeId bounds firstRef (- 1) 0 maxTraverse count out of
                               (full, s1, count1, out1, traversedObjs) \<Rightarrow>
                                 if full then (count1, out1, s1)
                                 else if traversedObjs \<ge> maxTraverse then (count1, out1, s1)
                                 else findLoop opts incDyn md s1 bounds
                                        (pushChildren opts (nodePool s1) nodeId [0, 1, 2, 3] rest)
                                        (nodeVisitCount + 1) count1 out1)))"
  by pat_completeness auto
termination
  by (relation "measure (\<lambda>(opts, incDyn, md, s, bounds, stack, nodeVisitCount, count, out).
                  nat (10001 - nodeVisitCount))") auto

declare findLoop.simps [simp del]

definition findInBounds ::
  "LooseObjectStoreOptions \<Rightarrow> ObjectStore \<Rightarrow> BoundingBox \<Rightarrow> int list \<Rightarrow> FindOptions \<Rightarrow>
   int \<times> int list \<times> ObjectStore" where
  "findInBounds opts s bounds outBuffer options =
     (let incDyn = (case includeDynamic options of None \<Rightarrow> True | Some b \<Rightarrow> b);
          md = (case mode options of None \<Rightarrow> ModeNonDeleted | Some m \<Rightarrow> m);
          stack = [if 0 < nodeStackLength opts then Some (rootNodeId s) else None]
      in findLoop opts incDyn md s bounds stack 0 0 outBuffer)"

section \<open>Notions used to state the properties\<close>

text \<open>
  Rectangles as sets of points of the plane, half open: \<open>x \<le> px < x + w\<close>,
  \<open>y \<le> py < y + h\<close>. \<open>clipWorld\<close> is a segment's clip rectangle moved back to world
  space by adding the origin of the object's box.
\<close>

definition rect_pts :: "real \<Rightarrow> real \<Rightarrow> real \<Rightarrow> real \<Rightarrow> (real \<times> real) set" where
  "rect_pts x y w h = {p. x \<le> fst p \<and> fst p < x + w \<and> y \<le> snd p \<and> snd p < y + h}"

definition bbox_pts :: "BoundingBox \<Rightarrow> (real \<times> real) set" where
  "bbox_pts bb = rect_pts (bbox_x bb) (bbox_y bb) (bbox_width bb) (bbox_height bb)"

definition chunk_pts :: "int \<times> int \<Rightarrow> (real \<times> real) set" where
  "chunk_pts key =
     rect_pts (real_of_int (fst key) * CHUNK_SIZE) (real_of_int (snd key) * CHUNK_SIZE)
       CHUNK_SIZE CHUNK_SIZE"

definition clipWorld :: "BoundingBox \<Rightarrow> ChunkSegment \<Rightarrow> (real \<times> real) set" where
  "clipWorld bb seg =
     rect_pts (bbox_x bb + rect_x (seg_clipRect seg)) (bbox_y bb + rect_y (seg_clipRect seg))
       (rect_width (seg_clipRect seg)) (rect_height (seg_clipRect seg))"

text \<open>
  What a second \<^verbatim>\<open>updateVisibleChunks\<close> may do to a chunk: the cached raster is not
  rebuilt, and the live container is rebuilt exactly when the chunk is visible, the band is
  the nearest one and the container is empty.
\<close>

definition rebuildsOnlyEmptyLive :: "Rectangle \<Rightarrow> Viewport \<Rightarrow> Chunk \<Rightarrow> Chunk \<Rightarrow> bool" where
  "rebuildsOnlyEmptyLive visible vp c1 c2 =
     (textureRebuilds c2 = textureRebuilds c1 \<and>
      liveRebuilds c2 = liveRebuilds c1 +
        (if chunkVisible visible c1 \<and> vp_lodLevel vp = Some Near \<and> live_children c1 = []
         then 1 else 0))"

text \<open>
  The part of the store that the tree operations (attach, detach, split, merge, descent)
  and the query leave alone.
\<close>

definition sameObjects :: "ObjectStore \<Rightarrow> ObjectStore \<Rightarrow> bool" where
  "sameObjects s s' =
     (objectIndex s' = objectIndex s \<and> handleToId s' = handleToId s
      \<and> handleToId_length s' = handleToId_length s \<and> objectStore s' = objectStore s
      \<and> objectBounds s' = objectBounds s \<and> objectFlags s' = objectFlags s
      \<and> objectUpdateCounter s' = objectUpdateCounter s
      \<and> objectWindowCounter s' = objectWindowCounter s
      \<and> dynamicHandles s' = dynamicHandles s
      \<and> dynamicHandles_length s' = dynamicHandles_length s
      \<and> dynamicHandleCount s' = dynamicHandleCount s
      \<and> objectCapacity s' = objectCapacity s \<and> handleFreeList s' = handleFreeList s
      \<and> usedHandles s' = usedHandles s \<and> rootNodeId s' = rootNodeId s
      \<and> externalGetter s' = externalGetter s)"

text \<open>A box as the index keeps it: each number rounded to a single.\<close>

definition storedBox :: "BoundingBox \<Rightarrow> BoundingBox" where
  "storedBox bbox =
     \<lparr> bbox_x = fround (bbox_x bbox), bbox_y = fround (bbox_y bbox),
       bbox_width = fround (bbox_width bbox), bbox_height = fround (bbox_height bbox) \<rparr>"

text \<open>
  A handle that may be handed to a caller: in range, its identifier slot filled, not marked
  deleted. \<open>written s out0 c ob\<close>: the buffer \<open>ob\<close> holds live handles below position \<open>c\<close> and
  is as the caller's buffer \<open>out0\<close> from there on.
\<close>

definition liveHandle :: "ObjectStore \<Rightarrow> int \<Rightarrow> bool" where
  "liveHandle s h =
     (0 \<le> h \<and> h < objectCapacity s \<and> handleToId s h \<noteq> None \<and> handleToId s h \<noteq> Some []
      \<and> objectFlags s h AND Flags_Deleted = 0)"

definition written :: "ObjectStore \<Rightarrow> int list \<Rightarrow> int \<Rightarrow> int list \<Rightarrow> bool" where
  "written s out0 c ob =
     (0 \<le> c \<and> length ob = length out0
      \<and> (\<forall>i < length ob. (int i < c \<longrightarrow> liveHandle s (ob ! i))
                           \<and> (c \<le> int i \<longrightarrow> ob ! i = out0 ! i)))"

text \<open>
  A node's reference list as a list of reference indices: \<open>chainFrom nxt r rs\<close> says that
  following \<open>nxt\<close> from \<open>r\<close> visits exactly \<open>rs\<close> and then reaches \<open>-1\<close>. The successor of
  \<open>prevRef\<close> in the list of a node is the node's first reference when \<open>prevRef\<close> is \<open>-1\<close>.
\<close>

fun chainFrom :: "(int \<Rightarrow> int) \<Rightarrow> int \<Rightarrow> int list \<Rightarrow> bool" where
  "chainFrom nxt r [] = (r = - 1)"
| "chainFrom nxt r (x # xs) = (r = x \<and> x \<noteq> - 1 \<and> chainFrom nxt (nxt x) xs)"

definition successorOf :: "ObjectStore \<Rightarrow> int \<Rightarrow> int \<Rightarrow> int" where
  "successorOf s nodeId prevRef =
     (if prevRef = - 1 then getFirstObject (nodePool s) nodeId else objectRefNext s prevRef)"

section \<open>Concrete inputs and the stores they lead to\<close>

definition box :: "real \<Rightarrow> real \<Rightarrow> real \<Rightarrow> real \<Rightarrow> BoundingBox" where
  "box x y w h = \<lparr> bbox_x = x, bbox_y = y, bbox_width = w, bbox_height = h \<rparr>"

definition objA :: DrawObject where
  "objA = \<lparr> obj_id = ''a'', obj_bbox = Some (box 0 0 10 10), obj_zIndex = None \<rparr>"

definition objB :: DrawObject where
  "objB = \<lparr> obj_id = ''b'', obj_bbox = Some (box 1000 1000 10 10), obj_zIndex = None \<rparr>"

definition objC :: DrawObject where
  "objC = \<lparr> obj_id = ''c'', obj_bbox = Some (box 2000 0 10 10), obj_zIndex = None \<rparr>"

definition wideObj :: DrawObject where
  "wideObj = \<lparr> obj_id = ''w'', obj_bbox = Some (box 0 0 (2049 / 2) 10), obj_zIndex = None \<rparr>"

definition speckObj :: DrawObject where
  "speckObj = \<lparr> obj_id = ''s'', obj_bbox = Some (box 0 0 (1 / 2) (1 / 2)), obj_zIndex = None \<rparr>"

definition noOptions :: FindOptions where
  "noOptions = \<lparr> includeDynamic = None, mode = None \<rparr>"

definition optsSmall :: LooseObjectStoreOptions where
  "optsSmall = DEFAULT_OPTIONS\<lparr> maxObjectsPerNode := 1 \<rparr>"

definition optsTiny :: LooseObjectStoreOptions where
  "optsTiny = DEFAULT_OPTIONS\<lparr> maxObjectsPerNode := 1, nodePoolSize := 1,
                opt_objectCapacity := 1, opt_objectRefCapacity := 1 \<rparr>"

definition optsChurn :: LooseObjectStoreOptions where
  "optsChurn = DEFAULT_OPTIONS\<lparr> dynamicUpdateThreshold := 1, dynamicUpdateWindow := 1 \<rparr>"

definition movedObjectManager :: ChunkManager where
  "movedObjectManager =
     the (addObjects (the (addObjects newChunkManager [objA]))
            [\<lparr> obj_id = ''a'', obj_bbox = Some (box 5000 5000 10 10), obj_zIndex = None \<rparr>])"

definition alwaysDraws :: "DrawObject \<Rightarrow> LODLevel \<Rightarrow> bool" where
  "alwaysDraws obj lod = True"

definition nearViewport :: Viewport where
  "nearViewport = \<lparr> vp_scale = 1, vp_lodLevel = Some Near \<rparr>"

definition originRect :: Rectangle where
  "originRect = \<lparr> rect_x = 0, rect_y = 0, rect_width = 100, rect_height = 100 \<rparr>"

definition movedObjectManager_seen :: ChunkManager where
  "movedObjectManager_seen =
     projr (updateVisibleChunks alwaysDraws movedObjectManager nearViewport originRect)"

text \<open>
  The stores below are the values of the operations named in the lemmas of the section on
  traces: \<open>store0\<close> is the new store under the default options, \<open>storeA\<close>,
  \<open>storeAB\<close>, \<open>storeABC\<close> follow \<^verbatim>\<open>add\<close> of the three objects, and the \<open>small\<close>
  stores are built under \<open>optsSmall\<close> (one object per node).
\<close>

definition store0 :: ObjectStore where
  "store0 =
    \<lparr>nodePool =
    \<lparr>pool_capacity = 16384,
    pool_bounds = (\<lambda>_. 0)(0 := 128, 1 := 128, 2 := 128, 3 := 128),
    pool_firstObject = (\<lambda>_. - 1)(0 := - 1),
    pool_objectCount = (\<lambda>_. 0)(0 := 0),
    pool_parent = (\<lambda>_. - 1)(0 := - 1),
    pool_children = (\<lambda>_. - 1)(0 := - 1, 1 := - 1, 2 := - 1, 3 := - 1),
    pool_depth = (\<lambda>_. 0)(0 := 0), pool_flags = (\<lambda>_. 0)(0 := 1),
    pool_freeList = [], pool_nodeCount = 1\<rparr>,
    objectIndex = \<lambda>_. None, handleToId = \<lambda>_. None,
    handleToId_length = 4096, objectStore = [], objectBounds = \<lambda>_. 0,
    objectFlags = \<lambda>_. 0, objectNode = \<lambda>_. - 1, objectRefIndex = \<lambda>_. - 1,
    objectUpdateCounter = \<lambda>_. 0, objectWindowCounter = \<lambda>_. 0,
    objectRefHandle = \<lambda>_. 0, objectRefNext = \<lambda>_. - 1,
    dynamicHandles = \<lambda>_. 0, dynamicHandles_length = 4096,
    objectCapacity = 4096, objectRefCapacity = 4096, handleFreeList = [],
    objectRefFreeList = [], objectRefUsed = 0, dynamicHandleCount = 0,
    usedHandles = 0, rootNodeId = 0, externalGetter = None\<rparr>"

definition storeA :: ObjectStore where
  "storeA =
    \<lparr>nodePool =
    \<lparr>pool_capacity = 16384,
    pool_bounds = (\<lambda>_. 0)(0 := 128, 1 := 128, 2 := 128, 3 := 128),
    pool_firstObject = (\<lambda>_. - 1)(0 := 0),
    pool_objectCount = (\<lambda>_. 0)(0 := 1),
    pool_parent = (\<lambda>_. - 1)(0 := - 1),
    pool_children =
    (\<lambda>_. - 1)(0 := - 1, 1 := - 1, 2 := - 1, 3 := - 1),
    pool_depth = (\<lambda>_. 0)(0 := 0), pool_flags = (\<lambda>_. 0)(0 := 1),
    pool_freeList = [], pool_nodeCount = 1\<rparr>,
    objectIndex =
    [''a'' \<mapsto>
    \<lparr>rec_id = ''a'', rec_handle = 0, rec_nodeId = 0, rec_flags = 0,
    rec_updateTicks = 0, rec_windowTicks = 0\<rparr>],
    handleToId = [0 \<mapsto> ''a''], handleToId_length = 4096,
    objectStore =
    [(''a'',
    \<lparr>obj_id = ''a'',
    obj_bbox =
    Some
    \<lparr>bbox_x = 0, bbox_y = 0, bbox_width = 10,
    bbox_height = 10\<rparr>,
    obj_zIndex = Some 0\<rparr>)],
    objectBounds = (\<lambda>_. 0)(0 := 0, 1 := 0, 2 := 10, 3 := 10),
    objectFlags = (\<lambda>_. 0)(0 := 0), objectNode = (\<lambda>_. - 1)(0 := 0),
    objectRefIndex = (\<lambda>_. - 1)(0 := 0),
    objectUpdateCounter = (\<lambda>_. 0)(0 := 0),
    objectWindowCounter = (\<lambda>_. 0)(0 := 0),
    objectRefHandle = (\<lambda>_. 0)(0 := 0),
    objectRefNext = (\<lambda>_. - 1)(0 := - 1), dynamicHandles = \<lambda>_. 0,
    dynamicHandles_length = 4096, objectCapacity = 4096,
    objectRefCapacity = 4096, handleFreeList = [],
    objectRefFreeList = [], objectRefUsed = 1, dynamicHandleCount = 0,
    usedHandles = 1, rootNodeId = 0, externalGetter = None\<rparr>"

definition storeAB :: ObjectStore where
  "storeAB =
    \<lparr>nodePool =
    \<lparr>pool_capacity = 16384,
    pool_bounds = (\<lambda>_. 0)(0 := 505, 1 := 505, 2 := 505, 3 := 505),
    pool_firstObject = (\<lambda>_. - 1)(0 := 1),
    pool_objectCount = (\<lambda>_. 0)(0 := 2),
    pool_parent = (\<lambda>_. - 1)(0 := - 1),
    pool_children =
    (\<lambda>_. - 1)(0 := - 1, 1 := - 1, 2 := - 1, 3 := - 1),
    pool_depth = (\<lambda>_. 0)(0 := 0), pool_flags = (\<lambda>_. 0)(0 := 1),
    pool_freeList = [], pool_nodeCount = 1\<rparr>,
    objectIndex =
    [''a'' \<mapsto>
    \<lparr>rec_id = ''a'', rec_handle = 0, rec_nodeId = 0, rec_flags = 0,
    rec_updateTicks = 0, rec_windowTicks = 0\<rparr>,
    ''b'' \<mapsto>
    \<lparr>rec_id = ''b'', rec_handle = 1, rec_nodeId = 0, rec_flags = 0,
    rec_updateTicks = 0, rec_windowTicks = 0\<rparr>],
    handleToId = [0 \<mapsto> ''a'', 1 \<mapsto> ''b''], handleToId_length = 4096,
    objectStore =
    [(''a'',
    \<lparr>obj_id = ''a'',
    obj_bbox =
    Some
    \<lparr>bbox_x = 0, bbox_y = 0, bbox_width = 10,
    bbox_height = 10\<rparr>,
    obj_zIndex = Some 0\<rparr>),
    (''b'',
    \<lparr>obj_id = ''b'',
    obj_bbox =
    Some
    \<lparr>bbox_x = 1000, bbox_y = 1000, bbox_width = 10,
    bbox_height = 10\<rparr>,
    obj_zIndex = Some 1\<rparr>)],
    objectBounds =
    (\<lambda>_. 0)
    (0 := 0, 1 := 0, 2 := 10, 3 := 10, 4 := 1000, 5 := 1000, 6 := 10,
    7 := 10),
    objectFlags = (\<lambda>_. 0)(0 := 0, 1 := 0),
    objectNode = (\<lambda>_. - 1)(0 := 0, 1 := 0),
    objectRefIndex = (\<lambda>_. - 1)(0 := 0, 1 := 1),
    objectUpdateCounter = (\<lambda>_. 0)(0 := 0, 1 := 0),
    objectWindowCounter = (\<lambda>_. 0)(0 := 0, 1 := 0),
    objectRefHandle = (\<lambda>_. 0)(0 := 0, 1 := 1),
    objectRefNext = (\<lambda>_. - 1)(0 := - 1, 1 := 0),
    dynamicHandles = \<lambda>_. 0, dynamicHandles_length = 4096,
    objectCapacity = 4096, objectRefCapacity = 4096,
    handleFreeList = [], objectRefFreeList = [], objectRefUsed = 2,
    dynamicHandleCount = 0, usedHandles = 2, rootNodeId = 0,
    externalGetter = None\<rparr>"

definition storeABC :: ObjectStore where
  "storeABC =
    \<lparr>nodePool =
    \<lparr>pool_capacity = 16384,
    pool_bounds = (\<lambda>_. 0)(0 := 1005, 1 := 505, 2 := 1005, 3 := 505),
    pool_firstObject = (\<lambda>_. - 1)(0 := 2),
    pool_objectCount = (\<lambda>_. 0)(0 := 3),
    pool_parent = (\<lambda>_. - 1)(0 := - 1),
    pool_children =
    (\<lambda>_. - 1)(0 := - 1, 1 := - 1, 2 := - 1, 3 := - 1),
    pool_depth = (\<lambda>_. 0)(0 := 0), pool_flags = (\<lambda>_. 0)(0 := 1),
    pool_freeList = [], pool_nodeCount = 1\<rparr>,
    objectIndex =
    [''a'' \<mapsto>
    \<lparr>rec_id = ''a'', rec_handle = 0, rec_nodeId = 0, rec_flags = 0,
    rec_updateTicks = 0, rec_windowTicks = 0\<rparr>,
    ''b'' \<mapsto>
    \<lparr>rec_id = ''b'', rec_handle = 1, rec_nodeId = 0, rec_flags = 0,
    rec_updateTicks = 0, rec_windowTicks = 0\<rparr>,
    ''c'' \<mapsto>
    \<lparr>rec_id = ''c'', rec_handle = 2, rec_nodeId = 0, rec_flags = 0,
    rec_updateTicks = 0, rec_windowTicks = 0\<rparr>],
    handleToId = [0 \<mapsto> ''a'', 1 \<mapsto> ''b'', 2 \<mapsto> ''c''],
    handleToId_length = 4096,
    objectStore =
    [(''a'',
    \<lparr>obj_id = ''a'',
    obj_bbox =
    Some
    \<lparr>bbox_x = 0, bbox_y = 0, bbox_width = 10,
    bbox_height = 10\<rparr>,
    obj_zIndex = Some 0\<rparr>),
    (''b'',
    \<lparr>obj_id = ''b'',
    obj_bbox =
    Some
    \<lparr>bbox_x = 1000, bbox_y = 1000, bbox_width = 10,
    bbox_height = 10\<rparr>,
    obj_zIndex = Some 1\<rparr>),
    (''c'',
    \<lparr>obj_id = ''c'',
    obj_bbox =
    Some
    \<lparr>bbox_x = 2000, bbox_y = 0, bbox_width = 10,
    bbox_height = 10\<rparr>,
    obj_zIndex = Some 2\<rparr>)],
    objectBounds =
    (\<lambda>_. 0)
    (0 := 0, 1 := 0, 2 := 10, 3 := 10, 4 := 1000, 5 := 1000, 6 := 10,
    7 := 10, 8 := 2000, 9 := 0, 10 := 10, 11 := 10),
    objectFlags = (\<lambda>_. 0)(0 := 0, 1 := 0, 2 := 0),
    objectNode = (\<lambda>_. - 1)(0 := 0, 1 := 0, 2 := 0),
    objectRefIndex = (\<lambda>_. - 1)(0 := 0, 1 := 1, 2 := 2),
    objectUpdateCounter = (\<lambda>_. 0)(0 := 0, 1 := 0, 2 := 0),
    objectWindowCounter = (\<lambda>_. 0)(0 := 0, 1 := 0, 2 := 0),
    objectRefHandle = (\<lambda>_. 0)(0 := 0, 1 := 1, 2 := 2),
    objectRefNext = (\<lambda>_. - 1)(0 := - 1, 1 := 0, 2 := 1),
    dynamicHandles = \<lambda>_. 0, dynamicHandles_length = 4096,
    objectCapacity = 4096, objectRefCapacity = 4096,
    handleFreeList = [], objectRefFreeList = [], objectRefUsed = 3,
    dynamicHandleCount = 0, usedHandles = 3, rootNodeId = 0,
    externalGetter = None\<rparr>"

definition storeA_removed :: ObjectStore where
  "storeA_removed =
    \<lparr>nodePool =
    \<lparr>pool_capacity = 16384,
    pool_bounds = (\<lambda>_. 0)(0 := 128, 1 := 128, 2 := 128, 3 := 128),
    pool_firstObject = (\<lambda>_. - 1)(0 := - 1),
    pool_objectCount = (\<lambda>_. 0)(0 := 0),
    pool_parent = (\<lambda>_. - 1)(0 := - 1),
    pool_children = (\<lambda>_. - 1)(0 := - 1, 1 := - 1, 2 := - 1, 3 := - 1),
    pool_depth = (\<lambda>_. 0)(0 := 0), pool_flags = (\<lambda>_. 0)(0 := 1),
    pool_freeList = [], pool_nodeCount = 1\<rparr>,
    objectIndex = \<lambda>x. None, handleToId = \<lambda>x. None, handleToId_length = 4096,
    objectStore =
    [(''a'',
    \<lparr>obj_id = ''a'',
    obj_bbox =
    Some
    \<lparr>bbox_x = 0, bbox_y = 0, bbox_width = 10, bbox_height = 10\<rparr>,
    obj_zIndex = Some 0\<rparr>)],
    objectBounds = (\<lambda>_. 0)(0 := 0, 1 := 0, 2 := 10, 3 := 10),
    objectFlags = (\<lambda>_. 0)(0 := 8), objectNode = (\<lambda>_. - 1)(0 := - 1),
    objectRefIndex = (\<lambda>_. - 1)(0 := - 1),
    objectUpdateCounter = (\<lambda>_. 0)(0 := 0),
    objectWindowCounter = (\<lambda>_. 0)(0 := 0),
    objectRefHandle = (\<lambda>_. 0)(0 := 0), objectRefNext = (\<lambda>_. - 1)(0 := - 1),
    dynamicHandles = \<lambda>_. 0, dynamicHandles_length = 4096,
    objectCapacity = 4096, objectRefCapacity = 4096, handleFreeList = [0],
    objectRefFreeList = [0], objectRefUsed = 1, dynamicHandleCount = 0,
    usedHandles = 0, rootNodeId = 0, externalGetter = None\<rparr>"

definition storeB_reused :: ObjectStore where
  "storeB_reused =
    \<lparr>nodePool =
    \<lparr>pool_capacity = 16384,
    pool_bounds = (\<lambda>_. 0)(0 := 128, 1 := 128, 2 := 128, 3 := 128),
    pool_firstObject = (\<lambda>_. - 1)(0 := 0),
    pool_objectCount = (\<lambda>_. 0)(0 := 1),
    pool_parent = (\<lambda>_. - 1)(0 := - 1),
    pool_children =
    (\<lambda>_. - 1)(0 := - 1, 1 := - 1, 2 := - 1, 3 := - 1),
    pool_depth = (\<lambda>_. 0)(0 := 0), pool_flags = (\<lambda>_. 0)(0 := 1),
    pool_freeList = [], pool_nodeCount = 1\<rparr>,
    objectIndex =
    [''b'' \<mapsto>
    \<lparr>rec_id = ''b'', rec_handle = 0, rec_nodeId = 0, rec_flags = 0,
    rec_updateTicks = 0, rec_windowTicks = 0\<rparr>],
    handleToId = [0 \<mapsto> ''b''], handleToId_length = 4096,
    objectStore =
    [(''a'',
    \<lparr>obj_id = ''a'',
    obj_bbox =
    Some
    \<lparr>bbox_x = 0, bbox_y = 0, bbox_width = 10,
    bbox_height = 10\<rparr>,
    obj_zIndex = Some 0\<rparr>)],
    objectBounds = (\<lambda>_. 0)(0 := 5, 1 := 5, 2 := 10, 3 := 10),
    objectFlags = (\<lambda>_. 0)(0 := 0), objectNode = (\<lambda>_. - 1)(0 := 0),
    objectRefIndex = (\<lambda>_. - 1)(0 := 0),
    objectUpdateCounter = (\<lambda>_. 0)(0 := 0),
    objectWindowCounter = (\<lambda>_. 0)(0 := 0),
    objectRefHandle = (\<lambda>_. 0)(0 := 0),
    objectRefNext = (\<lambda>_. - 1)(0 := - 1), dynamicHandles = \<lambda>_. 0,
    dynamicHandles_length = 4096, objectCapacity = 4096,
    objectRefCapacity = 4096, handleFreeList = [],
    objectRefFreeList = [], objectRefUsed = 1, dynamicHandleCount = 0,
    usedHandles = 1, rootNodeId = 0, externalGetter = None\<rparr>"

definition storeA_updated :: ObjectStore where
  "storeA_updated =
    \<lparr>nodePool =
    \<lparr>pool_capacity = 16384,
    pool_bounds = (\<lambda>_. 0)(0 := 128, 1 := 128, 2 := 128, 3 := 128),
    pool_firstObject = (\<lambda>_. - 1)(0 := 0),
    pool_objectCount = (\<lambda>_. 0)(0 := 1),
    pool_parent = (\<lambda>_. - 1)(0 := - 1),
    pool_children =
    (\<lambda>_. - 1)(0 := - 1, 1 := - 1, 2 := - 1, 3 := - 1),
    pool_depth = (\<lambda>_. 0)(0 := 0), pool_flags = (\<lambda>_. 0)(0 := 1),
    pool_freeList = [], pool_nodeCount = 1\<rparr>,
    objectIndex =
    [''a'' \<mapsto>
    \<lparr>rec_id = ''a'', rec_handle = 0, rec_nodeId = 0, rec_flags = 0,
    rec_updateTicks = 0, rec_windowTicks = 0\<rparr>],
    handleToId = [0 \<mapsto> ''a''], handleToId_length = 4096,
    objectStore =
    [(''a'',
    \<lparr>obj_id = ''a'',
    obj_bbox =
    Some
    \<lparr>bbox_x = 0, bbox_y = 0, bbox_width = 10,
    bbox_height = 10\<rparr>,
    obj_zIndex = Some 0\<rparr>)],
    objectBounds = (\<lambda>_. 0)(0 := 1, 1 := 1, 2 := 10, 3 := 10),
    objectFlags = (\<lambda>_. 0)(0 := 36), objectNode = (\<lambda>_. - 1)(0 := 0),
    objectRefIndex = (\<lambda>_. - 1)(0 := 0),
    objectUpdateCounter = (\<lambda>_. 0)(0 := 1),
    objectWindowCounter = (\<lambda>_. 0)(0 := 1),
    objectRefHandle = (\<lambda>_. 0)(0 := 0),
    objectRefNext = (\<lambda>_. - 1)(0 := - 1), dynamicHandles = \<lambda>_. 0,
    dynamicHandles_length = 4096, objectCapacity = 4096,
    objectRefCapacity = 4096, handleFreeList = [],
    objectRefFreeList = [], objectRefUsed = 1, dynamicHandleCount = 0,
    usedHandles = 1, rootNodeId = 0, externalGetter = None\<rparr>"

definition small0 :: ObjectStore where
  "small0 =
    \<lparr>nodePool =
    \<lparr>pool_capacity = 16384,
    pool_bounds = (\<lambda>_. 0)(0 := 128, 1 := 128, 2 := 128, 3 := 128),
    pool_firstObject = (\<lambda>_. - 1)(0 := - 1),
    pool_objectCount = (\<lambda>_. 0)(0 := 0),
    pool_parent = (\<lambda>_. - 1)(0 := - 1),
    pool_children = (\<lambda>_. - 1)(0 := - 1, 1 := - 1, 2 := - 1, 3 := - 1),
    pool_depth = (\<lambda>_. 0)(0 := 0), pool_flags = (\<lambda>_. 0)(0 := 1),
    pool_freeList = [], pool_nodeCount = 1\<rparr>,
    objectIndex = \<lambda>_. None, handleToId = \<lambda>_. None,
    handleToId_length = 4096, objectStore = [], objectBounds = \<lambda>_. 0,
    objectFlags = \<lambda>_. 0, objectNode = \<lambda>_. - 1, objectRefIndex = \<lambda>_. - 1,
    objectUpdateCounter = \<lambda>_. 0, objectWindowCounter = \<lambda>_. 0,
    objectRefHandle = \<lambda>_. 0, objectRefNext = \<lambda>_. - 1,
    dynamicHandles = \<lambda>_. 0, dynamicHandles_length = 4096,
    objectCapacity = 4096, objectRefCapacity = 4096, handleFreeList = [],
    objectRefFreeList = [], objectRefUsed = 0, dynamicHandleCount = 0,
    usedHandles = 0, rootNodeId = 0, externalGetter = None\<rparr>"

definition smallA :: ObjectStore where
  "smallA =
    \<lparr>nodePool =
    \<lparr>pool_capacity = 16384,
    pool_bounds = (\<lambda>_. 0)(0 := 128, 1 := 128, 2 := 128, 3 := 128),
    pool_firstObject = (\<lambda>_. - 1)(0 := 0),
    pool_objectCount = (\<lambda>_. 0)(0 := 1),
    pool_parent = (\<lambda>_. - 1)(0 := - 1),
    pool_children =
    (\<lambda>_. - 1)(0 := - 1, 1 := - 1, 2 := - 1, 3 := - 1),
    pool_depth = (\<lambda>_. 0)(0 := 0), pool_flags = (\<lambda>_. 0)(0 := 1),
    pool_freeList = [], pool_nodeCount = 1\<rparr>,
    objectIndex =
    [''a'' \<mapsto>
    \<lparr>rec_id = ''a'', rec_handle = 0, rec_nodeId = 0, rec_flags = 0,
    rec_updateTicks = 0, rec_windowTicks = 0\<rparr>],
    handleToId = [0 \<mapsto> ''a''], handleToId_length = 4096,
    objectStore = [],
    objectBounds = (\<lambda>_. 0)(0 := 0, 1 := 0, 2 := 10, 3 := 10),
    objectFlags = (\<lambda>_. 0)(0 := 0), objectNode = (\<lambda>_. - 1)(0 := 0),
    objectRefIndex = (\<lambda>_. - 1)(0 := 0),
    objectUpdateCounter = (\<lambda>_. 0)(0 := 0),
    objectWindowCounter = (\<lambda>_. 0)(0 := 0),
    objectRefHandle = (\<lambda>_. 0)(0 := 0),
    objectRefNext = (\<lambda>_. - 1)(0 := - 1), dynamicHandles = \<lambda>_. 0,
    dynamicHandles_length = 4096, objectCapacity = 4096,
    objectRefCapacity = 4096, handleFreeList = [],
    objectRefFreeList = [], objectRefUsed = 1, dynamicHandleCount = 0,
    usedHandles = 1, rootNodeId = 0, externalGetter = None\<rparr>"

definition smallAB :: ObjectStore where
  "smallAB =
    \<lparr>nodePool =
    \<lparr>pool_capacity = 16384,
    pool_bounds =
    (\<lambda>_. 0)
    (0 := 505, 1 := 505, 2 := 505, 3 := 505, 4 := 505 / 2,
    5 := 505 / 2, 6 := 505 / 2, 7 := 505 / 2, 8 := 1515 / 2,
    9 := 505 / 2, 10 := 505 / 2, 11 := 505 / 2, 12 := 505 / 2,
    13 := 1515 / 2, 14 := 505 / 2, 15 := 505 / 2,
    16 := 1515 / 2, 17 := 1515 / 2, 18 := 505 / 2,
    19 := 505 / 2),
    pool_firstObject =
    (\<lambda>_. - 1)(2 := - 1, 3 := - 1, 0 := - 1, 1 := 0, 4 := 1),
    pool_objectCount =
    (\<lambda>_. 0)(2 := 0, 3 := 0, 0 := 0, 1 := 1, 4 := 1),
    pool_parent =
    (\<lambda>_. - 1)(0 := - 1, 1 := 0, 2 := 0, 3 := 0, 4 := 0),
    pool_children =
    (\<lambda>_. - 1)
    (4 := - 1, 5 := - 1, 6 := - 1, 7 := - 1, 0 := 1, 8 := - 1,
    9 := - 1, 10 := - 1, 11 := - 1, 1 := 2, 12 := - 1,
    13 := - 1, 14 := - 1, 15 := - 1, 2 := 3, 16 := - 1,
    17 := - 1, 18 := - 1, 19 := - 1, 3 := 4),
    pool_depth = (\<lambda>_. 0)(0 := 0, 1 := 1, 2 := 1, 3 := 1, 4 := 1),
    pool_flags = (\<lambda>_. 0)(0 := 0, 1 := 1, 2 := 1, 3 := 1, 4 := 1),
    pool_freeList = [], pool_nodeCount = 5\<rparr>,
    objectIndex =
    [''a'' \<mapsto>
    \<lparr>rec_id = ''a'', rec_handle = 0, rec_nodeId = 0, rec_flags = 0,
    rec_updateTicks = 0, rec_windowTicks = 0\<rparr>,
    ''b'' \<mapsto>
    \<lparr>rec_id = ''b'', rec_handle = 1, rec_nodeId = 4, rec_flags = 0,
    rec_updateTicks = 0, rec_windowTicks = 0\<rparr>],
    handleToId = [0 \<mapsto> ''a'', 1 \<mapsto> ''b''], handleToId_length = 4096,
    objectStore = [],
    objectBounds =
    (\<lambda>_. 0)
    (0 := 0, 1 := 0, 2 := 10, 3 := 10, 4 := 1000, 5 := 1000,
    6 := 10, 7 := 10),
    objectFlags = (\<lambda>_. 0)(0 := 0, 1 := 0),
    objectNode = (\<lambda>_. - 1)(0 := 1, 1 := 4),
    objectRefIndex = (\<lambda>_. - 1)(0 := 0, 1 := 1),
    objectUpdateCounter = (\<lambda>_. 0)(0 := 0, 1 := 0),
    objectWindowCounter = (\<lambda>_. 0)(0 := 0, 1 := 0),
    objectRefHandle = (\<lambda>_. 0)(0 := 0, 1 := 1),
    objectRefNext = (\<lambda>_. - 1)(0 := - 1, 1 := - 1),
    dynamicHandles = \<lambda>_. 0, dynamicHandles_length = 4096,
    objectCapacity = 4096, objectRefCapacity = 4096,
    handleFreeList = [], objectRefFreeList = [], objectRefUsed = 2,
    dynamicHandleCount = 0, usedHandles = 2, rootNodeId = 0,
    externalGetter = None\<rparr>"

definition smallABC :: ObjectStore where
  "smallABC =
    \<lparr>nodePool =
    \<lparr>pool_capacity = 16384,
    pool_bounds =
    (\<lambda>_. 0)
    (4 := 505 / 2, 5 := 505 / 2, 6 := 505 / 2, 7 := 505 / 2,
    8 := 1515 / 2, 9 := 505 / 2, 10 := 505 / 2, 11 := 505 / 2,
    12 := 505 / 2, 13 := 1515 / 2, 14 := 505 / 2,
    15 := 505 / 2, 16 := 1515 / 2, 17 := 1515 / 2,
    18 := 505 / 2, 19 := 505 / 2, 0 := 1505, 1 := 505,
    2 := 1505, 3 := 505),
    pool_firstObject =
    (\<lambda>_. - 1)(3 := - 1, 0 := - 1, 1 := 0, 4 := 1, 2 := 2),
    pool_objectCount =
    (\<lambda>_. 0)(3 := 0, 0 := 0, 1 := 1, 4 := 1, 2 := 1),
    pool_parent =
    (\<lambda>_. - 1)(0 := - 1, 1 := 0, 2 := 0, 3 := 0, 4 := 0),
    pool_children =
    (\<lambda>_. - 1)
    (4 := - 1, 5 := - 1, 6 := - 1, 7 := - 1, 0 := 1, 8 := - 1,
    9 := - 1, 10 := - 1, 11 := - 1, 1 := 2, 12 := - 1,
    13 := - 1, 14 := - 1, 15 := - 1, 2 := 3, 16 := - 1,
    17 := - 1, 18 := - 1, 19 := - 1, 3 := 4),
    pool_depth = (\<lambda>_. 0)(0 := 0, 1 := 1, 2 := 1, 3 := 1, 4 := 1),
    pool_flags = (\<lambda>_. 0)(0 := 0, 1 := 1, 2 := 1, 3 := 1, 4 := 1),
    pool_freeList = [], pool_nodeCount = 5\<rparr>,
    objectIndex =
    [''a'' \<mapsto>
    \<lparr>rec_id = ''a'', rec_handle = 0, rec_nodeId = 0, rec_flags = 0,
    rec_updateTicks = 0, rec_windowTicks = 0\<rparr>,
    ''b'' \<mapsto>
    \<lparr>rec_id = ''b'', rec_handle = 1, rec_nodeId = 4, rec_flags = 0,
    rec_updateTicks = 0, rec_windowTicks = 0\<rparr>,
    ''c'' \<mapsto>
    \<lparr>rec_id = ''c'', rec_handle = 2, rec_nodeId = 2, rec_flags = 0,
    rec_updateTicks = 0, rec_windowTicks = 0\<rparr>],
    handleToId = [0 \<mapsto> ''a'', 1 \<mapsto> ''b'', 2 \<mapsto> ''c''],
    handleToId_length = 4096, objectStore = [],
    objectBounds =
    (\<lambda>_. 0)
    (0 := 0, 1 := 0, 2 := 10, 3 := 10, 4 := 1000, 5 := 1000,
    6 := 10, 7 := 10, 8 := 3000, 9 := 0, 10 := 10, 11 := 10),
    objectFlags = (\<lambda>_. 0)(0 := 0, 1 := 0, 2 := 0),
    objectNode = (\<lambda>_. - 1)(0 := 1, 1 := 4, 2 := 2),
    objectRefIndex = (\<lambda>_. - 1)(0 := 0, 1 := 1, 2 := 2),
    objectUpdateCounter = (\<lambda>_. 0)(0 := 0, 1 := 0, 2 := 0),
    objectWindowCounter = (\<lambda>_. 0)(0 := 0, 1 := 0, 2 := 0),
    objectRefHandle = (\<lambda>_. 0)(0 := 0, 1 := 1, 2 := 2),
    objectRefNext = (\<lambda>_. - 1)(0 := - 1, 1 := - 1, 2 := - 1),
    dynamicHandles = \<lambda>_. 0, dynamicHandles_length = 4096,
    objectCapacity = 4096, objectRefCapacity = 4096,
    handleFreeList = [], objectRefFreeList = [], objectRefUsed = 3,
    dynamicHandleCount = 0, usedHandles = 3, rootNodeId = 0,
    externalGetter = None\<rparr>"

definition smallAB_removedA :: ObjectStore where
  "smallAB_removedA =
    \<lparr>nodePool =
    \<lparr>pool_capacity = 16384,
    pool_bounds =
    (\<lambda>_. 0)
    (0 := 505, 1 := 505, 2 := 505, 3 := 505, 4 := 505 / 2,
    5 := 505 / 2, 6 := 505 / 2, 7 := 505 / 2, 8 := 1515 / 2,
    9 := 505 / 2, 10 := 505 / 2, 11 := 505 / 2, 12 := 505 / 2,
    13 := 1515 / 2, 14 := 505 / 2, 15 := 505 / 2, 16 := 1515 / 2,
    17 := 1515 / 2, 18 := 505 / 2, 19 := 505 / 2),
    pool_firstObject =
    (\<lambda>_. - 1)(2 := - 1, 3 := - 1, 0 := - 1, 1 := 0, 4 := 1),
    pool_objectCount = (\<lambda>_. 0)(2 := 0, 3 := 0, 0 := 0, 1 := 1, 4 := 1),
    pool_parent = (\<lambda>_. - 1)(0 := - 1, 1 := 0, 2 := 0, 3 := 0, 4 := 0),
    pool_children =
    (\<lambda>_. - 1)
    (4 := - 1, 5 := - 1, 6 := - 1, 7 := - 1, 0 := 1, 8 := - 1,
    9 := - 1, 10 := - 1, 11 := - 1, 1 := 2, 12 := - 1, 13 := - 1,
    14 := - 1, 15 := - 1, 2 := 3, 16 := - 1, 17 := - 1, 18 := - 1,
    19 := - 1, 3 := 4),
    pool_depth = (\<lambda>_. 0)(0 := 0, 1 := 1, 2 := 1, 3 := 1, 4 := 1),
    pool_flags = (\<lambda>_. 0)(0 := 0, 1 := 1, 2 := 1, 3 := 1, 4 := 1),
    pool_freeList = [], pool_nodeCount = 5\<rparr>,
    objectIndex =
    [''b'' \<mapsto>
    \<lparr>rec_id = ''b'', rec_handle = 1, rec_nodeId = 4, rec_flags = 0,
    rec_updateTicks = 0, rec_windowTicks = 0\<rparr>],
    handleToId = [1 \<mapsto> ''b''], handleToId_length = 4096, objectStore = [],
    objectBounds =
    (\<lambda>_. 0)
    (0 := 0, 1 := 0, 2 := 10, 3 := 10, 4 := 1000, 5 := 1000, 6 := 10,
    7 := 10),
    objectFlags = (\<lambda>_. 0)(1 := 0, 0 := 8),
    objectNode = (\<lambda>_. - 1)(1 := 4, 0 := - 1),
    objectRefIndex = (\<lambda>_. - 1)(1 := 1, 0 := - 1),
    objectUpdateCounter = (\<lambda>_. 0)(0 := 0, 1 := 0),
    objectWindowCounter = (\<lambda>_. 0)(0 := 0, 1 := 0),
    objectRefHandle = (\<lambda>_. 0)(0 := 0, 1 := 1),
    objectRefNext = (\<lambda>_. - 1)(0 := - 1, 1 := - 1), dynamicHandles = \<lambda>_. 0,
    dynamicHandles_length = 4096, objectCapacity = 4096,
    objectRefCapacity = 4096, handleFreeList = [0], objectRefFreeList = [],
    objectRefUsed = 2, dynamicHandleCount = 0, usedHandles = 1,
    rootNodeId = 0, externalGetter = None\<rparr>"



definition storeA_churned :: ObjectStore where
  "storeA_churned =
    \<lparr>nodePool =
    \<lparr>pool_capacity = 16384,
    pool_bounds = (\<lambda>_. 0)(0 := 128, 1 := 128, 2 := 128, 3 := 128),
    pool_firstObject = (\<lambda>_. - 1)(0 := 0),
    pool_objectCount = (\<lambda>_. 0)(0 := 1),
    pool_parent = (\<lambda>_. - 1)(0 := - 1),
    pool_children =
    (\<lambda>_. - 1)(0 := - 1, 1 := - 1, 2 := - 1, 3 := - 1),
    pool_depth = (\<lambda>_. 0)(0 := 0), pool_flags = (\<lambda>_. 0)(0 := 1),
    pool_freeList = [], pool_nodeCount = 1\<rparr>,
    objectIndex =
    [''a'' \<mapsto>
    \<lparr>rec_id = ''a'', rec_handle = 0, rec_nodeId = 0, rec_flags = 0,
    rec_updateTicks = 0, rec_windowTicks = 0\<rparr>],
    handleToId = [0 \<mapsto> ''a''], handleToId_length = 4096,
    objectStore =
    [(''a'',
    \<lparr>obj_id = ''a'',
    obj_bbox =
    Some
    \<lparr>bbox_x = 0, bbox_y = 0, bbox_width = 10,
    bbox_height = 10\<rparr>,
    obj_zIndex = Some 0\<rparr>)],
    objectBounds = (\<lambda>_. 0)(0 := 1, 1 := 1, 2 := 10, 3 := 10),
    objectFlags = (\<lambda>_. 0)(0 := 38), objectNode = (\<lambda>_. - 1)(0 := 0),
    objectRefIndex = (\<lambda>_. - 1)(0 := 0),
    objectUpdateCounter = (\<lambda>_. 0)(0 := 0),
    objectWindowCounter = (\<lambda>_. 0)(0 := 0),
    objectRefHandle = (\<lambda>_. 0)(0 := 0),
    objectRefNext = (\<lambda>_. - 1)(0 := - 1),
    dynamicHandles = (\<lambda>_. 0)(0 := 0), dynamicHandles_length = 4096,
    objectCapacity = 4096, objectRefCapacity = 4096,
    handleFreeList = [], objectRefFreeList = [], objectRefUsed = 1,
    dynamicHandleCount = 1, usedHandles = 1, rootNodeId = 0,
    externalGetter = None\<rparr>"

definition smallAB_queried :: ObjectStore where
  "smallAB_queried =
    \<lparr>nodePool =
    \<lparr>pool_capacity = 16384,
    pool_bounds =
    (\<lambda>_. 0)
    (0 := 505, 1 := 505, 2 := 505, 3 := 505, 4 := 505 / 2,
    5 := 505 / 2, 6 := 505 / 2, 7 := 505 / 2, 8 := 1515 / 2,
    9 := 505 / 2, 10 := 505 / 2, 11 := 505 / 2, 12 := 505 / 2,
    13 := 1515 / 2, 14 := 505 / 2, 15 := 505 / 2, 16 := 1515 / 2,
    17 := 1515 / 2, 18 := 505 / 2, 19 := 505 / 2),
    pool_firstObject =
    (\<lambda>_. - 1)(2 := - 1, 3 := - 1, 0 := - 1, 4 := 1, 1 := - 1),
    pool_objectCount = (\<lambda>_. 0)(2 := 0, 3 := 0, 0 := 0, 4 := 1, 1 := 0),
    pool_parent = (\<lambda>_. - 1)(0 := - 1, 1 := 0, 2 := 0, 3 := 0, 4 := 0),
    pool_children =
    (\<lambda>_. - 1)
    (4 := - 1, 5 := - 1, 6 := - 1, 7 := - 1, 0 := 1, 8 := - 1,
    9 := - 1, 10 := - 1, 11 := - 1, 1 := 2, 12 := - 1, 13 := - 1,
    14 := - 1, 15 := - 1, 2 := 3, 16 := - 1, 17 := - 1, 18 := - 1,
    19 := - 1, 3 := 4),
    pool_depth = (\<lambda>_. 0)(0 := 0, 1 := 1, 2 := 1, 3 := 1, 4 := 1),
    pool_flags = (\<lambda>_. 0)(0 := 0, 1 := 1, 2 := 1, 3 := 1, 4 := 1),
    pool_freeList = [], pool_nodeCount = 5\<rparr>,
    objectIndex =
    [''b'' \<mapsto>
    \<lparr>rec_id = ''b'', rec_handle = 1, rec_nodeId = 4, rec_flags = 0,
    rec_updateTicks = 0, rec_windowTicks = 0\<rparr>],
    handleToId = [1 \<mapsto> ''b''], handleToId_length = 4096, objectStore = [],
    objectBounds =
    (\<lambda>_. 0)
    (0 := 0, 1 := 0, 2 := 10, 3 := 10, 4 := 1000, 5 := 1000, 6 := 10,
    7 := 10),
    objectFlags = (\<lambda>_. 0)(1 := 0, 0 := 8),
    objectNode = (\<lambda>_. - 1)(1 := 4, 0 := - 1),
    objectRefIndex = (\<lambda>_. - 1)(1 := 1, 0 := - 1),
    objectUpdateCounter = (\<lambda>_. 0)(0 := 0, 1 := 0),
    objectWindowCounter = (\<lambda>_. 0)(0 := 0, 1 := 0),
    objectRefHandle = (\<lambda>_. 0)(1 := 1, 0 := 0),
    objectRefNext = (\<lambda>_. - 1)(1 := - 1, 0 := - 1), dynamicHandles = \<lambda>_. 0,
    dynamicHandles_length = 4096, objectCapacity = 4096,
    objectRefCapacity = 4096, handleFreeList = [0], objectRefFreeList = [0],
    objectRefUsed = 2, dynamicHandleCount = 0, usedHandles = 1,
    rootNodeId = 0, externalGetter = None\<rparr>"

section \<open>Numbers: values that rounding leaves alone\<close>

text \<open>
  An integer multiple of a power of two with fewer than \<open>p\<close> significant bits is its own
  rounding. The instances below are the ones the traces need: integers and multiples of
  \<open>1/2\<close>, \<open>1/4\<close>, down to \<open>1/65536\<close>, with a numerator below \<open>2\<^sup>5\<^sup>3\<close> for a double and below
  \<open>2\<^sup>2\<^sup>4\<close> for a single.
\<close>

lemma roundEven_of_int [simp]: "roundEven (of_int n) = n"
  by (simp add: roundEven_def)

lemma roundTo_exact:
  assumes m: "\<bar>m\<bar> < 2 ^ nat p" and p: "0 < p" and k: "int k \<le> p - 1 - emin"
  shows "roundTo p emin (of_int m / 2 ^ k) = of_int m / 2 ^ k"
proof (cases "m = 0")
  case True
  then show ?thesis by (simp add: roundTo_def)
next
  case False
  let ?x = "of_int m / 2 ^ k :: real"
  have x0: "?x \<noteq> 0" using False by simp
  have ax: "\<bar>?x\<bar> = of_int \<bar>m\<bar> / 2 ^ k" by (simp add: abs_divide)
  have "real_of_int \<bar>m\<bar> < 2 ^ nat p" using m by (metis of_int_less_iff of_int_numeral of_int_power)
  hence "\<bar>?x\<bar> < 2 ^ nat p / 2 ^ k" unfolding ax by (simp add: divide_strict_right_mono)
  also have "\<dots> = 2 powr (of_int (p - int k))"
    using p by (simp add: powr_diff powr_realpow[symmetric])
  finally have lt: "\<bar>?x\<bar> < 2 powr (of_int (p - int k))" .
  have "log 2 \<bar>?x\<bar> < of_int (p - int k)"
    using lt x0 by (subst log_less_iff) auto
  hence fl: "\<lfloor>log 2 \<bar>?x\<bar>\<rfloor> \<le> p - int k - 1" by (simp add: floor_less_iff[symmetric] del: of_int_diff) 
  define e where "e = max \<lfloor>log 2 \<bar>?x\<bar>\<rfloor> emin"
  have e: "e \<le> p - int k - 1" using fl k by (simp add: e_def)
  define j where "j = nat (p - 1 - e - int k)"
  have j: "int j = p - 1 - e - int k" using e by (simp add: j_def)
  have u: "2 powr of_int (e - p + 1) = 1 / (2 ^ j * 2 ^ k :: real)"
  proof -
    have "e - p + 1 = - int (j + k)" using j by simp
    hence "2 powr of_int (e - p + 1) = 2 powr (- real (j + k))" by simp
    also have "\<dots> = 1 / 2 ^ (j + k)"
      using powr_realpow[of 2 "j + k"] by (simp only: powr_minus_divide)
    finally show ?thesis by (simp add: power_add)
  qed
  have q: "?x / 2 powr of_int (e - p + 1) = of_int (m * 2 ^ j)" unfolding u by simp
  have "roundTo p emin ?x = of_int (roundEven (?x / 2 powr of_int (e - p + 1))) * 2 powr of_int (e - p + 1)"
    using x0 by (simp add: roundTo_def e_def Let_def)
  also have "\<dots> = of_int (m * 2 ^ j) * (1 / (2 ^ j * 2 ^ k))"
    by (subst q) (simp only: roundEven_of_int u)
  also have "\<dots> = ?x" by simp
  finally show ?thesis .
qed

lemma fl_zero: "fl 0 = 0"
  by (simp add: fl_def roundTo_def)

lemma fl_one: "fl 1 = 1"
  using roundTo_exact[of 1 53 0 "- 1022"] by (simp add: fl_def)

lemma fl_numeral: "(numeral n :: int) < 9007199254740992 \<Longrightarrow> fl (numeral n) = numeral n"
  using roundTo_exact[of "numeral n" 53 0 "- 1022"] by (simp add: fl_def)

lemma fl_neg_numeral: "(numeral n :: int) < 9007199254740992 \<Longrightarrow> fl (- numeral n) = - numeral n"
  using roundTo_exact[of "- numeral n" 53 0 "- 1022"] by (simp add: fl_def)

lemma fl_over_2:
  "(numeral n :: int) < 9007199254740992 \<Longrightarrow> fl (numeral n / 2) = numeral n / 2"
  "(numeral n :: int) < 9007199254740992 \<Longrightarrow> fl (- (numeral n / 2)) = - (numeral n / 2)"
  "fl (1 / 2) = 1 / 2" "fl (- (1 / 2)) = - (1 / 2)"
  using roundTo_exact[of "numeral n" 53 1 "- 1022"] roundTo_exact[of "- numeral n" 53 1 "- 1022"]
    roundTo_exact[of 1 53 1 "- 1022"] roundTo_exact[of "- 1" 53 1 "- 1022"]
  by (simp_all add: fl_def)

lemma fl_over_4:
  "(numeral n :: int) < 9007199254740992 \<Longrightarrow> fl (numeral n / 4) = numeral n / 4"
  "(numeral n :: int) < 9007199254740992 \<Longrightarrow> fl (- (numeral n / 4)) = - (numeral n / 4)"
  "fl (1 / 4) = 1 / 4" "fl (- (1 / 4)) = - (1 / 4)"
  using roundTo_exact[of "numeral n" 53 2 "- 1022"] roundTo_exact[of "- numeral n" 53 2 "- 1022"]
    roundTo_exact[of 1 53 2 "- 1022"] roundTo_exact[of "- 1" 53 2 "- 1022"]
  by (simp_all add: fl_def)

lemma fl_over_8:
  "(numeral n :: int) < 9007199254740992 \<Longrightarrow> fl (numeral n / 8) = numeral n / 8"
  "(numeral n :: int) < 9007199254740992 \<Longrightarrow> fl (- (numeral n / 8)) = - (numeral n / 8)"
  "fl (1 / 8) = 1 / 8" "fl (- (1 / 8)) = - (1 / 8)"
  using roundTo_exact[of "numeral n" 53 3 "- 1022"] roundTo_exact[of "- numeral n" 53 3 "- 1022"]
    roundTo_exact[of 1 53 3 "- 1022"] roundTo_exact[of "- 1" 53 3 "- 1022"]
  by (simp_all add: fl_def)

lemma fl_over_16:
  "(numeral n :: int) < 9007199254740992 \<Longrightarrow> fl (numeral n / 16) = numeral n / 16"
  "(numeral n :: int) < 9007199254740992 \<Longrightarrow> fl (- (numeral n / 16)) = - (numeral n / 16)"
  "fl (1 / 16) = 1 / 16" "fl (- (1 / 16)) = - (1 / 16)"
  using roundTo_exact[of "numeral n" 53 4 "- 1022"] roundTo_exact[of "- numeral n" 53 4 "- 1022"]
    roundTo_exact[of 1 53 4 "- 1022"] roundTo_exact[of "- 1" 53 4 "- 1022"]
  by (simp_all add: fl_def)

lemma fl_over_32:
  "(numeral n :: int) < 9007199254740992 \<Longrightarrow> fl (numeral n / 32) = numeral n / 32"
  "(numeral n :: int) < 9007199254740992 \<Longrightarrow> fl (- (numeral n / 32)) = - (numeral n / 32)"
  "fl (1 / 32) = 1 / 32" "fl (- (1 / 32)) = - (1 / 32)"
  using roundTo_exact[of "numeral n" 53 5 "- 1022"] roundTo_exact[of "- numeral n" 53 5 "- 1022"]
    roundTo_exact[of 1 53 5 "- 1022"] roundTo_exact[of "- 1" 53 5 "- 1022"]
  by (simp_all add: fl_def)

lemma fl_over_64:
  "(numeral n :: int) < 9007199254740992 \<Longrightarrow> fl (numeral n / 64) = numeral n / 64"
  "(numeral n :: int) < 9007199254740992 \<Longrightarrow> fl (- (numeral n / 64)) = - (numeral n / 64)"
  "fl (1 / 64) = 1 / 64" "fl (- (1 / 64)) = - (1 / 64)"
  using roundTo_exact[of "numeral n" 53 6 "- 1022"] roundTo_exact[of "- numeral n" 53 6 "- 1022"]
    roundTo_exact[of 1 53 6 "- 1022"] roundTo_exact[of "- 1" 53 6 "- 1022"]
  by (simp_all add: fl_def)

lemma fl_over_128:
  "(numeral n :: int) < 9007199254740992 \<Longrightarrow> fl (numeral n / 128) = numeral n / 128"
  "(numeral n :: int) < 9007199254740992 \<Longrightarrow> fl (- (numeral n / 128)) = - (numeral n / 128)"
  "fl (1 / 128) = 1 / 128" "fl (- (1 / 128)) = - (1 / 128)"
  using roundTo_exact[of "numeral n" 53 7 "- 1022"] roundTo_exact[of "- numeral n" 53 7 "- 1022"]
    roundTo_exact[of 1 53 7 "- 1022"] roundTo_exact[of "- 1" 53 7 "- 1022"]
  by (simp_all add: fl_def)

lemma fl_over_256:
  "(numeral n :: int) < 9007199254740992 \<Longrightarrow> fl (numeral n / 256) = numeral n / 256"
  "(numeral n :: int) < 9007199254740992 \<Longrightarrow> fl (- (numeral n / 256)) = - (numeral n / 256)"
  "fl (1 / 256) = 1 / 256" "fl (- (1 / 256)) = - (1 / 256)"
  using roundTo_exact[of "numeral n" 53 8 "- 1022"] roundTo_exact[of "- numeral n" 53 8 "- 1022"]
    roundTo_exact[of 1 53 8 "- 1022"] roundTo_exact[of "- 1" 53 8 "- 1022"]
  by (simp_all add: fl_def)

lemma fl_over_512:
  "(numeral n :: int) < 9007199254740992 \<Longrightarrow> fl (numeral n / 512) = numeral n / 512"
  "(numeral n :: int) < 9007199254740992 \<Longrightarrow> fl (- (numeral n / 512)) = - (numeral n / 512)"
  "fl (1 / 512) = 1 / 512" "fl (- (1 / 512)) = - (1 / 512)"
  using roundTo_exact[of "numeral n" 53 9 "- 1022"] roundTo_exact[of "- numeral n" 53 9 "- 1022"]
    roundTo_exact[of 1 53 9 "- 1022"] roundTo_exact[of "- 1" 53 9 "- 1022"]
  by (simp_all add: fl_def)

lemma fl_over_1024:
  "(numeral n :: int) < 9007199254740992 \<Longrightarrow> fl (numeral n / 1024) = numeral n / 1024"
  "(numeral n :: int) < 9007199254740992 \<Longrightarrow> fl (- (numeral n / 1024)) = - (numeral n / 1024)"
  "fl (1 / 1024) = 1 / 1024" "fl (- (1 / 1024)) = - (1 / 1024)"
  using roundTo_exact[of "numeral n" 53 10 "- 1022"] roundTo_exact[of "- numeral n" 53 10 "- 1022"]
    roundTo_exact[of 1 53 10 "- 1022"] roundTo_exact[of "- 1" 53 10 "- 1022"]
  by (simp_all add: fl_def)

lemma fl_over_2048:
  "(numeral n :: int) < 9007199254740992 \<Longrightarrow> fl (numeral n / 2048) = numeral n / 2048"
  "(numeral n :: int) < 9007199254740992 \<Longrightarrow> fl (- (numeral n / 2048)) = - (numeral n / 2048)"
  "fl (1 / 2048) = 1 / 2048" "fl (- (1 / 2048)) = - (1 / 2048)"
  using roundTo_exact[of "numeral n" 53 11 "- 1022"] roundTo_exact[of "- numeral n" 53 11 "- 1022"]
    roundTo_exact[of 1 53 11 "- 1022"] roundTo_exact[of "- 1" 53 11 "- 1022"]
  by (simp_all add: fl_def)

lemma fl_over_4096:
  "(numeral n :: int) < 9007199254740992 \<Longrightarrow> fl (numeral n / 4096) = numeral n / 4096"
  "(numeral n :: int) < 9007199254740992 \<Longrightarrow> fl (- (numeral n / 4096)) = - (numeral n / 4096)"
  "fl (1 / 4096) = 1 / 4096" "fl (- (1 / 4096)) = - (1 / 4096)"
  using roundTo_exact[of "numeral n" 53 12 "- 1022"] roundTo_exact[of "- numeral n" 53 12 "- 1022"]
    roundTo_exact[of 1 53 12 "- 1022"] roundTo_exact[of "- 1" 53 12 "- 1022"]
  by (simp_all add: fl_def)

lemma fl_over_8192:
  "(numeral n :: int) < 9007199254740992 \<Longrightarrow> fl (numeral n / 8192) = numeral n / 8192"
  "(numeral n :: int) < 9007199254740992 \<Longrightarrow> fl (- (numeral n / 8192)) = - (numeral n / 8192)"
  "fl (1 / 8192) = 1 / 8192" "fl (- (1 / 8192)) = - (1 / 8192)"
  using roundTo_exact[of "numeral n" 53 13 "- 1022"] roundTo_exact[of "- numeral n" 53 13 "- 1022"]
    roundTo_exact[of 1 53 13 "- 1022"] roundTo_exact[of "- 1" 53 13 "- 1022"]
  by (simp_all add: fl_def)

lemma fl_over_16384:
  "(numeral n :: int) < 9007199254740992 \<Longrightarrow> fl (numeral n / 16384) = numeral n / 16384"
  "(numeral n :: int) < 9007199254740992 \<Longrightarrow> fl (- (numeral n / 16384)) = - (numeral n / 16384)"
  "fl (1 / 16384) = 1 / 16384" "fl (- (1 / 16384)) = - (1 / 16384)"
  using roundTo_exact[of "numeral n" 53 14 "- 1022"] roundTo_exact[of "- numeral n" 53 14 "- 1022"]
    roundTo_exact[of 1 53 14 "- 1022"] roundTo_exact[of "- 1" 53 14 "- 1022"]
  by (simp_all add: fl_def)

lemma fl_over_32768:
  "(numeral n :: int) < 9007199254740992 \<Longrightarrow> fl (numeral n / 32768) = numeral n / 32768"
  "(numeral n :: int) < 9007199254740992 \<Longrightarrow> fl (- (numeral n / 32768)) = - (numeral n / 32768)"
  "fl (1 / 32768) = 1 / 32768" "fl (- (1 / 32768)) = - (1 / 32768)"
  using roundTo_exact[of "numeral n" 53 15 "- 1022"] roundTo_exact[of "- numeral n" 53 15 "- 1022"]
    roundTo_exact[of 1 53 15 "- 1022"] roundTo_exact[of "- 1" 53 15 "- 1022"]
  by (simp_all add: fl_def)

lemma fl_over_65536:
  "(numeral n :: int) < 9007199254740992 \<Longrightarrow> fl (numeral n / 65536) = numeral n / 65536"
  "(numeral n :: int) < 9007199254740992 \<Longrightarrow> fl (- (numeral n / 65536)) = - (numeral n / 65536)"
  "fl (1 / 65536) = 1 / 65536" "fl (- (1 / 65536)) = - (1 / 65536)"
  using roundTo_exact[of "numeral n" 53 16 "- 1022"] roundTo_exact[of "- numeral n" 53 16 "- 1022"]
    roundTo_exact[of 1 53 16 "- 1022"] roundTo_exact[of "- 1" 53 16 "- 1022"]
  by (simp_all add: fl_def)

lemmas fl_eval =
  fl_zero fl_one fl_numeral fl_neg_numeral
  fl_over_2 fl_over_4 fl_over_8 fl_over_16 fl_over_32 fl_over_64 fl_over_128 fl_over_256
  fl_over_512 fl_over_1024 fl_over_2048 fl_over_4096 fl_over_8192 fl_over_16384 fl_over_32768 fl_over_65536

lemma fround_zero: "fround 0 = 0"
  by (simp add: fround_def roundTo_def)

lemma fround_one: "fround 1 = 1"
  using roundTo_exact[of 1 24 0 "- 126"] by (simp add: fround_def)

lemma fround_numeral: "(numeral n :: int) < 16777216 \<Longrightarrow> fround (numeral n) = numeral n"
  using roundTo_exact[of "numeral n" 24 0 "- 126"] by (simp add: fround_def)

lemma fround_neg_numeral: "(numeral n :: int) < 16777216 \<Longrightarrow> fround (- numeral n) = - numeral n"
  using roundTo_exact[of "- numeral n" 24 0 "- 126"] by (simp add: fround_def)

lemma fround_over_2:
  "(numeral n :: int) < 16777216 \<Longrightarrow> fround (numeral n / 2) = numeral n / 2"
  "(numeral n :: int) < 16777216 \<Longrightarrow> fround (- (numeral n / 2)) = - (numeral n / 2)"
  "fround (1 / 2) = 1 / 2" "fround (- (1 / 2)) = - (1 / 2)"
  using roundTo_exact[of "numeral n" 24 1 "- 126"] roundTo_exact[of "- numeral n" 24 1 "- 126"]
    roundTo_exact[of 1 24 1 "- 126"] roundTo_exact[of "- 1" 24 1 "- 126"]
  by (simp_all add: fround_def)

lemma fround_over_4:
  "(numeral n :: int) < 16777216 \<Longrightarrow> fround (numeral n / 4) = numeral n / 4"
  "(numeral n :: int) < 16777216 \<Longrightarrow> fround (- (numeral n / 4)) = - (numeral n / 4)"
  "fround (1 / 4) = 1 / 4" "fround (- (1 / 4)) = - (1 / 4)"
  using roundTo_exact[of "numeral n" 24 2 "- 126"] roundTo_exact[of "- numeral n" 24 2 "- 126"]
    roundTo_exact[of 1 24 2 "- 126"] roundTo_exact[of "- 1" 24 2 "- 126"]
  by (simp_all add: fround_def)

lemma fround_over_8:
  "(numeral n :: int) < 16777216 \<Longrightarrow> fround (numeral n / 8) = numeral n / 8"
  "(numeral n :: int) < 16777216 \<Longrightarrow> fround (- (numeral n / 8)) = - (numeral n / 8)"
  "fround (1 / 8) = 1 / 8" "fround (- (1 / 8)) = - (1 / 8)"
  using roundTo_exact[of "numeral n" 24 3 "- 126"] roundTo_exact[of "- numeral n" 24 3 "- 126"]
    roundTo_exact[of 1 24 3 "- 126"] roundTo_exact[of "- 1" 24 3 "- 126"]
  by (simp_all add: fround_def)

lemma fround_over_16:
  "(numeral n :: int) < 16777216 \<Longrightarrow> fround (numeral n / 16) = numeral n / 16"
  "(numeral n :: int) < 16777216 \<Longrightarrow> fround (- (numeral n / 16)) = - (numeral n / 16)"
  "fround (1 / 16) = 1 / 16" "fround (- (1 / 16)) = - (1 / 16)"
  using roundTo_exact[of "numeral n" 24 4 "- 126"] roundTo_exact[of "- numeral n" 24 4 "- 126"]
    roundTo_exact[of 1 24 4 "- 126"] roundTo_exact[of "- 1" 24 4 "- 126"]
  by (simp_all add: fround_def)

lemma fround_over_32:
  "(numeral n :: int) < 16777216 \<Longrightarrow> fround (numeral n / 32) = numeral n / 32"
  "(numeral n :: int) < 16777216 \<Longrightarrow> fround (- (numeral n / 32)) = - (numeral n / 32)"
  "fround (1 / 32) = 1 / 32" "fround (- (1 / 32)) = - (1 / 32)"
  using roundTo_exact[of "numeral n" 24 5 "- 126"] roundTo_exact[of "- numeral n" 24 5 "- 126"]
    roundTo_exact[of 1 24 5 "- 126"] roundTo_exact[of "- 1" 24 5 "- 126"]
  by (simp_all add: fround_def)

lemma fround_over_64:
  "(numeral n :: int) < 16777216 \<Longrightarrow> fround (numeral n / 64) = numeral n / 64"
  "(numeral n :: int) < 16777216 \<Longrightarrow> fround (- (numeral n / 64)) = - (numeral n / 64)"
  "fround (1 / 64) = 1 / 64" "fround (- (1 / 64)) = - (1 / 64)"
  using roundTo_exact[of "numeral n" 24 6 "- 126"] roundTo_exact[of "- numeral n" 24 6 "- 126"]
    roundTo_exact[of 1 24 6 "- 126"] roundTo_exact[of "- 1" 24 6 "- 126"]
  by (simp_all add: fround_def)

lemma fround_over_128:
  "(numeral n :: int) < 16777216 \<Longrightarrow> fround (numeral n / 128) = numeral n / 128"
  "(numeral n :: int) < 16777216 \<Longrightarrow> fround (- (numeral n / 128)) = - (numeral n / 128)"
  "fround (1 / 128) = 1 / 128" "fround (- (1 / 128)) = - (1 / 128)"
  using roundTo_exact[of "numeral n" 24 7 "- 126"] roundTo_exact[of "- numeral n" 24 7 "- 126"]
    roundTo_exact[of 1 24 7 "- 126"] roundTo_exact[of "- 1" 24 7 "- 126"]
  by (simp_all add: fround_def)

lemma fround_over_256:
  "(numeral n :: int) < 16777216 \<Longrightarrow> fround (numeral n / 256) = numeral n / 256"
  "(numeral n :: int) < 16777216 \<Longrightarrow> fround (- (numeral n / 256)) = - (numeral n / 256)"
  "fround (1 / 256) = 1 / 256" "fround (- (1 / 256)) = - (1 / 256)"
  using roundTo_exact[of "numeral n" 24 8 "- 126"] roundTo_exact[of "- numeral n" 24 8 "- 126"]
    roundTo_exact[of 1 24 8 "- 126"] roundTo_exact[of "- 1" 24 8 "- 126"]
  by (simp_all add: fround_def)

lemma fround_over_512:
  "(numeral n :: int) < 16777216 \<Longrightarrow> fround (numeral n / 512) = numeral n / 512"
  "(numeral n :: int) < 16777216 \<Longrightarrow> fround (- (numeral n / 512)) = - (numeral n / 512)"
  "fround (1 / 512) = 1 / 512" "fround (- (1 / 512)) = - (1 / 512)"
  using roundTo_exact[of "numeral n" 24 9 "- 126"] roundTo_exact[of "- numeral n" 24 9 "- 126"]
    roundTo_exact[of 1 24 9 "- 126"] roundTo_exact[of "- 1" 24 9 "- 126"]
  by (simp_all add: fround_def)

lemma fround_over_1024:
  "(numeral n :: int) < 16777216 \<Longrightarrow> fround (numeral n / 1024) = numeral n / 1024"
  "(numeral n :: int) < 16777216 \<Longrightarrow> fround (- (numeral n / 1024)) = - (numeral n / 1024)"
  "fround (1 / 1024) = 1 / 1024" "fround (- (1 / 1024)) = - (1 / 1024)"
  using roundTo_exact[of "numeral n" 24 10 "- 126"] roundTo_exact[of "- numeral n" 24 10 "- 126"]
    roundTo_exact[of 1 24 10 "- 126"] roundTo_exact[of "- 1" 24 10 "- 126"]
  by (simp_all add: fround_def)

lemma fround_over_2048:
  "(numeral n :: int) < 16777216 \<Longrightarrow> fround (numeral n / 2048) = numeral n / 2048"
  "(numeral n :: int) < 16777216 \<Longrightarrow> fround (- (numeral n / 2048)) = - (numeral n / 2048)"
  "fround (1 / 2048) = 1 / 2048" "fround (- (1 / 2048)) = - (1 / 2048)"
  using roundTo_exact[of "numeral n" 24 11 "- 126"] roundTo_exact[of "- numeral n" 24 11 "- 126"]
    roundTo_exact[of 1 24 11 "- 126"] roundTo_exact[of "- 1" 24 11 "- 126"]
  by (simp_all add: fround_def)

lemma fround_over_4096:
  "(numeral n :: int) < 16777216 \<Longrightarrow> fround (numeral n / 4096) = numeral n / 4096"
  "(numeral n :: int) < 16777216 \<Longrightarrow> fround (- (numeral n / 4096)) = - (numeral n / 4096)"
  "fround (1 / 4096) = 1 / 4096" "fround (- (1 / 4096)) = - (1 / 4096)"
  using roundTo_exact[of "numeral n" 24 12 "- 126"] roundTo_exact[of "- numeral n" 24 12 "- 126"]
    roundTo_exact[of 1 24 12 "- 126"] roundTo_exact[of "- 1" 24 12 "- 126"]
  by (simp_all add: fround_def)

lemma fround_over_8192:
  "(numeral n :: int) < 16777216 \<Longrightarrow> fround (numeral n / 8192) = numeral n / 8192"
  "(numeral n :: int) < 16777216 \<Longrightarrow> fround (- (numeral n / 8192)) = - (numeral n / 8192)"
  "fround (1 / 8192) = 1 / 8192" "fround (- (1 / 8192)) = - (1 / 8192)"
  using roundTo_exact[of "numeral n" 24 13 "- 126"] roundTo_exact[of "- numeral n" 24 13 "- 126"]
    roundTo_exact[of 1 24 13 "- 126"] roundTo_exact[of "- 1" 24 13 "- 126"]
  by (simp_all add: fround_def)

lemma fround_over_16384:
  "(numeral n :: int) < 16777216 \<Longrightarrow> fround (numeral n / 16384) = numeral n / 16384"
  "(numeral n :: int) < 16777216 \<Longrightarrow> fround (- (numeral n / 16384)) = - (numeral n / 16384)"
  "fround (1 / 16384) = 1 / 16384" "fround (- (1 / 16384)) = - (1 / 16384)"
  using roundTo_exact[of "numeral n" 24 14 "- 126"] roundTo_exact[of "- numeral n" 24 14 "- 126"]
    roundTo_exact[of 1 24 14 "- 126"] roundTo_exact[of "- 1" 24 14 "- 126"]
  by (simp_all add: fround_def)

lemma fround_over_32768:
  "(numeral n :: int) < 16777216 \<Longrightarrow> fround (numeral n / 32768) = numeral n / 32768"
  "(numeral n :: int) < 16777216 \<Longrightarrow> fround (- (numeral n / 32768)) = - (numeral n / 32768)"
  "fround (1 / 32768) = 1 / 32768" "fround (- (1 / 32768)) = - (1 / 32768)"
  using roundTo_exact[of "numeral n" 24 15 "- 126"] roundTo_exact[of "- numeral n" 24 15 "- 126"]
    roundTo_exact[of 1 24 15 "- 126"] roundTo_exact[of "- 1" 24 15 "- 126"]
  by (simp_all add: fround_def)

lemma fround_over_65536:
  "(numeral n :: int) < 16777216 \<Longrightarrow> fround (numeral n / 65536) = numeral n / 65536"
  "(numeral n :: int) < 16777216 \<Longrightarrow> fround (- (numeral n / 65536)) = - (numeral n / 65536)"
  "fround (1 / 65536) = 1 / 65536" "fround (- (1 / 65536)) = - (1 / 65536)"
  using roundTo_exact[of "numeral n" 24 16 "- 126"] roundTo_exact[of "- numeral n" 24 16 "- 126"]
    roundTo_exact[of 1 24 16 "- 126"] roundTo_exact[of "- 1" 24 16 "- 126"]
  by (simp_all add: fround_def)

lemmas fround_eval =
  fround_zero fround_one fround_numeral fround_neg_numeral
  fround_over_2 fround_over_4 fround_over_8 fround_over_16 fround_over_32 fround_over_64 fround_over_128 fround_over_256
  fround_over_512 fround_over_1024 fround_over_2048 fround_over_4096 fround_over_8192 fround_over_16384 fround_over_32768 fround_over_65536

lemmas number_eval = fl_eval fround_eval

lemma fl_of_int: "\<bar>n\<bar> < 9007199254740992 \<Longrightarrow> fl (of_int n) = of_int n"
  using roundTo_exact[of n 53 0 "- 1022"] by (simp add: fl_def)

text \<open>The first integer that is not a double: \<open>2\<^sup>5\<^sup>3 + 1\<close> rounds to \<open>2\<^sup>5\<^sup>3\<close>.\<close>

lemma fl_first_gap: "fl 9007199254740993 = 9007199254740992"
proof -
  have "\<lfloor>log 2 (9007199254740993 :: real)\<rfloor> = 53"
    by (subst floor_log_eq_powr_iff) (simp_all add: powr_realpow[of 2, symmetric, simplified])
  hence e: "max \<lfloor>log 2 \<bar>9007199254740993 :: real\<bar>\<rfloor> (- 1022) = 53" by simp
  have u: "2 powr of_int (53 - 53 + 1) = (2 :: real)" by simp
  have r: "roundEven (9007199254740993 / 2) = 4503599627370496"
  proof -
    have f: "\<lfloor>9007199254740993 / 2 :: real\<rfloor> = 4503599627370496" by linarith
    show ?thesis unfolding roundEven_def f by (simp add: Let_def)
  qed
  show ?thesis
    unfolding fl_def roundTo_def e u Let_def r by simp
qed

section \<open>Chunk cache: the chunks of a box\<close>

text \<open>
  Between integer bounds that are doubles with room for the increment, the counting loop
  returns the integers from the first to the last. At \<open>2\<^sup>5\<^sup>3\<close> the increment is lost and the
  loop does not return. The box \<open>{2\<^sup>5\<^sup>3, 0, 1, 1}\<close> gets no chunk: \<open>2\<^sup>5\<^sup>3 + 1\<close> rounds to
  \<open>2\<^sup>5\<^sup>3\<close>, so the last column, from \<open>2\<^sup>5\<^sup>3 - 1\<close>, lies before the first.
\<close>

lemma countUp_ints:
  assumes "- 9007199254740992 \<le> lo" "hi < 9007199254740991"
  shows "countUp (of_int lo) (of_int hi) acc = Some (acc @ map of_int [lo..hi])"
  using assms
proof (induction "nat (hi - lo + 1)" arbitrary: lo acc)
  case 0
  hence "hi < lo" by simp
  thus ?case by (subst countUp.simps) simp
next
  case (Suc n)
  hence le: "lo \<le> hi" by simp
  have "\<bar>lo + 1\<bar> < 9007199254740992" using le Suc.prems by (auto simp: abs_less_iff)
  from fl_of_int[OF this] have f: "fl (of_int lo + 1) = of_int (lo + 1)" by simp
  have n: "n = nat (hi - (lo + 1) + 1)" using Suc.hyps(2) by simp
  have ih: "countUp (of_int (lo + 1)) (of_int hi) (acc @ [of_int lo])
            = Some ((acc @ [of_int lo]) @ map of_int [lo + 1..hi])"
    using Suc.hyps(1)[OF n] Suc.prems by simp
  have "countUp (of_int lo) (of_int hi) acc
        = countUp (fl (of_int lo + 1)) (of_int hi) (acc @ [of_int lo])"
    using le by (subst countUp.simps) simp
  also have "\<dots> = Some ((acc @ [of_int lo]) @ map of_int [lo + 1..hi])"
    unfolding f by (rule ih)
  also have "\<dots> = Some (acc @ map of_int [lo..hi])"
    using le by (simp add: upto_rec1[of lo hi])
  finally show ?case .
qed

lemma countUp_stuck:
  assumes "countUp c hi acc = Some r"
  shows "\<not> (c = 9007199254740992 \<and> 9007199254740992 \<le> hi)"
  using assms
proof (induction c hi acc r rule: countUp.raw_induct)
  case (1 cu c hi acc r)
  show ?case
  proof
    assume h: "c = 9007199254740992 \<and> 9007199254740992 \<le> hi"
    hence "fl (c + 1) = 9007199254740992" using fl_first_gap by simp
    with h 1(2) have a: "cu 9007199254740992 hi (acc @ [c]) = Some r" by simp
    from 1(3) h \<open>fl (c + 1) = 9007199254740992\<close>
    have b: "countUp 9007199254740992 hi (acc @ [c]) = Some r"
      by (subst (asm) countUp.simps) simp
    from 1(1)[OF a b] h show False by simp
  qed
qed (rule assms)

lemma countUp_never_returns: "countUp 9007199254740992 9007199254740992 [] = None"
  using countUp_stuck[of 9007199254740992 9007199254740992 "[]"] by (cases "countUp 9007199254740992 9007199254740992 []") auto

lemma first_gap_box_no_chunk:
  "getChunksForBbox (box 9007199254740992 0 1 1) = Some []"
  by (simp add: getChunksForBbox_def CHUNK_SIZE_def box_def Let_def countUp.simps fl_eval fl_first_gap)

section \<open>Chunk cache: segments\<close>

lemmas segment_eval =
  computeSegmentsForObject_def getChunksForBbox_def countUp.simps segmentFor_def
  List.map_filter_def CHUNK_SIZE_def Let_def box_def fl_eval

text \<open>
  C4 fails on the code. \<^verbatim>\<open>getChunksForBbox\<close> takes the last column from
  \<open>\<lfloor>(x + w - 1) / 1024\<rfloor>\<close>, the index of the last whole pixel, while
  \<^verbatim>\<open>computeSegmentsForObject\<close> clips the same box as the half-open rectangle from \<open>x\<close> to
  \<open>x + w\<close>. On a box with a fractional extent the two disagree: the box
  \<open>{0, 0, 0.5, 0.5}\<close> gets the column range \<open>0\<close> to \<open>-1\<close>, hence no chunk, no segment,
  and the object is never drawn although the point \<open>(0.25, 0.25)\<close> of it lies in chunk
  \<open>(0, 0)\<close>; the box \<open>{0, 0, 1024.5, 10}\<close> gets chunk \<open>(0, 0)\<close> only, its one segment is
  clipped to width 1024, and the point \<open>(1024.25, 5)\<close> of the box, in chunk \<open>(1, 0)\<close>, lies
  in no clip rectangle. Every number in the two computations is a double, so no operation
  rounds.
\<close>

theorem fractional_box_loses_segments:
  "getChunksForBbox (box 0 0 (1 / 2) (1 / 2)) = Some []
   \<and> computeSegmentsForObject speckObj = Some []
   \<and> map_option chunks (addObjects newChunkManager [speckObj]) = Some []
   \<and> (1 / 4, 1 / 4) \<in> bbox_pts (box 0 0 (1 / 2) (1 / 2)) \<inter> chunk_pts (0, 0)
   \<and> getChunksForBbox (box 0 0 (2049 / 2) 10) = Some [(0, 0)]
   \<and> map_option (map seg_clipRect) (computeSegmentsForObject wideObj)
       = Some [\<lparr> rect_x = 0, rect_y = 0, rect_width = 1024, rect_height = 10 \<rparr>]
   \<and> (4097 / 4, 5) \<in> bbox_pts (box 0 0 (2049 / 2) 10) \<inter> chunk_pts (1, 0)
   \<and> (4097 / 4, 5)
        \<notin> \<Union> (clipWorld (box 0 0 (2049 / 2) 10) ` set (the (computeSegmentsForObject wideObj)))"
proof -
  have 1: "getChunksForBbox (box 0 0 (1 / 2) (1 / 2)) = Some []"
    by (simp add: segment_eval)
  have 2: "computeSegmentsForObject speckObj = Some []"
    by (simp add: speckObj_def segment_eval)
  have 3: "map_option chunks (addObjects newChunkManager [speckObj]) = Some []"
    by (simp add: addObject_def newChunkManager_def speckObj_def segment_eval)
  have 4: "(1 / 4, 1 / 4) \<in> bbox_pts (box 0 0 (1 / 2) (1 / 2)) \<inter> chunk_pts (0, 0)"
    by (simp add: bbox_pts_def chunk_pts_def rect_pts_def CHUNK_SIZE_def box_def)
  have 5: "getChunksForBbox (box 0 0 (2049 / 2) 10) = Some [(0, 0)]"
    by (simp add: segment_eval)
  have 6: "map_option (map seg_clipRect) (computeSegmentsForObject wideObj)
       = Some [\<lparr> rect_x = 0, rect_y = 0, rect_width = 1024, rect_height = 10 \<rparr>]"
    by (simp add: wideObj_def segment_eval)
  have 7: "(4097 / 4, 5) \<in> bbox_pts (box 0 0 (2049 / 2) 10) \<inter> chunk_pts (1, 0)"
    by (simp add: bbox_pts_def chunk_pts_def rect_pts_def CHUNK_SIZE_def box_def)
  have 8: "(4097 / 4, 5)
        \<notin> \<Union> (clipWorld (box 0 0 (2049 / 2) 10) ` set (the (computeSegmentsForObject wideObj)))"
    by (simp add: wideObj_def segment_eval clipWorld_def rect_pts_def)
  from 1 2 3 4 5 6 7 8 show ?thesis by blast
qed

section \<open>Chunk cache: rebuilds\<close>

lemma updateSegmentLods_idem:
  "updateSegmentLods vp g segs = Inr segs' \<Longrightarrow> updateSegmentLods vp g segs' = Inr segs'"
proof (induction segs arbitrary: segs')
  case Nil
  then show ?case by simp
next
  case (Cons kv rest)
  then show ?case
    by (auto split: option.splits sum.splits)
qed

lemma rebuildLive_loop_ok:
  "updateSegmentLods vp g segs = Inr segs' \<Longrightarrow> \<exists>ch. rebuildLive_loop draws g segs' acc = Inr ch"
proof (induction segs arbitrary: segs' acc)
  case Nil
  then show ?case by simp
next
  case (Cons kv rest)
  then show ?case
    by (auto split: option.splits sum.splits)
qed

lemma chunk_update_post:
  assumes "chunk_update draws vp g c = Inr c1"
  shows "isDirty c1 = False" "previousLod c1 = Some (vp_lodLevel vp)"
        "updateSegmentLods vp g (segments c1) = Inr (segments c1)"
        "sprite_x c1 = sprite_x c" "sprite_y c1 = sprite_y c"
  using assms
  by (auto simp: chunk_update_def Let_def rebuildLive_def rebuildRenderTexture_def
           dest: updateSegmentLods_idem split: sum.splits if_splits)

lemma chunk_update_twice:
  assumes "chunk_update draws vp g c = Inr c1"
  shows "\<exists>c2. chunk_update draws vp g c1 = Inr c2
           \<and> textureRebuilds c2 = textureRebuilds c1
           \<and> liveRebuilds c2 = liveRebuilds c1 +
                (if vp_lodLevel vp = Some Near \<and> live_children c1 = [] then 1 else 0)"
proof -
  note p = chunk_update_post[OF assms]
  obtain ch where ch: "rebuildLive_loop draws g (segments c1) [] = Inr ch"
    using rebuildLive_loop_ok[OF p(3)] by blast
  show ?thesis
    using p(1,2,3) ch
    by (simp add: chunk_update_def Let_def rebuildLive_def)
qed

lemma updateChunks_twice:
  "updateChunks d vp vis g cs = Inr cs1 \<Longrightarrow>
   \<exists>cs2. updateChunks d vp vis g cs1 = Inr cs2 \<and>
     list_all2 (\<lambda>kc1 kc2. fst kc2 = fst kc1 \<and> rebuildsOnlyEmptyLive vis vp (snd kc1) (snd kc2)) cs1 cs2"
proof (induction cs arbitrary: cs1)
  case Nil
  then show ?case by simp
next
  case (Cons kc rest)
  show ?case
  proof (cases "chunkVisible vis (snd kc)")
    case True
    from Cons.prems True obtain c1 rest1 where
      u: "chunk_update d vp g (snd kc) = Inr c1" and r: "updateChunks d vp vis g rest = Inr rest1"
      and cs1: "cs1 = (fst kc, c1) # rest1"
      by (auto split: sum.splits)
    from chunk_update_twice[OF u] obtain c2 where
      c2: "chunk_update d vp g c1 = Inr c2" "textureRebuilds c2 = textureRebuilds c1"
          "liveRebuilds c2 = liveRebuilds c1 + (if vp_lodLevel vp = Some Near \<and> live_children c1 = [] then 1 else 0)"
      by blast
    from Cons.IH[OF r] obtain rest2 where
      rest2: "updateChunks d vp vis g rest1 = Inr rest2"
        "list_all2 (\<lambda>kc1 kc2. fst kc2 = fst kc1 \<and> rebuildsOnlyEmptyLive vis vp (snd kc1) (snd kc2)) rest1 rest2"
      by blast
    have v: "chunkVisible vis c1"
      using True chunk_update_post(4,5)[OF u] by (simp add: chunkVisible_def)
    show ?thesis using cs1 c2 rest2 v by (simp add: rebuildsOnlyEmptyLive_def)
  next
    case False
    from Cons.prems False obtain rest1 where
      r: "updateChunks d vp vis g rest = Inr rest1" and cs1: "cs1 = kc # rest1"
      by (auto split: sum.splits)
    from Cons.IH[OF r] obtain rest2 where
      rest2: "updateChunks d vp vis g rest1 = Inr rest2"
        "list_all2 (\<lambda>kc1 kc2. fst kc2 = fst kc1 \<and> rebuildsOnlyEmptyLive vis vp (snd kc1) (snd kc2)) rest1 rest2"
      by blast
    show ?thesis using cs1 rest2 False by (simp add: rebuildsOnlyEmptyLive_def)
  qed
qed

lemmas chunk_eval =
  movedObjectManager_def addObject_def newChunkManager_def
  computeSegmentsForObject_def getChunksForBbox_def countUp.simps CHUNK_SIZE_def
  List.map_filter_def
  segmentFor_def installSegment_def addSegment_def newChunk_def removeOldSegments_def
  removeSegmentsByObjectId_def keyStartsWith_def Let_def updateVisibleChunks_def
  chunk_update_def chunkVisible_def rect_intersects_def nearViewport_def originRect_def
  rebuildLive_def rebuildRenderTexture_def objA_def objB_def objC_def box_def alwaysDraws_def
  fl_eval

text \<open>
  C5, as amended. When \<^verbatim>\<open>updateVisibleChunks\<close> has returned, a second call with the same
  viewport and visible rectangle returns as well, rebuilds no cached raster, and rebuilds the
  live container of exactly those chunks that are visible at the nearest band with an empty
  live container.
\<close>

theorem second_update_rebuilds:
  assumes "updateVisibleChunks d m vp vis = Inr m1"
  shows "\<exists>m2. updateVisibleChunks d m1 vp vis = Inr m2 \<and>
     list_all2 (\<lambda>kc1 kc2. fst kc2 = fst kc1 \<and> rebuildsOnlyEmptyLive vis vp (snd kc1) (snd kc2))
       (chunks m1) (chunks m2)"
proof -
  from assms obtain cs1 where cs1: "updateChunks d vp vis (objects m) (chunks m) = Inr cs1"
    and m1: "m1 = m\<lparr> chunks := cs1 \<rparr>"
    by (auto simp: updateVisibleChunks_def split: sum.splits)
  from updateChunks_twice[OF cs1] obtain cs2 where
    "updateChunks d vp vis (objects m) cs1 = Inr cs2"
    "list_all2 (\<lambda>kc1 kc2. fst kc2 = fst kc1 \<and> rebuildsOnlyEmptyLive vis vp (snd kc1) (snd kc2)) cs1 cs2"
    by blast
  thus ?thesis using m1 by (simp add: updateVisibleChunks_def)
qed

lemma movedObjectManager_first_update:
  "updateVisibleChunks alwaysDraws movedObjectManager nearViewport originRect = Inr movedObjectManager_seen"
  by (simp add: movedObjectManager_seen_def chunk_eval)

theorem second_update_rebuilds_witness:
  "updateVisibleChunks alwaysDraws movedObjectManager nearViewport originRect = Inr movedObjectManager_seen
   \<and> (\<exists>m2. updateVisibleChunks alwaysDraws movedObjectManager_seen nearViewport originRect = Inr m2 \<and>
        list_all2 (\<lambda>kc1 kc2. fst kc2 = fst kc1
                     \<and> rebuildsOnlyEmptyLive originRect nearViewport (snd kc1) (snd kc2))
          (chunks movedObjectManager_seen) (chunks m2))"
  using movedObjectManager_first_update second_update_rebuilds[OF movedObjectManager_first_update]
  by blast

text \<open>
  C5, as stated, fails. Object \<open>a\<close> is declared at \<open>{0, 0, 10, 10}\<close> and then at
  \<open>{5000, 5000, 10, 10}\<close>, which leaves chunk \<open>(0, 0)\<close> with no segment. With the nearest
  band and a visible rectangle over that chunk, the first call rebuilds its live container
  (count 1) and the second call, nothing changed in between, rebuilds it again (count 2).
\<close>

theorem second_update_rebuilds_counterexample:
  "map fst (chunks movedObjectManager) = [(0, 0), (4, 4)]
   \<and> updateVisibleChunks alwaysDraws movedObjectManager nearViewport originRect = Inr movedObjectManager_seen
   \<and> map (liveRebuilds \<circ> snd) (chunks movedObjectManager_seen) = [1, 0]
   \<and> \<not> isl (updateVisibleChunks alwaysDraws movedObjectManager_seen nearViewport originRect)
   \<and> map (liveRebuilds \<circ> snd)
         (chunks (projr (updateVisibleChunks alwaysDraws movedObjectManager_seen nearViewport originRect)))
       = [2, 0]"
proof -
  have a: "map fst (chunks movedObjectManager) = [(0, 0), (4, 4)]"
    by (simp add: chunk_eval)
  have b: "map (liveRebuilds \<circ> snd) (chunks movedObjectManager_seen) = [1, 0]"
    by (simp add: movedObjectManager_seen_def chunk_eval)
  have c: "\<not> isl (updateVisibleChunks alwaysDraws movedObjectManager_seen nearViewport originRect)
     \<and> map (liveRebuilds \<circ> snd)
         (chunks (projr (updateVisibleChunks alwaysDraws movedObjectManager_seen nearViewport originRect)))
       = [2, 0]"
    by (simp add: movedObjectManager_seen_def chunk_eval)
  show ?thesis using a b c movedObjectManager_first_update by blast
qed

section \<open>Object store: what the tree operations leave alone\<close>

lemma sameObjects_refl [simp]: "sameObjects s s"
  by (simp add: sameObjects_def)

lemma sameObjects_trans: "sameObjects s s1 \<Longrightarrow> sameObjects s1 s2 \<Longrightarrow> sameObjects s s2"
  by (simp add: sameObjects_def)

lemma sameObjects_nodePool [simp]: "sameObjects s (s'\<lparr> nodePool := p \<rparr>) = sameObjects s s'"
  by (simp add: sameObjects_def)

lemma sameObjects_nodePool_left [simp]: "sameObjects (s\<lparr> nodePool := p \<rparr>) s' = sameObjects s s'"
  by (simp add: sameObjects_def)

lemma sameObjects_obtainObjectRefIndex: "obtainObjectRefIndex s = (r, s1) \<Longrightarrow> sameObjects s s1"
  by (auto simp: obtainObjectRefIndex_def expandObjectRefs_def sameObjects_def Let_def split: list.splits if_splits)

lemma sameObjects_attachToNode: "sameObjects s (attachToNode s handle nodeId)"
proof (cases "obtainObjectRefIndex s")
  case (Pair r s1)
  from sameObjects_obtainObjectRefIndex[OF Pair] show ?thesis
    by (simp add: attachToNode_def Pair sameObjects_def Let_def)
qed

lemma sameObjects_detachRef: "sameObjects s (detachRef s nodeId refIndex prevRef handle)"
  by (simp add: detachRef_def sameObjects_def Let_def split: option.splits)

lemma sameObjects_purgeHandleFromNode:
  "sameObjects s s'" if "purgeHandleFromNode s handle nodeId = Some (removed, s')"
proof (cases "nodeId = - 1")
  case True
  then show ?thesis using that by (simp add: purgeHandleFromNode_def)
next
  case False
  show ?thesis
  proof (cases "purgeFind (objectRefNext s) (objectRefHandle s) handle (getFirstObject (nodePool s) nodeId) (- 1)")
    case None
    with False that show ?thesis by (simp add: purgeHandleFromNode_def)
  next
    case (Some f)
    show ?thesis
    proof (cases f)
      case None
      with Some False that show ?thesis by (simp add: purgeHandleFromNode_def)
    next
      case (Some cp)
      obtain current prev where cp: "cp = (current, prev)" by (cases cp)
      from that False \<open>purgeFind (objectRefNext s) (objectRefHandle s) handle (getFirstObject (nodePool s) nodeId) (- 1) = Some f\<close> Some cp
      have "s' = detachRef s nodeId current prev (Some handle)"
        by (simp add: purgeHandleFromNode_def)
      then show ?thesis by (simp add: sameObjects_detachRef)
    qed
  qed
qed

lemma sameObjects_mergeWalk:
  assumes "mergeWalk s parentId ref = Some s'"
  shows "sameObjects s s'"
  using assms
proof (induction s parentId ref s' rule: mergeWalk.raw_induct)
  case (1 mw s parentId ref s')
  show ?case
  proof (cases "ref = - 1")
    case True
    with 1(2) show ?thesis by simp
  next
    case False
    let ?s1 = "attachToNode s (objectRefHandle s ref) parentId"
    from False 1(2) have a: "mw ?s1 parentId (objectRefNext ?s1 ref) = Some s'"
      by (simp add: Let_def)
    from False 1(3) have b: "mergeWalk ?s1 parentId (objectRefNext ?s1 ref) = Some s'"
      by (subst (asm) mergeWalk.simps) (simp add: Let_def)
    from 1(1)[OF a b] have "sameObjects ?s1 s'" .
    with sameObjects_attachToNode[of s "objectRefHandle s ref" parentId] show ?thesis
      by (rule sameObjects_trans)
  qed
qed (rule assms)

lemma sameObjects_mergeChildren: "mergeChildren s parentId is = Some s' \<Longrightarrow> sameObjects s s'"
proof (induction "is" arbitrary: s)
  case Nil
  then show ?case by simp
next
  case (Cons i rest)
  show ?case
  proof (cases "getChild (nodePool s) parentId i = - 1")
    case True
    with Cons show ?thesis by (simp add: Let_def)
  next
    case False
    let ?c = "getChild (nodePool s) parentId i"
    from False Cons.prems obtain s1 where
      w: "mergeWalk s parentId (getFirstObject (nodePool s) ?c) = Some s1" and
      r: "mergeChildren (s1\<lparr> nodePool := setChild (releaseNode (nodePool s1) ?c) parentId i (- 1) \<rparr>) parentId rest = Some s'"
      by (auto simp: Let_def split: option.splits)
    from Cons.IH[OF r] have "sameObjects s1 s'" by simp
    with sameObjects_mergeWalk[OF w] show ?thesis by (rule sameObjects_trans)
  qed
qed

lemma sameObjects_tryMerge: "tryMerge opts s nodeId = Some s' \<Longrightarrow> sameObjects s s'"
  by (auto simp: tryMerge_def Let_def simp del: mergeChildren.simps mergeScan.simps
           split: if_splits prod.splits option.splits dest!: sameObjects_mergeChildren)

lemma sameObjects_detachFromNode: "detachFromNode opts s handle nodeId = Some s' \<Longrightarrow> sameObjects s s'"
  by (auto simp: detachFromNode_def split: if_splits option.splits
           dest!: sameObjects_purgeHandleFromNode sameObjects_tryMerge intro: sameObjects_trans)

lemma sameObjects_redistribute_loop:
  "redistribute_loop opts s nodeId depth hs = Some s' \<Longrightarrow> sameObjects s s'"
proof (induction hs arbitrary: s)
  case Nil
  then show ?case by simp
next
  case (Cons h rest)
  let ?ci = "selectChild opts s nodeId (readBoundingBox s h) depth"
  let ?c = "getChild (nodePool s) nodeId ?ci"
  show ?case
  proof (cases "?ci \<noteq> - 1 \<and> ?c \<noteq> - 1")
    case True
    with Cons.prems obtain s1 where
      d: "detachFromNode opts s h nodeId = Some s1" and
      r: "redistribute_loop opts (attachToNode s1 h ?c) nodeId depth rest = Some s'"
      by (auto simp: Let_def split: option.splits)
    from sameObjects_detachFromNode[OF d] sameObjects_attachToNode[of s1 h ?c] Cons.IH[OF r]
    show ?thesis by (metis sameObjects_trans)
  next
    case False
    with Cons.prems have "redistribute_loop opts s nodeId depth rest = Some s'"
      by (auto simp: Let_def split: if_splits)
    from Cons.IH[OF this] show ?thesis .
  qed
qed

lemma sameObjects_splitNode: "splitNode opts s nodeId depth = Some (Inr s') \<Longrightarrow> sameObjects s s'"
  by (auto simp: splitNode_def redistribute_def Let_def simp del: allocateChildren.simps
           split: sum.splits option.splits dest!: sameObjects_redistribute_loop)

lemma sameObjects_insertHandle_step:
  "insertHandle_step opts s bbox nodeId depth = Some (Inr (s', c)) \<Longrightarrow> sameObjects s s'"
  by (auto simp: insertHandle_step_def Let_def split: if_splits option.splits sum.splits
           dest!: sameObjects_splitNode)

lemma sameObjects_insertHandle_loop:
  "insertHandle_loop opts s handle bbox nodeId depth = Some (Inr (n, s')) \<Longrightarrow> sameObjects s s'"
proof (induction opts s handle bbox nodeId depth rule: insertHandle_loop.induct)
  case (1 opts s handle bbox nodeId depth)
  from "1.prems" obtain s1 c where
    st: "insertHandle_step opts s bbox nodeId depth = Some (Inr (s1, c))"
    by (subst (asm) insertHandle_loop.simps) (auto split: option.splits sum.splits)
  note a = sameObjects_insertHandle_step[OF st]
  show ?case
  proof (cases c)
    case None
    with "1.prems" st have "s' = attachToNode s1 handle nodeId"
      by (subst (asm) insertHandle_loop.simps) auto
    with a sameObjects_attachToNode[of s1 handle nodeId] show ?thesis
      by (metis sameObjects_trans)
  next
    case (Some childId)
    show ?thesis
    proof (cases "depth + 1 > maxDepth opts + 5")
      case True
      with "1.prems" st Some have "s' = attachToNode s1 handle childId"
        by (subst (asm) insertHandle_loop.simps) auto
      with a sameObjects_attachToNode[of s1 handle childId] show ?thesis
        by (metis sameObjects_trans)
    next
      case False
      with "1.prems" st Some have "insertHandle_loop opts s1 handle bbox childId (depth + 1) = Some (Inr (n, s'))"
        by (subst (asm) insertHandle_loop.simps) auto
      from "1.IH"[OF st refl refl Some False this] a show ?thesis
        by (metis sameObjects_trans)
    qed
  qed
qed

lemma sameObjects_ensureRootBounds: "sameObjects s (ensureRootBounds opts s bbox)"
  by (simp add: ensureRootBounds_def Let_def)

lemma sameObjects_insertHandle:
  "insertHandle opts s handle bbox = Some (Inr (n, s')) \<Longrightarrow> sameObjects s s'"
  unfolding insertHandle_def Let_def
  using sameObjects_ensureRootBounds[of s opts bbox] sameObjects_insertHandle_loop
  by (metis sameObjects_trans)


lemma sameObjects_walkRefs:
  "walkRefs incDyn md s nodeId bounds ref prevRef trav maxT count out = (full, s', count', out', trav')
   \<Longrightarrow> sameObjects s s'"
proof (induction incDyn md s nodeId bounds ref prevRef trav maxT count out rule: walkRefs.induct)
  case (1 incDyn md s nodeId bounds ref prevRef trav maxT count out)
  show ?case
  proof (cases "ref \<noteq> - 1 \<and> trav < maxT \<and> \<not> (ref < 0 \<or> objectRefCapacity s \<le> ref)")
    case False
    with "1.prems" show ?thesis
      by (subst (asm) walkRefs.simps) (auto split: if_splits)
  next
    case True
    let ?h = "objectRefHandle s ref"
    show ?thesis
    proof (cases "staleHandle s nodeId ?h")
      case stale: True
      from True stale "1.prems" have
        "walkRefs incDyn md (detachRef s nodeId ref prevRef (Some ?h)) nodeId bounds
           (objectRefNext s ref) prevRef (trav + 1) maxT count out = (full, s', count', out', trav')"
        by (subst (asm) walkRefs.simps) (simp add: Let_def)
      with "1.IH"(1)[of ?h] True stale
      have "sameObjects (detachRef s nodeId ref prevRef (Some ?h)) s'" by simp
      with sameObjects_detachRef[of s nodeId ref prevRef "Some ?h"] show ?thesis
        by (rule sameObjects_trans)
    next
      case fresh: False
      let ?hit = "(md = ModeAll \<or> objectFlags s ?h AND Flags_Deleted = 0)
                  \<and> bboxIntersects (readBoundingBox s ?h) bounds
                  \<and> (incDyn \<or> objectFlags s ?h AND Flags_Dynamic = 0)"
      show ?thesis
      proof (cases ?hit)
        case hit: True
        show ?thesis
        proof (cases "int (length out) \<le> count + 1")
          case True
          with \<open>ref \<noteq> - 1 \<and> trav < maxT \<and> \<not> (ref < 0 \<or> objectRefCapacity s \<le> ref)\<close> fresh hit "1.prems"
          have "s' = s" by (subst (asm) walkRefs.simps) (simp add: Let_def)
          then show ?thesis by simp
        next
          case False
          with \<open>ref \<noteq> - 1 \<and> trav < maxT \<and> \<not> (ref < 0 \<or> objectRefCapacity s \<le> ref)\<close> fresh hit "1.prems"
          have "walkRefs incDyn md s nodeId bounds (objectRefNext s ref) ref (trav + 1) maxT
                  (count + 1) (out[nat count := ?h]) = (full, s', count', out', trav')"
            by (subst (asm) walkRefs.simps) (simp add: Let_def)
          with "1.IH"(2)[of ?h "objectFlags s ?h"] \<open>ref \<noteq> - 1 \<and> trav < maxT \<and> \<not> (ref < 0 \<or> objectRefCapacity s \<le> ref)\<close>
            fresh hit False
          show ?thesis by simp
        qed
      next
        case miss: False
        with True fresh "1.prems"
        have "walkRefs incDyn md s nodeId bounds (objectRefNext s ref) ref (trav + 1) maxT
                count out = (full, s', count', out', trav')"
          by (subst (asm) walkRefs.simps) (simp add: Let_def)
        with "1.IH"(3)[of ?h "objectFlags s ?h"] True fresh miss
        show ?thesis by simp
      qed
    qed
  qed
qed

section \<open>Object store: invariants of the region query\<close>

text \<open>An invariant rule for the inner loop of the query.\<close>

lemma walkRefs_rule:
  assumes run: "walkRefs incDyn md s nodeId bounds ref prevRef trav maxT count out = (full, s', count', out', trav')"
    and init: "P s count out"
    and stale: "\<And>s ref prevRef count out. P s count out \<Longrightarrow> staleHandle s nodeId (objectRefHandle s ref)
                 \<Longrightarrow> P (detachRef s nodeId ref prevRef (Some (objectRefHandle s ref))) count out"
    and hit: "\<And>s ref count out. P s count out \<Longrightarrow> \<not> staleHandle s nodeId (objectRefHandle s ref)
                 \<Longrightarrow> \<not> int (length out) \<le> count + 1
                 \<Longrightarrow> P s (count + 1) (out[nat count := objectRefHandle s ref])"
  shows "if full
         then (\<exists>c ob r. P s' c ob \<and> \<not> staleHandle s' nodeId (objectRefHandle s' r)
                 \<and> int (length ob) \<le> c + 1 \<and> count' = c + 1 \<and> out' = ob[nat c := objectRefHandle s' r])
         else P s' count' out'"
  using run init stale hit
proof (induction incDyn md s nodeId bounds ref prevRef trav maxT count out rule: walkRefs.induct)
  case (1 incDyn md s nodeId bounds ref prevRef trav maxT count out)
  note P = "1.prems"(2) and stale = "1.prems"(3) and hit = "1.prems"(4)
  show ?case
  proof (cases "ref \<noteq> - 1 \<and> trav < maxT \<and> \<not> (ref < 0 \<or> objectRefCapacity s \<le> ref)")
    case False
    with "1.prems"(1) have "full = False \<and> s' = s \<and> count' = count \<and> out' = out"
      by (subst (asm) walkRefs.simps) (auto split: if_splits)
    with P show ?thesis by simp
  next
    case True
    let ?h = "objectRefHandle s ref"
    show ?thesis
    proof (cases "staleHandle s nodeId ?h")
      case st: True
      from True st "1.prems"(1) have r:
        "walkRefs incDyn md (detachRef s nodeId ref prevRef (Some ?h)) nodeId bounds
           (objectRefNext s ref) prevRef (trav + 1) maxT count out = (full, s', count', out', trav')"
        by (subst (asm) walkRefs.simps) (simp add: Let_def)
      from stale[OF P st] have "P (detachRef s nodeId ref prevRef (Some ?h)) count out" .
      with "1.IH"(1)[of ?h] True st r stale hit show ?thesis by simp
    next
      case fresh: False
      let ?hit = "(md = ModeAll \<or> objectFlags s ?h AND Flags_Deleted = 0)
                  \<and> bboxIntersects (readBoundingBox s ?h) bounds
                  \<and> (incDyn \<or> objectFlags s ?h AND Flags_Dynamic = 0)"
      show ?thesis
      proof (cases ?hit)
        case h: True
        show ?thesis
        proof (cases "int (length out) \<le> count + 1")
          case full: True
          with True fresh h "1.prems"(1)
          have "full = True \<and> s' = s \<and> count' = count + 1 \<and> out' = out[nat count := ?h]"
            by (subst (asm) walkRefs.simps) (auto simp: Let_def)
          with P fresh full show ?thesis by auto
        next
          case room: False
          with True fresh h "1.prems"(1)
          have r: "walkRefs incDyn md s nodeId bounds (objectRefNext s ref) ref (trav + 1) maxT
                  (count + 1) (out[nat count := ?h]) = (full, s', count', out', trav')"
            by (subst (asm) walkRefs.simps) (simp add: Let_def)
          from hit[OF P fresh room] have "P s (count + 1) (out[nat count := ?h])" .
          with "1.IH"(2)[of ?h "objectFlags s ?h"] True fresh h room r stale hit
          show ?thesis by simp
        qed
      next
        case miss: False
        with True fresh "1.prems"(1)
        have r: "walkRefs incDyn md s nodeId bounds (objectRefNext s ref) ref (trav + 1) maxT
                count out = (full, s', count', out', trav')"
          by (subst (asm) walkRefs.simps) (simp add: Let_def)
        with "1.IH"(3)[of ?h "objectFlags s ?h"] True fresh miss P stale hit
        show ?thesis by simp
      qed
    qed
  qed
qed

text \<open>The same for the whole query: the invariant also survives the pushes and pops.\<close>

lemma findLoop_rule:
  assumes run: "findLoop opts incDyn md s bounds stack n count out = (count', out', s')"
    and init: "P s count out"
    and stale: "\<And>s nodeId ref prevRef count out. P s count out \<Longrightarrow> staleHandle s nodeId (objectRefHandle s ref)
                 \<Longrightarrow> P (detachRef s nodeId ref prevRef (Some (objectRefHandle s ref))) count out"
    and hit: "\<And>s nodeId ref count out. P s count out \<Longrightarrow> \<not> staleHandle s nodeId (objectRefHandle s ref)
                 \<Longrightarrow> \<not> int (length out) \<le> count + 1
                 \<Longrightarrow> P s (count + 1) (out[nat count := objectRefHandle s ref])"
  shows "(\<exists>c. P s' c out' \<and> (count' = c \<or> count' = 0))
         \<or> (\<exists>c ob r nodeId. P s' c ob \<and> \<not> staleHandle s' nodeId (objectRefHandle s' r)
                 \<and> int (length ob) \<le> c + 1 \<and> count' = c + 1 \<and> out' = ob[nat c := objectRefHandle s' r])"
  using run init stale hit
proof (induction opts incDyn md s bounds stack n count out rule: findLoop.induct)
  case (1 opts incDyn md s bounds stack n count out)
  note P = "1.prems"(2) and stale = "1.prems"(3) and hit = "1.prems"(4)
  show ?case
  proof (cases stack)
    case Nil
    with "1.prems"(1) have "count' = count \<and> out' = out \<and> s' = s"
      by (subst (asm) findLoop.simps) simp
    with P show ?thesis by auto
  next
    case (Cons entry rest)
    show ?thesis
    proof (cases "10000 < n + 1")
      case True
      with Cons "1.prems"(1) have "count' = 0 \<and> out' = out \<and> s' = s"
        by (subst (asm) findLoop.simps) simp
      with P show ?thesis by auto
    next
      case go: False
      show ?thesis
      proof (cases entry)
        case None
        with Cons go "1.prems"(1) have
          "findLoop opts incDyn md s bounds rest (n + 1) count out = (count', out', s')"
          by (subst (asm) findLoop.simps) simp
        from "1.IH"(1)[OF Cons go None this P stale hit] show ?thesis .
      next
        case (Some nodeId)
        show ?thesis
        proof (cases "nodeIntersects opts s nodeId bounds")
          case False
          with Cons go Some "1.prems"(1) have
            "findLoop opts incDyn md s bounds rest (n + 1) count out = (count', out', s')"
            by (subst (asm) findLoop.simps) simp
          from "1.IH"(2)[OF Cons go Some False this P stale hit] show ?thesis .
        next
          case True
          let ?first = "getFirstObject (nodePool s) nodeId"
          let ?maxT = "getObjectCount (nodePool s) nodeId * 2 + 10"
          obtain full s1 count1 out1 trav1 where
            w: "walkRefs incDyn md s nodeId bounds ?first (- 1) 0 ?maxT count out
                  = (full, s1, count1, out1, trav1)"
            by (cases "walkRefs incDyn md s nodeId bounds ?first (- 1) 0 ?maxT count out") auto
          note wr = walkRefs_rule[where P = P, OF w P stale[of _ _ _ nodeId] hit[of _ _ _ nodeId]]
          show ?thesis
          proof (cases full)
            case f: True
            with Cons go Some True w "1.prems"(1)
            have e: "count' = count1 \<and> out' = out1 \<and> s' = s1"
              by (subst (asm) findLoop.simps) (simp add: Let_def)
            from wr f obtain c ob r where
              q: "P s1 c ob" "\<not> staleHandle s1 nodeId (objectRefHandle s1 r)"
                 "int (length ob) \<le> c + 1" "count1 = c + 1"
                 "out1 = ob[nat c := objectRefHandle s1 r]"
              by auto
            have "\<exists>c ob r nodeId. P s' c ob \<and> \<not> staleHandle s' nodeId (objectRefHandle s' r)
                 \<and> int (length ob) \<le> c + 1 \<and> count' = c + 1 \<and> out' = ob[nat c := objectRefHandle s' r]"
              using q e by blast
            then show ?thesis by (rule disjI2)
          next
            case nf: False
            with wr have P1: "P s1 count1 out1" by simp
            show ?thesis
            proof (cases "?maxT \<le> trav1")
              case True
              with Cons go Some \<open>nodeIntersects opts s nodeId bounds\<close> w nf "1.prems"(1)
              have e: "count' = count1 \<and> out' = out1 \<and> s' = s1"
                by (subst (asm) findLoop.simps) (simp add: Let_def)
              with P1 show ?thesis by auto
            next
              case False
              with Cons go Some \<open>nodeIntersects opts s nodeId bounds\<close> w nf "1.prems"(1)
              have r: "findLoop opts incDyn md s1 bounds
                         (pushChildren opts (nodePool s1) nodeId [0, 1, 2, 3] rest)
                         (n + 1) count1 out1 = (count', out', s')"
                by (subst (asm) findLoop.simps) (simp add: Let_def)
              have nn: "\<not> \<not> nodeIntersects opts s nodeId bounds"
                using \<open>nodeIntersects opts s nodeId bounds\<close> by simp
              from "1.IH"(3)[OF Cons go Some nn refl refl refl w[symmetric] refl refl refl _ False r P1 stale hit] nf
              show ?thesis by simp
            qed
          qed
        qed
      qed
    qed
  qed
qed

section \<open>Object store: facts about updates, inserts and removals\<close>

lemma Flags_Dynamic_nonzero [simp]: "Flags_Dynamic \<noteq> 0"
  by (simp add: Flags_Dynamic_def)

lemma dynamic_bit_or [simp]: "(f OR Flags_Dynamic) AND Flags_Dynamic \<noteq> (0 :: 32 word)"
  by (simp add: Flags_Dynamic_def word_ao_absorbs)

lemma dynamic_bit_dirty [simp]:
  "(f OR (Flags_Dirty OR Flags_TileCoverageDirty)) AND Flags_Dynamic = f AND Flags_Dynamic"
proof -
  have "(Flags_Dirty OR Flags_TileCoverageDirty) AND Flags_Dynamic = (0 :: 32 word)"
    by (simp add: Flags_Dirty_def Flags_TileCoverageDirty_def Flags_Dynamic_def)
  thus ?thesis by (simp add: bit.conj_disj_distrib2)
qed

lemma bumpDynamicCounters_facts:
  "objectWindowCounter (bumpDynamicCounters opts s h) h
     = (if objectWindowCounter s h + 1 \<ge> dynamicUpdateWindow opts then 0
        else (objectWindowCounter s h + 1) mod 65536)"
  "objectUpdateCounter (bumpDynamicCounters opts s h) h
     = (if objectWindowCounter s h + 1 \<ge> dynamicUpdateWindow opts then 0
        else (objectUpdateCounter s h + 1) mod 65536)"
  "objectUpdateCounter s h + 1 \<ge> dynamicUpdateThreshold opts
     \<Longrightarrow> objectFlags (bumpDynamicCounters opts s h) h AND Flags_Dynamic \<noteq> 0"
  "objectFlags s h AND Flags_Dynamic \<noteq> 0
     \<Longrightarrow> objectFlags (bumpDynamicCounters opts s h) h AND Flags_Dynamic \<noteq> 0"
  by (simp_all add: bumpDynamicCounters_def Let_def)

lemma finishUpdate_facts:
  assumes "finishUpdate opts s h newNode status = (res, s')"
  shows "upd_handle res = h" "upd_status res = status"
    "objectWindowCounter s' h
       = (if objectWindowCounter s h + 1 \<ge> dynamicUpdateWindow opts then 0
          else (objectWindowCounter s h + 1) mod 65536)"
    "objectUpdateCounter s' h
       = (if objectWindowCounter s h + 1 \<ge> dynamicUpdateWindow opts then 0
          else (objectUpdateCounter s h + 1) mod 65536)"
    "objectUpdateCounter s h + 1 \<ge> dynamicUpdateThreshold opts
       \<Longrightarrow> objectFlags s' h AND Flags_Dynamic \<noteq> 0"
    "objectFlags s h AND Flags_Dynamic \<noteq> 0 \<Longrightarrow> objectFlags s' h AND Flags_Dynamic \<noteq> 0"
proof -
  let ?s1 = "s\<lparr> objectFlags := (objectFlags s)
                   (h := objectFlags s h OR (Flags_Dirty OR Flags_TileCoverageDirty)) \<rparr>"
  from assms have s': "s' = bumpDynamicCounters opts ?s1 h" and res: "upd_handle res = h" "upd_status res = status"
    by (auto simp: finishUpdate_def Let_def)
  show "upd_handle res = h" "upd_status res = status" by (rule res)+
  show "objectWindowCounter s' h
       = (if objectWindowCounter s h + 1 \<ge> dynamicUpdateWindow opts then 0
          else (objectWindowCounter s h + 1) mod 65536)"
    unfolding s' by (simp add: bumpDynamicCounters_facts(1))
  show "objectUpdateCounter s' h
       = (if objectWindowCounter s h + 1 \<ge> dynamicUpdateWindow opts then 0
          else (objectUpdateCounter s h + 1) mod 65536)"
    unfolding s' by (simp add: bumpDynamicCounters_facts(2))
  show "objectFlags s' h AND Flags_Dynamic \<noteq> 0"
    if "objectUpdateCounter s h + 1 \<ge> dynamicUpdateThreshold opts"
    unfolding s' using that by (intro bumpDynamicCounters_facts(3)) simp
  show "objectFlags s' h AND Flags_Dynamic \<noteq> 0" if "objectFlags s h AND Flags_Dynamic \<noteq> 0"
    unfolding s' using that by (intro bumpDynamicCounters_facts(4)) simp
qed

lemma fitsNode_pool: "nodePool s' = nodePool s \<Longrightarrow> fitsNode opts s' n b = fitsNode opts s n b"
  by (simp add: fitsNode_def)

lemma updateBoundingBox_cases:
  assumes idx: "objectIndex s objectId = Some r"
    and upd: "updateBoundingBox opts s objectId bbox = Some (Inr (res, s'))"
  shows "\<exists>sx newNode status. finishUpdate opts sx (rec_handle r) newNode status = (res, s')
            \<and> objectFlags sx = objectFlags s
            \<and> objectUpdateCounter sx = objectUpdateCounter s
            \<and> objectWindowCounter sx = objectWindowCounter s"
proof -
  let ?h = "rec_handle r"
  let ?s1 = "writeBoundingBox s ?h bbox"
  let ?r1 = "r\<lparr> rec_flags := objectFlags ?s1 ?h \<rparr>"
  let ?s2 = "?s1\<lparr> objectIndex := (objectIndex ?s1)(objectId := Some ?r1) \<rparr>"
  have s2: "objectFlags ?s2 = objectFlags s" "objectUpdateCounter ?s2 = objectUpdateCounter s"
    "objectWindowCounter ?s2 = objectWindowCounter s"
    by (simp_all add: writeBoundingBox_def Let_def)
  show ?thesis
  proof (cases "fitsNode opts ?s2 (rec_nodeId r) bbox")
    case True
    with idx upd have "finishUpdate opts ?s2 ?h (rec_nodeId r) Updated = (res, s')"
      by (simp add: updateBoundingBox_def Let_def)
    with s2 show ?thesis by blast
  next
    case False
    with idx upd obtain s3 newNode s4 where
      d: "detachFromNode opts ?s2 ?h (rec_nodeId r) = Some s3" and
      i: "insertHandle opts s3 ?h bbox = Some (Inr (newNode, s4))" and
      f: "finishUpdate opts
            (s4\<lparr> objectIndex := (objectIndex s4)(objectId := Some (?r1\<lparr> rec_nodeId := newNode \<rparr>)),
                  objectNode := (objectNode s4)(?h := newNode) \<rparr>) ?h newNode Moved = (res, s')"
      by (auto simp: updateBoundingBox_def Let_def split: option.splits sum.splits)
    from sameObjects_detachFromNode[OF d] sameObjects_insertHandle[OF i]
    have "sameObjects ?s2 s4" by (rule sameObjects_trans)
    with s2 have "objectFlags s4 = objectFlags s" "objectUpdateCounter s4 = objectUpdateCounter s"
      "objectWindowCounter s4 = objectWindowCounter s"
      by (simp_all add: sameObjects_def)
    with f show ?thesis
      by (intro exI[of _ "s4\<lparr> objectIndex := (objectIndex s4)(objectId := Some (?r1\<lparr> rec_nodeId := newNode \<rparr>)),
                  objectNode := (objectNode s4)(?h := newNode) \<rparr>"] exI[of _ newNode] exI[of _ Moved]) simp
  qed
qed

lemma obtainHandle_new:
  assumes "objectIndex s B = None" "obtainHandle s B = (h, s1)"
  shows "handleToId s1 h = Some B" "objectNode s1 h = - 1" "objectIndex s1 = objectIndex s"
    "h = (case handleFreeList s of x # rest \<Rightarrow> x | [] \<Rightarrow> usedHandles s)"
  using assms
  by (auto simp: obtainHandle_def expandHandles_def resizeHandles_def Let_def
           split: list.splits if_splits)

lemma read_after_write: "readBoundingBox (writeBoundingBox s h bbox) h = storedBox bbox"
  by (simp add: readBoundingBox_def writeBoundingBox_def storedBox_def Let_def)

lemma readBoundingBox_bounds:
  "objectBounds s' = objectBounds s \<Longrightarrow> readBoundingBox s' h = readBoundingBox s h"
  by (simp add: readBoundingBox_def)

lemma insertObj_new:
  assumes new: "objectIndex s B = None"
    and ins: "insertObj opts s B bbox flags = Some (Inr (res, s2))"
  shows "handleToId s2 (ins_handle res) = Some B"
    "readBoundingBox s2 (ins_handle res) = storedBox bbox"
    "objectFlags s2 (ins_handle res) = flags"
    "\<exists>r. objectIndex s2 B = Some r \<and> rec_id r = B \<and> rec_handle r = ins_handle res"
    "ins_handle res = (case handleFreeList s of x # rest \<Rightarrow> x | [] \<Rightarrow> usedHandles s)"
proof -
  obtain h s1 where oh: "obtainHandle s B = (h, s1)" by (cases "obtainHandle s B")
  note o = obtainHandle_new[OF new oh]
  let ?s2 = "writeBoundingBox s1 h bbox"
  let ?s3 = "ensureRootBounds opts ?s2 bbox"
  have n0: "objectNode ?s3 h = - 1"
    using o(2) by (simp add: ensureRootBounds_def writeBoundingBox_def Let_def)
  from ins oh n0 obtain nodeId s5 where
    ih: "insertHandle opts ?s3 h bbox = Some (Inr (nodeId, s5))" and
    res: "res = \<lparr> ins_handle = h, ins_nodeId = nodeId, ins_flags = flags \<rparr>" and
    s2: "s2 = s5\<lparr> objectIndex := (objectIndex s5)(B :=
                      Some \<lparr> rec_id = B, rec_handle = h, rec_nodeId = nodeId,
                             rec_flags = flags, rec_updateTicks = 0, rec_windowTicks = 0 \<rparr>),
                    objectNode := (objectNode s5)(h := nodeId),
                    objectFlags := (objectFlags s5)(h := flags) \<rparr>"
    by (auto simp: insertObj_def Let_def split: option.splits sum.splits)
  have "sameObjects ?s2 s5"
    using sameObjects_ensureRootBounds[of ?s2 opts bbox] sameObjects_insertHandle[OF ih]
    by (rule sameObjects_trans)
  hence e: "handleToId s5 = handleToId ?s2" "objectBounds s5 = objectBounds ?s2"
    by (simp_all add: sameObjects_def)
  have h2: "handleToId ?s2 = handleToId s1" by (simp add: writeBoundingBox_def Let_def)
  show "handleToId s2 (ins_handle res) = Some B" using o(1) e(1) h2 by (simp add: res s2)
  have "readBoundingBox s2 h = readBoundingBox ?s2 h"
    by (rule readBoundingBox_bounds) (simp add: s2 e(2))
  thus "readBoundingBox s2 (ins_handle res) = storedBox bbox" by (simp add: res read_after_write)
  show "objectFlags s2 (ins_handle res) = flags" by (simp add: res s2)
  show "\<exists>r. objectIndex s2 B = Some r \<and> rec_id r = B \<and> rec_handle r = ins_handle res"
    by (simp add: res s2)
  show "ins_handle res = (case handleFreeList s of x # rest \<Rightarrow> x | [] \<Rightarrow> usedHandles s)"
    using o(4) by (simp add: res)
qed

lemma removeObj_facts:
  assumes rm: "removeObj opts s A = Some s1"
  shows "objectIndex s1 = (objectIndex s)(A := None)"
    "\<And>ra. objectIndex s A = Some ra \<Longrightarrow>
        handleFreeList s1 = rec_handle ra # handleFreeList s
        \<and> handleToId s1 (rec_handle ra) = None
        \<and> objectFlags s1 (rec_handle ra) AND Flags_Deleted \<noteq> 0"
proof -
  show "objectIndex s1 = (objectIndex s)(A := None)"
  proof (cases "objectIndex s A")
    case None
    with rm show ?thesis by (auto simp: removeObj_def)
  next
    case (Some ra)
    with rm obtain sd where d: "detachFromNode opts s (rec_handle ra) (rec_nodeId ra) = Some sd"
      and s1: "objectIndex s1 = (objectIndex sd)(A := None)"
      by (auto simp: removeObj_def Let_def split: option.splits)
    from sameObjects_detachFromNode[OF d] s1 show ?thesis by (simp add: sameObjects_def)
  qed
next
  fix ra assume ra: "objectIndex s A = Some ra"
  with rm obtain sd where d: "detachFromNode opts s (rec_handle ra) (rec_nodeId ra) = Some sd"
    and s1: "handleFreeList s1 = rec_handle ra # handleFreeList sd"
      "handleToId s1 (rec_handle ra) = None"
      "objectFlags s1 (rec_handle ra) = objectFlags sd (rec_handle ra) OR Flags_Deleted"
    by (auto simp: removeObj_def Let_def split: option.splits)
  have "(f OR Flags_Deleted) AND Flags_Deleted \<noteq> 0" for f :: "32 word"
    by (simp add: Flags_Deleted_def word_ao_absorbs)
  with sameObjects_detachFromNode[OF d] s1
  show "handleFreeList s1 = rec_handle ra # handleFreeList s
        \<and> handleToId s1 (rec_handle ra) = None
        \<and> objectFlags s1 (rec_handle ra) AND Flags_Deleted \<noteq> 0"
    by (simp add: sameObjects_def)
qed







section \<open>Object store: what the query writes and purges\<close>

lemma chainFrom_cong:
  "(\<And>x. x \<in> set xs \<Longrightarrow> nxt' x = nxt x) \<Longrightarrow> chainFrom nxt' r xs = chainFrom nxt r xs"
  by (induction xs arbitrary: r) auto

lemma chainFrom_no_end: "chainFrom nxt r xs \<Longrightarrow> - 1 \<notin> set xs"
  by (induction xs arbitrary: r) auto

lemma liveHandle_sameObjects: "sameObjects s s' \<Longrightarrow> liveHandle s' h = liveHandle s h"
  by (simp add: liveHandle_def sameObjects_def)

lemma not_stale_live: "\<not> staleHandle s nodeId h \<Longrightarrow> liveHandle s h"
  by (auto simp: staleHandle_def liveHandle_def)

lemma findLoop_length:
  "findLoop opts incDyn md s bounds stack n count out = (count', out', s') \<Longrightarrow> length out' = length out"
proof -
  assume run: "findLoop opts incDyn md s bounds stack n count out = (count', out', s')"
  have "(\<exists>c. length out' = length out \<and> (count' = c \<or> count' = 0))
         \<or> (\<exists>c ob r nodeId. length ob = length out \<and> \<not> staleHandle s' nodeId (objectRefHandle s' r)
                 \<and> int (length ob) \<le> c + 1 \<and> count' = c + 1 \<and> out' = ob[nat c := objectRefHandle s' r])"
    by (rule findLoop_rule[where P = "\<lambda>s c ob. length ob = length out", OF run]) simp_all
  thus ?thesis by auto
qed

lemma findLoop_sameObjects:
  assumes run: "findLoop opts incDyn md s bounds stack n count out = (count', out', s')"
  shows "sameObjects s s'"
proof -
  have "(\<exists>c. sameObjects s s' \<and> (count' = c \<or> count' = 0))
         \<or> (\<exists>c ob r nodeId. sameObjects s s' \<and> \<not> staleHandle s' nodeId (objectRefHandle s' r)
                 \<and> int (length ob) \<le> c + 1 \<and> count' = c + 1 \<and> out' = ob[nat c := objectRefHandle s' r])"
  proof (rule findLoop_rule[where P = "\<lambda>t c ob. sameObjects s t", OF run])
    show "sameObjects s s" by simp
  next
    fix t nodeId ref prevRef
    assume "sameObjects s t"
    thus "sameObjects s (detachRef t nodeId ref prevRef (Some (objectRefHandle t ref)))"
      using sameObjects_detachRef sameObjects_trans by blast
  qed
  thus ?thesis by auto
qed

lemma written_hit:
  assumes w: "written s out0 c ob" and live: "liveHandle s h"
  shows "written s out0 (c + 1) (ob[nat c := h])"
proof -
  from w have c: "0 \<le> c" and l: "length ob = length out0"
    and a: "\<And>i. i < length ob \<Longrightarrow> int i < c \<Longrightarrow> liveHandle s (ob ! i)"
    and b: "\<And>i. i < length ob \<Longrightarrow> c \<le> int i \<Longrightarrow> ob ! i = out0 ! i"
    by (auto simp: written_def)
  have "liveHandle s (ob[nat c := h] ! i)" if i: "i < length ob" "int i < c + 1" for i
  proof (cases "i = nat c")
    case True
    with i live show ?thesis by simp
  next
    case False
    with c i have "int i < c" by auto
    with False a[OF i(1)] show ?thesis by simp
  qed
  moreover have "ob[nat c := h] ! i = out0 ! i" if i: "i < length ob" "c + 1 \<le> int i" for i
  proof -
    from c i have "i \<noteq> nat c" "c \<le> int i" by auto
    with b[OF i(1)] show ?thesis by simp
  qed
  ultimately show ?thesis using c l unfolding written_def by auto
qed

lemma findLoop_written:
  assumes run: "findLoop opts incDyn md s bounds stack n 0 out = (count', out', s')"
  shows "\<exists>c. written s out c out' \<and> (count' = c \<or> count' = 0)"
proof -
  let ?P = "\<lambda>t c ob. sameObjects s t \<and> written s out c ob"
  have "(\<exists>c. ?P s' c out' \<and> (count' = c \<or> count' = 0))
         \<or> (\<exists>c ob r nodeId. ?P s' c ob \<and> \<not> staleHandle s' nodeId (objectRefHandle s' r)
                 \<and> int (length ob) \<le> c + 1 \<and> count' = c + 1 \<and> out' = ob[nat c := objectRefHandle s' r])"
  proof (rule findLoop_rule[where P = ?P, OF run])
    show "?P s 0 out" by (simp add: written_def)
  next
    fix t nodeId ref prevRef c ob
    assume "?P t c ob"
    thus "?P (detachRef t nodeId ref prevRef (Some (objectRefHandle t ref))) c ob"
      using sameObjects_detachRef sameObjects_trans by blast
  next
    fix t nodeId ref c ob
    assume p: "?P t c ob" and ns: "\<not> staleHandle t nodeId (objectRefHandle t ref)"
    from ns have "liveHandle t (objectRefHandle t ref)" by (rule not_stale_live)
    with p have "liveHandle s (objectRefHandle t ref)"
      using liveHandle_sameObjects[of s t] by simp
    with p show "?P t (c + 1) (ob[nat c := objectRefHandle t ref])" by (simp add: written_hit)
  qed
  thus ?thesis
  proof
    assume "\<exists>c. ?P s' c out' \<and> (count' = c \<or> count' = 0)"
    thus ?thesis by blast
  next
    assume "\<exists>c ob r nodeId. ?P s' c ob \<and> \<not> staleHandle s' nodeId (objectRefHandle s' r)
                 \<and> int (length ob) \<le> c + 1 \<and> count' = c + 1 \<and> out' = ob[nat c := objectRefHandle s' r]"
    then obtain c ob r nodeId where p: "?P s' c ob"
      and ns: "\<not> staleHandle s' nodeId (objectRefHandle s' r)"
      and e: "count' = c + 1" "out' = ob[nat c := objectRefHandle s' r]" by blast
    from ns have "liveHandle s' (objectRefHandle s' r)" by (rule not_stale_live)
    with p have "liveHandle s (objectRefHandle s' r)"
      using liveHandle_sameObjects[of s s'] by simp
    with p have "written s out (c + 1) (ob[nat c := objectRefHandle s' r])" by (simp add: written_hit)
    with e show ?thesis by blast
  qed
qed

text \<open>The count stays within a buffer that has room for one handle.\<close>

lemma findLoop_count_le:
  assumes run: "findLoop opts incDyn md s bounds stack n count out = (count', out', s')"
    and c0: "0 \<le> count" "count < int (length out)"
  shows "0 \<le> count' \<and> count' \<le> int (length out)"
proof -
  let ?P = "\<lambda>t c ob. 0 \<le> c \<and> c < int (length out) \<and> length ob = length out"
  have "(\<exists>c. ?P s' c out' \<and> (count' = c \<or> count' = 0))
         \<or> (\<exists>c ob r nodeId. ?P s' c ob \<and> \<not> staleHandle s' nodeId (objectRefHandle s' r)
                 \<and> int (length ob) \<le> c + 1 \<and> count' = c + 1 \<and> out' = ob[nat c := objectRefHandle s' r])"
    by (rule findLoop_rule[where P = ?P, OF run]) (use c0 in auto)
  thus ?thesis by auto
qed

lemma detachRef_next:
  "objectRefNext (detachRef s nodeId x prevRef hh) =
     (if prevRef = - 1 then objectRefNext s else (objectRefNext s)(prevRef := objectRefNext s x))(x := - 1)"
  by (auto simp: detachRef_def Let_def split: option.splits)

lemma detachRef_handle:
  "objectRefHandle (detachRef s nodeId x prevRef hh) = (objectRefHandle s)(x := 0)"
  by (auto simp: detachRef_def Let_def split: option.splits)

lemma detachRef_refCapacity:
  "objectRefCapacity (detachRef s nodeId x prevRef hh) = objectRefCapacity s"
  by (auto simp: detachRef_def Let_def split: option.splits)

lemma detachRef_first:
  "getFirstObject (nodePool (detachRef s nodeId x prevRef hh)) nodeId =
     (if prevRef = - 1 then objectRefNext s x else getFirstObject (nodePool s) nodeId)"
  by (auto simp: detachRef_def Let_def getFirstObject_def setFirstObject_def
        decrementObjectCount_def getObjectCount_def split: option.splits)

lemma detachRef_freeList:
  "objectRefFreeList (detachRef s nodeId x prevRef hh) = x # objectRefFreeList s"
  by (auto simp: detachRef_def Let_def split: option.splits)

lemma stale_after_detach:
  assumes "nodeId \<noteq> - 1" "staleHandle s nodeId h"
  shows "staleHandle (detachRef s nodeId x prevRef (Some h)) nodeId h' = staleHandle s nodeId h'"
  using assms by (cases "h' = h") (auto simp: staleHandle_def detachRef_def Let_def)

lemma walkRefs_freeList:
  assumes run: "walkRefs incDyn md s nodeId bounds ref prevRef trav maxT count out = (full, s', count', out', trav')"
  shows "set (objectRefFreeList s) \<subseteq> set (objectRefFreeList s')"
proof -
  let ?P = "\<lambda>t (c::int) (ob::int list). set (objectRefFreeList s) \<subseteq> set (objectRefFreeList t)"
  have "if full
         then (\<exists>c ob r. ?P s' c ob \<and> \<not> staleHandle s' nodeId (objectRefHandle s' r)
                 \<and> int (length ob) \<le> c + 1 \<and> count' = c + 1 \<and> out' = ob[nat c := objectRefHandle s' r])
         else ?P s' count' out'"
    by (rule walkRefs_rule[where P = ?P, OF run]) (auto simp: detachRef_freeList)
  thus ?thesis by (auto split: if_splits)
qed

text \<open>
  The walk over one node's list, whatever way it ends: it visits the first
  \<open>trav' - trav\<close> references of the list, unlinks every stale one among them and puts it on
  the free list, and leaves the rest of the list as it was.
\<close>

lemma walkRefs_visits:
  assumes "chainFrom (objectRefNext s) ref rs" "distinct rs"
    "\<forall>r \<in> set rs. 0 \<le> r \<and> r < objectRefCapacity s" "prevRef \<notin> set rs"
    "successorOf s nodeId prevRef = ref" "nodeId \<noteq> - 1"
    "walkRefs incDyn md s nodeId bounds ref prevRef trav maxT count out = (full, s', count', out', trav')"
  shows "trav \<le> trav' \<and> nat (trav' - trav) \<le> length rs
       \<and> chainFrom (objectRefNext s') (successorOf s' nodeId prevRef)
           (filter (\<lambda>r. \<not> staleHandle s nodeId (objectRefHandle s r)) (take (nat (trav' - trav)) rs)
            @ drop (nat (trav' - trav)) rs)
       \<and> (\<forall>r. r \<notin> set rs \<and> r \<noteq> prevRef \<longrightarrow> objectRefNext s' r = objectRefNext s r)
       \<and> (prevRef \<noteq> - 1 \<longrightarrow> getFirstObject (nodePool s') nodeId = getFirstObject (nodePool s) nodeId)
       \<and> set (filter (\<lambda>r. staleHandle s nodeId (objectRefHandle s r)) (take (nat (trav' - trav)) rs))
           \<subseteq> set (objectRefFreeList s')"
  using assms
proof (induction rs arbitrary: s ref prevRef trav count out)
  case Nil
  then have "ref = - 1" by simp
  with Nil.prems(7) have "s' = s \<and> trav' = trav" by (subst (asm) walkRefs.simps) simp
  with Nil.prems(5) \<open>ref = - 1\<close> show ?case by simp
next
  case (Cons x xs)
  from Cons.prems(1) have rx: "ref = x" "x \<noteq> - 1" and ch: "chainFrom (objectRefNext s) (objectRefNext s x) xs"
    by simp_all
  from Cons.prems(2) have dx: "x \<notin> set xs" "distinct xs" by simp_all
  from Cons.prems(3) have inr: "0 \<le> x" "x < objectRefCapacity s"
    and inr': "\<forall>r \<in> set xs. 0 \<le> r \<and> r < objectRefCapacity s" by simp_all
  from Cons.prems(4) have px: "prevRef \<noteq> x" "prevRef \<notin> set xs" by auto
  note nd = Cons.prems(6)
  let ?h = "objectRefHandle s x"
  let ?stale = "\<lambda>r. staleHandle s nodeId (objectRefHandle s r)"
  show ?case
  proof (cases "trav < maxT")
    case False
    with Cons.prems(7) have "s' = s \<and> trav' = trav" by (subst (asm) walkRefs.simps) simp
    with Cons.prems(1,5) show ?thesis by simp
  next
    case tr: True
    show ?thesis
    proof (cases "staleHandle s nodeId ?h")
      case st: True
      let ?s1 = "detachRef s nodeId x prevRef (Some ?h)"
      from rx inr tr st Cons.prems(7) have run:
        "walkRefs incDyn md ?s1 nodeId bounds (objectRefNext s x) prevRef (trav + 1) maxT count out
           = (full, s', count', out', trav')"
        by (subst (asm) walkRefs.simps) (simp add: Let_def)
      have c1: "chainFrom (objectRefNext ?s1) (objectRefNext s x) xs"
        using ch dx px by (subst chainFrom_cong[where nxt = "objectRefNext s"]) (auto simp: detachRef_next)
      have r1: "\<forall>r \<in> set xs. 0 \<le> r \<and> r < objectRefCapacity ?s1"
        using inr' by (simp add: detachRef_refCapacity)
      have su: "successorOf ?s1 nodeId prevRef = objectRefNext s x"
        using px by (simp add: successorOf_def detachRef_first detachRef_next)
      note ih = Cons.IH[OF c1 dx(2) r1 px(2) su nd run]
      let ?n = "nat (trav' - (trav + 1))"
      from ih have le: "trav + 1 \<le> trav'" and nle: "?n \<le> length xs" by simp_all
      from le have n: "nat (trav' - trav) = Suc ?n" by simp
      have f: "filter (\<lambda>r. \<not> staleHandle ?s1 nodeId (objectRefHandle ?s1 r)) (take ?n xs)
             = filter (\<lambda>r. \<not> ?stale r) (take ?n xs)"
        using dx(1) by (intro filter_cong refl)
          (auto simp: stale_after_detach[OF nd st] detachRef_handle dest: in_set_takeD)
      have g: "filter (\<lambda>r. staleHandle ?s1 nodeId (objectRefHandle ?s1 r)) (take ?n xs)
             = filter ?stale (take ?n xs)"
        using dx(1) by (intro filter_cong refl)
          (auto simp: stale_after_detach[OF nd st] detachRef_handle dest: in_set_takeD)
      have a: "chainFrom (objectRefNext s') (successorOf s' nodeId prevRef)
             (filter (\<lambda>r. \<not> ?stale r) (take (nat (trav' - trav)) (x # xs))
              @ drop (nat (trav' - trav)) (x # xs))"
        using ih st f by (simp add: n)
      have b: "\<forall>r. r \<notin> set (x # xs) \<and> r \<noteq> prevRef \<longrightarrow> objectRefNext s' r = objectRefNext s r"
        using ih by (auto simp: detachRef_next)
      have c: "prevRef \<noteq> - 1 \<longrightarrow> getFirstObject (nodePool s') nodeId = getFirstObject (nodePool s) nodeId"
        using ih by (auto simp: detachRef_first)
      have fl: "set (objectRefFreeList ?s1) \<subseteq> set (objectRefFreeList s')"
        using walkRefs_freeList[OF run] .
      have d: "set (filter ?stale (take (nat (trav' - trav)) (x # xs))) \<subseteq> set (objectRefFreeList s')"
        using ih g fl st by (auto simp: n detachRef_freeList)
      from a b c d le nle n show ?thesis by simp
    next
      case fresh: False
      let ?hit = "(md = ModeAll \<or> objectFlags s ?h AND Flags_Deleted = 0)
                  \<and> bboxIntersects (readBoundingBox s ?h) bounds
                  \<and> (incDyn \<or> objectFlags s ?h AND Flags_Dynamic = 0)"
      show ?thesis
      proof (cases "?hit \<and> int (length out) \<le> count + 1")
        case True
        with rx inr tr fresh Cons.prems(7) have "s' = s \<and> trav' = trav + 1"
          by (subst (asm) walkRefs.simps) (auto simp: Let_def)
        with Cons.prems(1,5) fresh show ?thesis by simp
      next
        case False
        obtain c1 o1 where run:
          "walkRefs incDyn md s nodeId bounds (objectRefNext s x) x (trav + 1) maxT c1 o1
             = (full, s', count', out', trav')"
          using rx inr tr fresh False Cons.prems(7)
          by (subst (asm) walkRefs.simps) (auto simp: Let_def split: if_splits)
        have su: "successorOf s nodeId x = objectRefNext s x" using rx by (simp add: successorOf_def)
        note ih = Cons.IH[OF ch dx(2) inr' dx(1) su nd run]
        let ?n = "nat (trav' - (trav + 1))"
        from ih have le: "trav + 1 \<le> trav'" and nle: "?n \<le> length xs" by simp_all
        from le have n: "nat (trav' - trav) = Suc ?n" by simp
        from ih rx have first: "getFirstObject (nodePool s') nodeId = getFirstObject (nodePool s) nodeId" by simp
        from ih px have nx: "prevRef \<noteq> - 1 \<longrightarrow> objectRefNext s' prevRef = objectRefNext s prevRef" by simp
        have s1: "successorOf s' nodeId prevRef = x"
          using first nx Cons.prems(5) rx by (auto simp: successorOf_def)
        have a: "chainFrom (objectRefNext s') (successorOf s' nodeId prevRef)
             (filter (\<lambda>r. \<not> ?stale r) (take (nat (trav' - trav)) (x # xs))
              @ drop (nat (trav' - trav)) (x # xs))"
          using ih fresh s1 rx by (simp add: n successorOf_def)
        have b: "\<forall>r. r \<notin> set (x # xs) \<and> r \<noteq> prevRef \<longrightarrow> objectRefNext s' r = objectRefNext s r"
          using ih by auto
        have d: "set (filter ?stale (take (nat (trav' - trav)) (x # xs))) \<subseteq> set (objectRefFreeList s')"
          using ih fresh by (auto simp: n)
        from a b first d le nle n show ?thesis by simp
      qed
    qed
  qed
qed

lemma findInBounds_sameObjects:
  "findInBounds opts s bounds outBuffer options = (count, out, s') \<Longrightarrow> sameObjects s s'"
  by (auto simp: findInBounds_def Let_def dest: findLoop_sameObjects)

lemma findInBounds_written:
  "findInBounds opts s bounds outBuffer options = (count, out, s')
   \<Longrightarrow> \<exists>c. written s outBuffer c out \<and> (count = c \<or> count = 0)"
  by (auto simp: findInBounds_def Let_def dest: findLoop_written)

lemma findInBounds_count_le:
  assumes "findInBounds opts s bounds outBuffer options = (count, out, s')" "outBuffer \<noteq> []"
  shows "0 \<le> count \<and> count \<le> int (length outBuffer) \<and> length out = length outBuffer"
proof -
  from assms(1) obtain stack incDyn md where
    run: "findLoop opts incDyn md s bounds stack 0 0 outBuffer = (count, out, s')"
    by (auto simp: findInBounds_def Let_def)
  from assms(2) have "(0::int) < int (length outBuffer)" by simp
  with findLoop_count_le[OF run] findLoop_length[OF run] show ?thesis by simp
qed

section \<open>Object store: traces\<close>

text \<open>
  Each lemma below is one call of the embedded code on an explicit store, evaluated by
  rewriting with the definitions.
\<close>

lemmas pool_eval =
  newNodePool_def obtainNodeId_def allocateNode_def releaseNode_def setLeaf_def isLeaf_def
  getParent_def getBounds_def setBounds_def getFirstObject_def setFirstObject_def
  getObjectCount_def incrementObjectCount_def decrementObjectCount_def getChild_def
  setChild_def createRootBounds_def NodeFlag_Leaf_def

lemmas store_eval =
  pool_eval newObjectStore_def ensureRootBounds_def grown_def resizeHandles_def
  expandHandles_def obtainHandle_def writeBoundingBox_def readBoundingBox_def
  expandObjectRefs_def obtainObjectRefIndex_def attachToNode_def detachRef_def
  purgeHandleFromNode_def tryMerge_def detachFromNode_def selectChild_def redistribute_def
  splitNode_def insertHandle_step_def insertHandle_def fitsNode_def insertObj_def
  removeObj_def bumpDynamicCounters_def finishUpdate_def updateBoundingBox_def getObj_def
  ensureBoundingBox_def addObj_def bboxIntersects_def nodeIntersects_def staleHandle_def
  findInBounds_def nodeStackLength_def handleStackLength_def
  Flags_None_def Flags_Static_def Flags_Dynamic_def Flags_Dirty_def Flags_Deleted_def
  Flags_TileCoverageDirty_def DEFAULT_OPTIONS_def optsSmall_def optsTiny_def optsChurn_def
  noOptions_def box_def objA_def objB_def objC_def Let_def
  insertHandle_loop.simps walkRefs.simps findLoop.simps purgeFind.simps mergeWalk.simps
  eval_nat_numeral number_eval

lemma store0_new: "newObjectStore DEFAULT_OPTIONS = Inr store0"
  by (simp add: store0_def store_eval)

lemma storeA_add: "addObj DEFAULT_OPTIONS gbb store0 objA = Some (Inr storeA)"
  by (simp add: store0_def storeA_def store_eval)

lemma storeAB_add: "addObj DEFAULT_OPTIONS gbb storeA objB = Some (Inr storeAB)"
  by (simp add: storeA_def storeAB_def store_eval)

lemma storeABC_add: "addObj DEFAULT_OPTIONS gbb storeAB objC = Some (Inr storeABC)"
  by (simp add: storeAB_def storeABC_def store_eval)

lemma storeABC_query:
  "findInBounds DEFAULT_OPTIONS storeABC (box 0 0 20 20) [7, 7, 7, 7] noOptions = (1, [0, 7, 7, 7], storeABC)"
  by (simp add: storeABC_def store_eval)

lemma storeABC_ids: "handleToId storeABC 0 = Some ''a''"
  by (simp add: storeABC_def)

lemma storeA_removed_remove: "removeObj DEFAULT_OPTIONS storeA ''a'' = Some storeA_removed"
  by (simp add: storeA_def storeA_removed_def store_eval)

lemma storeA_removed_get:
  "getObj storeA_removed ''a'' = Some (objA\<lparr> obj_zIndex := Some 0 \<rparr>)"
  by (simp add: storeA_removed_def store_eval)

lemma storeA_removed_query:
  "findInBounds DEFAULT_OPTIONS storeA_removed (box 0 0 20 20) [7, 7, 7, 7] noOptions
     = (0, [7, 7, 7, 7], storeA_removed)"
  by (simp add: storeA_removed_def store_eval)

lemma storeB_reused_insert:
  "insertObj DEFAULT_OPTIONS storeA_removed ''b'' (box 5 5 10 10) Flags_None
     = Some (Inr (\<lparr> ins_handle = 0, ins_nodeId = 0, ins_flags = 0 \<rparr>, storeB_reused))"
  by (simp add: storeA_removed_def storeB_reused_def store_eval)

lemma storeB_reused_query:
  "findInBounds DEFAULT_OPTIONS storeB_reused (box 0 0 20 20) [7, 7, 7, 7] noOptions
     = (1, [0, 7, 7, 7], storeB_reused)"
  by (simp add: storeB_reused_def store_eval)

lemma storeA_updated_update:
  "updateBoundingBox DEFAULT_OPTIONS storeA ''a'' (box 1 1 10 10)
     = Some (Inr (\<lparr> upd_handle = 0, upd_nodeId = 0, upd_flags = 36, upd_status = Updated \<rparr>, storeA_updated))"
  by (simp add: storeA_def storeA_updated_def store_eval)

lemma store0_new_churn: "newObjectStore optsChurn = Inr store0"
  by (simp add: store0_def store_eval)

lemma storeA_add_churn: "addObj optsChurn gbb store0 objA = Some (Inr storeA)"
  by (simp add: store0_def storeA_def store_eval)

lemma storeA_churned_update:
  "updateBoundingBox optsChurn storeA ''a'' (box 1 1 10 10)
     = Some (Inr (\<lparr> upd_handle = 0, upd_nodeId = 0, upd_flags = 38, upd_status = Updated \<rparr>, storeA_churned))"
  by (simp add: storeA_def storeA_churned_def store_eval)

lemma storeA_query_empty_buffer:
  "findInBounds DEFAULT_OPTIONS storeA (box 0 0 20 20) [] noOptions = (1, [], storeA)"
  by (simp add: storeA_def store_eval)

lemma storeAB_query_full_buffer:
  "findInBounds DEFAULT_OPTIONS storeAB (box 0 0 2000 2000) [7] noOptions = (1, [1], storeAB)"
  by (simp add: storeAB_def store_eval)

lemma small0_new: "newObjectStore optsSmall = Inr small0"
  by (simp add: small0_def store_eval)

lemma smallA_insert:
  "insertObj optsSmall small0 ''a'' (box 0 0 10 10) Flags_None
     = Some (Inr (\<lparr> ins_handle = 0, ins_nodeId = 0, ins_flags = 0 \<rparr>, smallA))"
  by (simp add: small0_def smallA_def store_eval)

lemma smallAB_insert:
  "insertObj optsSmall smallA ''b'' (box 1000 1000 10 10) Flags_None
     = Some (Inr (\<lparr> ins_handle = 1, ins_nodeId = 4, ins_flags = 0 \<rparr>, smallAB))"
  by (simp add: smallA_def smallAB_def store_eval)

lemma smallABC_insert:
  "insertObj optsSmall smallAB ''c'' (box 3000 0 10 10) Flags_None
     = Some (Inr (\<lparr> ins_handle = 2, ins_nodeId = 2, ins_flags = 0 \<rparr>, smallABC))"
  by (simp add: smallAB_def smallABC_def store_eval)

lemma smallABC_stored:
  "handleToId smallABC 2 = Some ''c'' \<and> readBoundingBox smallABC 2 = box 3000 0 10 10
   \<and> objectFlags smallABC 2 = 0"
  by (simp add: smallABC_def store_eval)

lemma smallABC_query:
  "findInBounds optsSmall smallABC (box 2990 0 30 30) [7, 7, 7, 7] noOptions = (0, [7, 7, 7, 7], smallABC)"
  by (simp add: smallABC_def store_eval)

lemma smallAB_removedA_remove: "removeObj optsSmall smallAB ''a'' = Some smallAB_removedA"
  by (simp add: smallAB_def smallAB_removedA_def store_eval)

lemma smallAB_queried_query:
  "findInBounds optsSmall smallAB_removedA (box 0 0 20 20) [7, 7, 7, 7] noOptions
     = (0, [7, 7, 7, 7], smallAB_queried)"
  by (simp add: smallAB_removedA_def smallAB_queried_def store_eval)

lemma smallAB_queried_walk:
  "walkRefs True ModeNonDeleted smallAB_removedA 1 (box 0 0 20 20) 0 (- 1) 0 12 0 [7, 7, 7, 7]
     = (False, smallAB_queried, 0, [7, 7, 7, 7], 1)"
  by (simp add: smallAB_removedA_def smallAB_queried_def store_eval)

lemma smallAB_removedA_list:
  "getFirstObject (nodePool smallAB_removedA) 1 = 0 \<and> objectRefNext smallAB_removedA 0 = - 1
   \<and> objectRefHandle smallAB_removedA 0 = 0 \<and> objectRefCapacity smallAB_removedA = 4096
   \<and> staleHandle smallAB_removedA 1 0
   \<and> getFirstObject (nodePool smallAB_queried) 1 = - 1
   \<and> objectRefFreeList smallAB_queried = [0]"
  by (simp add: smallAB_removedA_def smallAB_queried_def store_eval)





lemma storeA_fields:
  "objectIndex storeA ''a''
     = Some \<lparr> rec_id = ''a'', rec_handle = 0, rec_nodeId = 0, rec_flags = 0,
              rec_updateTicks = 0, rec_windowTicks = 0 \<rparr>
   \<and> objectIndex storeA ''b'' = None
   \<and> objectUpdateCounter storeA 0 = 0 \<and> objectWindowCounter storeA 0 = 0
   \<and> objectFlags storeA 0 = 0"
  by (simp add: storeA_def)

lemma storeA_fits:
  "fitsNode optsChurn storeA 0 (box 1 1 10 10) \<and> fitsNode DEFAULT_OPTIONS storeA 0 (box 1 1 10 10)"
  by (simp add: storeA_def store_eval)

lemma storeA_churned_fields:
  "objectUpdateCounter storeA_churned 0 = 0 \<and> objectWindowCounter storeA_churned 0 = 0
   \<and> objectFlags storeA_churned 0 = 38"
  by (simp add: storeA_churned_def)

lemma storeA_updated_fields:
  "objectUpdateCounter storeA_updated 0 = 1 \<and> objectWindowCounter storeA_updated 0 = 1
   \<and> objectFlags storeA_updated 0 = 36"
  by (simp add: storeA_updated_def)

lemma storeB_reused_fields:
  "handleToId storeB_reused 0 = Some ''b'' \<and> readBoundingBox storeB_reused 0 = box 5 5 10 10
   \<and> objectFlags storeB_reused 0 = 0
   \<and> objectIndex storeB_reused ''b''
       = Some \<lparr> rec_id = ''b'', rec_handle = 0, rec_nodeId = 0, rec_flags = 0,
                rec_updateTicks = 0, rec_windowTicks = 0 \<rparr>
   \<and> objectIndex storeB_reused ''a'' = None"
  by (simp add: storeB_reused_def store_eval)

lemma three_objects_chunks:
  "map_option (map fst \<circ> chunks) (addObjects newChunkManager [objA, objB, objC])
     = Some [(0, 0), (1, 0)]
   \<and> map_option (map (map fst \<circ> segments \<circ> snd) \<circ> chunks)
         (addObjects newChunkManager [objA, objB, objC])
       = Some [[(''a'', (0, 0)), (''b'', (0, 0))], [(''c'', (1, 0))]]"
  by (simp add: chunk_eval)

section \<open>Object store: the properties\<close>

text \<open>
  C1 fails on the code. \<^verbatim>\<open>ensureRootBounds\<close> enlarges the bounds of the root node when a
  box lies outside them, but the children made by an earlier split keep the bounds they
  were given. With one object per node, \<open>a\<close> at \<open>{0, 0, 10, 10}\<close> and \<open>b\<close> at
  \<open>{1000, 1000, 10, 10}\<close> split the root; \<open>c\<close> at \<open>{3000, 0, 10, 10}\<close> enlarges the root and
  is sent by \<^verbatim>\<open>selectChild\<close> to the child in the north-east quadrant of the new root, node 2,
  whose own bounds still end at \<open>x = 1136.25\<close> with the looseness applied. The query
  \<open>{2990, 0, 30, 30}\<close> contains the box of \<open>c\<close>, does not meet the bounds of node 2, and
  returns nothing.
\<close>

theorem query_misses_contained_object:
  "newObjectStore optsSmall = Inr small0
   \<and> insertObj optsSmall small0 ''a'' (box 0 0 10 10) Flags_None
       = Some (Inr (\<lparr> ins_handle = 0, ins_nodeId = 0, ins_flags = 0 \<rparr>, smallA))
   \<and> insertObj optsSmall smallA ''b'' (box 1000 1000 10 10) Flags_None
       = Some (Inr (\<lparr> ins_handle = 1, ins_nodeId = 4, ins_flags = 0 \<rparr>, smallAB))
   \<and> insertObj optsSmall smallAB ''c'' (box 3000 0 10 10) Flags_None
       = Some (Inr (\<lparr> ins_handle = 2, ins_nodeId = 2, ins_flags = 0 \<rparr>, smallABC))
   \<and> handleToId smallABC 2 = Some ''c''
   \<and> readBoundingBox smallABC 2 = box 3000 0 10 10
   \<and> bbox_x (box 2990 0 30 30) \<le> bbox_x (box 3000 0 10 10)
   \<and> bbox_y (box 2990 0 30 30) \<le> bbox_y (box 3000 0 10 10)
   \<and> bbox_x (box 3000 0 10 10) + bbox_width (box 3000 0 10 10)
        \<le> bbox_x (box 2990 0 30 30) + bbox_width (box 2990 0 30 30)
   \<and> bbox_y (box 3000 0 10 10) + bbox_height (box 3000 0 10 10)
        \<le> bbox_y (box 2990 0 30 30) + bbox_height (box 2990 0 30 30)
   \<and> findInBounds optsSmall smallABC (box 2990 0 30 30) [7, 7, 7, 7] noOptions
       = (0, [7, 7, 7, 7], smallABC)"
proof -
  have "bbox_x (box 2990 0 30 30) \<le> bbox_x (box 3000 0 10 10)
   \<and> bbox_y (box 2990 0 30 30) \<le> bbox_y (box 3000 0 10 10)
   \<and> bbox_x (box 3000 0 10 10) + bbox_width (box 3000 0 10 10)
        \<le> bbox_x (box 2990 0 30 30) + bbox_width (box 2990 0 30 30)
   \<and> bbox_y (box 3000 0 10 10) + bbox_height (box 3000 0 10 10)
        \<le> bbox_y (box 2990 0 30 30) + bbox_height (box 2990 0 30 30)"
    by (simp add: box_def)
  with small0_new smallA_insert smallAB_insert smallABC_insert smallABC_stored smallABC_query
  show ?thesis by blast
qed

text \<open>
  C2 fails on the code. \<^verbatim>\<open>add\<close> records the object in two maps, \<^verbatim>\<open>objectIndex\<close> (by
  \<^verbatim>\<open>insert\<close>) and \<^verbatim>\<open>objectStore\<close>; \<^verbatim>\<open>get\<close> reads \<^verbatim>\<open>objectStore\<close>;
  \<^verbatim>\<open>remove\<close> deletes from \<^verbatim>\<open>objectIndex\<close> only. After \<^verbatim>\<open>add\<close> of \<open>a\<close> and
  \<^verbatim>\<open>remove\<close> of \<open>a\<close>, \<^verbatim>\<open>get\<close> still returns the object. The second half of the claim
  holds there: the query over the old box returns no handle.
\<close>

theorem removed_object_still_returned_by_get:
  "newObjectStore DEFAULT_OPTIONS = Inr store0
   \<and> addObj DEFAULT_OPTIONS getBox store0 objA = Some (Inr storeA)
   \<and> removeObj DEFAULT_OPTIONS storeA ''a'' = Some storeA_removed
   \<and> getObj storeA_removed ''a'' = Some (objA\<lparr> obj_zIndex := Some 0 \<rparr>)
   \<and> findInBounds DEFAULT_OPTIONS storeA_removed (box 0 0 20 20) [7, 7, 7, 7] noOptions
       = (0, [7, 7, 7, 7], storeA_removed)"
  using store0_new storeA_add[of getBox] storeA_removed_remove storeA_removed_get
    storeA_removed_query
  by blast

text \<open>
  C3, as amended. The three objects of the scenario give two chunks, not three:
  \<open>\<lfloor>1000 / 1024\<rfloor> = 0\<close>, so the second object lies in chunk \<open>(0, 0)\<close> with the first, and
  the third lies in chunk \<open>(1, 0)\<close>. Each object has one segment. The index, after
  \<^verbatim>\<open>add\<close> of the three, answers the query over \<open>{0, 0, 20, 20}\<close> with one handle, \<open>0\<close>,
  which is the handle of the first object.
\<close>

theorem three_objects_scenario:
  "map_option (map fst \<circ> chunks) (addObjects newChunkManager [objA, objB, objC])
     = Some [(0, 0), (1, 0)]
   \<and> map_option (map (map fst \<circ> segments \<circ> snd) \<circ> chunks)
         (addObjects newChunkManager [objA, objB, objC])
       = Some [[(''a'', (0, 0)), (''b'', (0, 0))], [(''c'', (1, 0))]]
   \<and> newObjectStore DEFAULT_OPTIONS = Inr store0
   \<and> addObj DEFAULT_OPTIONS getBox store0 objA = Some (Inr storeA)
   \<and> addObj DEFAULT_OPTIONS getBox storeA objB = Some (Inr storeAB)
   \<and> addObj DEFAULT_OPTIONS getBox storeAB objC = Some (Inr storeABC)
   \<and> findInBounds DEFAULT_OPTIONS storeABC (box 0 0 20 20) [7, 7, 7, 7] noOptions
       = (1, [0, 7, 7, 7], storeABC)
   \<and> handleToId storeABC 0 = Some ''a''"
  using three_objects_chunks store0_new storeA_add[of getBox] storeAB_add[of getBox]
    storeABC_add[of getBox] storeABC_query storeABC_ids
  by blast

text \<open>C3, as stated, fails: the scenario gives two chunks.\<close>

theorem three_objects_counterexample:
  "map_option (map fst \<circ> chunks) (addObjects newChunkManager [objA, objB, objC])
     = Some [(0, 0), (1, 0)]
   \<and> map_option (length \<circ> chunks) (addObjects newChunkManager [objA, objB, objC]) \<noteq> Some 3"
proof -
  have a: "map_option (map fst \<circ> chunks) (addObjects newChunkManager [objA, objB, objC])
     = Some [(0, 0), (1, 0)]"
    using three_objects_chunks by blast
  then obtain m where m: "addObjects newChunkManager [objA, objB, objC] = Some m"
    and k: "map fst (chunks m) = [(0, 0), (1, 0)]" by auto
  have "length (map fst (chunks m)) = 2" by (simp only: k) simp
  hence "length (chunks m) \<noteq> 3" by simp
  with a m show ?thesis by simp
qed




text \<open>
  C7. Whatever the store and the query, \<^verbatim>\<open>findInBounds\<close> returns (the embedded function is
  total and has no error result), it leaves the objects, their flags and the handle table
  as they were, and what it has written into the buffer is live handles: in range, with a
  filled identifier slot, not marked deleted. And the walk over a node's reference list,
  started as \<^verbatim>\<open>findInBounds\<close> starts it, unlinks each stale reference it visits: if the list
  is \<open>rs\<close> (no cycle, indices in range) and the walk visits \<open>n\<close> references, the list
  afterwards is \<open>rs\<close> without the stale ones among its first \<open>n\<close>, and those are on the
  free list.
\<close>

theorem findInBounds_purges_stale:
  "(findInBounds opts s bounds outBuffer options = (count, out, s')
      \<longrightarrow> sameObjects s s' \<and> (\<exists>c. written s outBuffer c out \<and> (count = c \<or> count = 0)))
   \<and> (chainFrom (objectRefNext s) (getFirstObject (nodePool s) nodeId) rs \<and> distinct rs
        \<and> (\<forall>r \<in> set rs. 0 \<le> r \<and> r < objectRefCapacity s) \<and> nodeId \<noteq> - 1
        \<and> walkRefs incDyn md s nodeId bounds (getFirstObject (nodePool s) nodeId) (- 1) 0 maxT
             count0 out0 = (full, t, count1, out1, trav1)
      \<longrightarrow> nat trav1 \<le> length rs
          \<and> chainFrom (objectRefNext t) (getFirstObject (nodePool t) nodeId)
               (filter (\<lambda>r. \<not> staleHandle s nodeId (objectRefHandle s r)) (take (nat trav1) rs)
                @ drop (nat trav1) rs)
          \<and> set (filter (\<lambda>r. staleHandle s nodeId (objectRefHandle s r)) (take (nat trav1) rs))
               \<subseteq> set (objectRefFreeList t))"
proof (intro conjI impI)
  assume q: "findInBounds opts s bounds outBuffer options = (count, out, s')"
  show "sameObjects s s'" using q by (rule findInBounds_sameObjects)
  show "\<exists>c. written s outBuffer c out \<and> (count = c \<or> count = 0)"
    using q by (rule findInBounds_written)
next
  assume h: "chainFrom (objectRefNext s) (getFirstObject (nodePool s) nodeId) rs \<and> distinct rs
        \<and> (\<forall>r \<in> set rs. 0 \<le> r \<and> r < objectRefCapacity s) \<and> nodeId \<noteq> - 1
        \<and> walkRefs incDyn md s nodeId bounds (getFirstObject (nodePool s) nodeId) (- 1) 0 maxT
             count0 out0 = (full, t, count1, out1, trav1)"
  hence ch: "chainFrom (objectRefNext s) (getFirstObject (nodePool s) nodeId) rs"
    and d: "distinct rs" and r: "\<forall>r \<in> set rs. 0 \<le> r \<and> r < objectRefCapacity s"
    and n: "nodeId \<noteq> - 1"
    and w: "walkRefs incDyn md s nodeId bounds (getFirstObject (nodePool s) nodeId) (- 1) 0 maxT
             count0 out0 = (full, t, count1, out1, trav1)"
    by simp_all
  have p: "- 1 \<notin> set rs" using ch by (rule chainFrom_no_end)
  have su: "successorOf s nodeId (- 1) = getFirstObject (nodePool s) nodeId"
    by (simp add: successorOf_def)
  note v = walkRefs_visits[OF ch d r p su n w]
  from v show "nat trav1 \<le> length rs" by simp
  from v show "chainFrom (objectRefNext t) (getFirstObject (nodePool t) nodeId)
               (filter (\<lambda>r. \<not> staleHandle s nodeId (objectRefHandle s r)) (take (nat trav1) rs)
                @ drop (nat trav1) rs)"
    by (simp add: successorOf_def)
  from v show "set (filter (\<lambda>r. staleHandle s nodeId (objectRefHandle s r)) (take (nat trav1) rs))
               \<subseteq> set (objectRefFreeList t)"
    by simp
qed

theorem findInBounds_purges_stale_witness:
  "removeObj optsSmall smallAB ''a'' = Some smallAB_removedA
   \<and> findInBounds optsSmall smallAB_removedA (box 0 0 20 20) [7, 7, 7, 7] noOptions
       = (0, [7, 7, 7, 7], smallAB_queried)
   \<and> sameObjects smallAB_removedA smallAB_queried
   \<and> (\<exists>c. written smallAB_removedA [7, 7, 7, 7] c [7, 7, 7, 7])
   \<and> chainFrom (objectRefNext smallAB_removedA) (getFirstObject (nodePool smallAB_removedA) 1) [0]
   \<and> staleHandle smallAB_removedA 1 (objectRefHandle smallAB_removedA 0)
   \<and> walkRefs True ModeNonDeleted smallAB_removedA 1 (box 0 0 20 20)
        (getFirstObject (nodePool smallAB_removedA) 1) (- 1) 0 12 0 [7, 7, 7, 7]
       = (False, smallAB_queried, 0, [7, 7, 7, 7], 1)
   \<and> chainFrom (objectRefNext smallAB_queried) (getFirstObject (nodePool smallAB_queried) 1) []
   \<and> 0 \<in> set (objectRefFreeList smallAB_queried)"
proof -
  note l = smallAB_removedA_list
  have q: "findInBounds optsSmall smallAB_removedA (box 0 0 20 20) [7, 7, 7, 7] noOptions
       = (0, [7, 7, 7, 7], smallAB_queried)" by (rule smallAB_queried_query)
  have w: "walkRefs True ModeNonDeleted smallAB_removedA 1 (box 0 0 20 20)
        (getFirstObject (nodePool smallAB_removedA) 1) (- 1) 0 12 0 [7, 7, 7, 7]
       = (False, smallAB_queried, 0, [7, 7, 7, 7], 1)"
    using smallAB_queried_walk l by simp
  have ch: "chainFrom (objectRefNext smallAB_removedA) (getFirstObject (nodePool smallAB_removedA) 1) [0]"
    using l by simp
  have st: "staleHandle smallAB_removedA 1 (objectRefHandle smallAB_removedA 0)"
    using l by simp
  have rg: "\<forall>r \<in> set [0]. 0 \<le> r \<and> r < objectRefCapacity smallAB_removedA"
    using l by simp
  note t = findInBounds_purges_stale
             [where opts = optsSmall and s = smallAB_removedA and bounds = "box 0 0 20 20"
                and outBuffer = "[7, 7, 7, 7]" and options = noOptions and count = 0
                and out = "[7, 7, 7, 7]" and s' = smallAB_queried and nodeId = 1 and rs = "[0]"
                and incDyn = True and md = ModeNonDeleted and maxT = 12 and ?count0.0 = 0
                and ?out0.0 = "[7, 7, 7, 7]" and full = False and t = smallAB_queried
                and ?count1.0 = 0 and ?out1.0 = "[7, 7, 7, 7]" and ?trav1.0 = 1]
  from t q have a: "sameObjects smallAB_removedA smallAB_queried"
    and b: "\<exists>c. written smallAB_removedA [7, 7, 7, 7] c [7, 7, 7, 7]" by blast+
  from t ch rg w have
    "chainFrom (objectRefNext smallAB_queried) (getFirstObject (nodePool smallAB_queried) 1)
       (filter (\<lambda>r. \<not> staleHandle smallAB_removedA 1 (objectRefHandle smallAB_removedA r)) (take (nat 1) [0])
        @ drop (nat 1) [0])
     \<and> set (filter (\<lambda>r. staleHandle smallAB_removedA 1 (objectRefHandle smallAB_removedA r)) (take (nat 1) [0]))
         \<subseteq> set (objectRefFreeList smallAB_queried)"
    by simp
  with st have c: "chainFrom (objectRefNext smallAB_queried) (getFirstObject (nodePool smallAB_queried) 1) []"
    and d: "0 \<in> set (objectRefFreeList smallAB_queried)" by simp_all
  from smallAB_removedA_remove q a b ch st w c d show ?thesis by blast
qed

text \<open>
  C8. After \<^verbatim>\<open>remove\<close> of \<open>A\<close> and \<^verbatim>\<open>insert\<close> of a new object \<open>B\<close>, the handle given to
  \<open>B\<close>, which is the handle \<open>A\<close> had, resolves to the identifier of \<open>B\<close>, holds the box of
  \<open>B\<close> (its numbers rounded to singles, as the \<^verbatim>\<open>Float32Array\<close> keeps them) and the flags
  of \<open>B\<close>, and \<open>A\<close> is not in the index; a query afterwards leaves all of that unchanged.
\<close>

theorem reused_handle_resolves_to_new_object:
  assumes rm: "removeObj opts s0 A = Some s1"
    and ne: "A \<noteq> B"
    and new: "objectIndex s0 B = None"
    and ins: "insertObj opts s1 B bbox flags = Some (Inr (res, s2))"
  shows "handleToId s2 (ins_handle res) = Some B
       \<and> handleToId s2 (ins_handle res) \<noteq> Some A
       \<and> readBoundingBox s2 (ins_handle res) = storedBox bbox
       \<and> objectFlags s2 (ins_handle res) = flags
       \<and> (\<exists>r. objectIndex s2 B = Some r \<and> rec_id r = B \<and> rec_handle r = ins_handle res)
       \<and> objectIndex s2 A = None
       \<and> (\<forall>ra. objectIndex s0 A = Some ra \<longrightarrow> ins_handle res = rec_handle ra)
       \<and> (findInBounds opts s2 bounds outBuffer options = (count, out, s3)
            \<longrightarrow> handleToId s3 (ins_handle res) = Some B
                \<and> readBoundingBox s3 (ins_handle res) = storedBox bbox
                \<and> objectFlags s3 (ins_handle res) = flags)"
proof -
  note r = removeObj_facts[OF rm]
  have new1: "objectIndex s1 B = None" using r(1) new by simp
  note i = insertObj_new[OF new1 ins]
  have a: "objectIndex s2 A = None"
  proof -
    obtain h sa where oh: "obtainHandle s1 B = (h, sa)" by (cases "obtainHandle s1 B")
    let ?s2 = "writeBoundingBox sa h bbox"
    let ?s3 = "ensureRootBounds opts ?s2 bbox"
    have n0: "objectNode ?s3 h = - 1"
      using obtainHandle_new(2)[OF new1 oh] by (simp add: ensureRootBounds_def writeBoundingBox_def Let_def)
    from ins oh n0 obtain nodeId s5 where
      ih: "insertHandle opts ?s3 h bbox = Some (Inr (nodeId, s5))" and
      s2: "objectIndex s2 = (objectIndex s5)(B :=
                      Some \<lparr> rec_id = B, rec_handle = h, rec_nodeId = nodeId,
                             rec_flags = flags, rec_updateTicks = 0, rec_windowTicks = 0 \<rparr>)"
      by (auto simp: insertObj_def Let_def split: option.splits sum.splits)
    have "sameObjects ?s2 s5"
      using sameObjects_ensureRootBounds[of ?s2 opts bbox] sameObjects_insertHandle[OF ih]
      by (rule sameObjects_trans)
    hence "objectIndex s5 = objectIndex sa"
      by (simp add: sameObjects_def writeBoundingBox_def Let_def)
    with obtainHandle_new(3)[OF new1 oh] r(1) s2 ne show ?thesis by simp
  qed
  have reuse: "\<forall>ra. objectIndex s0 A = Some ra \<longrightarrow> ins_handle res = rec_handle ra"
    using r(2) i(5) by auto
  from i(1) ne have na: "handleToId s2 (ins_handle res) \<noteq> Some A" by simp
  have q: "handleToId s3 (ins_handle res) = Some B
           \<and> readBoundingBox s3 (ins_handle res) = storedBox bbox
           \<and> objectFlags s3 (ins_handle res) = flags"
    if "findInBounds opts s2 bounds outBuffer options = (count, out, s3)"
  proof -
    from that have "sameObjects s2 s3" by (rule findInBounds_sameObjects)
    hence "handleToId s3 = handleToId s2" "objectBounds s3 = objectBounds s2"
      "objectFlags s3 = objectFlags s2" by (simp_all add: sameObjects_def)
    with i(1,2,3) show ?thesis by (simp add: readBoundingBox_def)
  qed
  from i a reuse na q show ?thesis by blast
qed

theorem reused_handle_resolves_to_new_object_witness:
  "removeObj DEFAULT_OPTIONS storeA ''a'' = Some storeA_removed
   \<and> ''a'' \<noteq> ''b'' \<and> objectIndex storeA ''b'' = None
   \<and> rec_handle (the (objectIndex storeA ''a'')) = 0
   \<and> insertObj DEFAULT_OPTIONS storeA_removed ''b'' (box 5 5 10 10) Flags_None
       = Some (Inr (\<lparr> ins_handle = 0, ins_nodeId = 0, ins_flags = 0 \<rparr>, storeB_reused))
   \<and> handleToId storeB_reused 0 = Some ''b''
   \<and> storedBox (box 5 5 10 10) = box 5 5 10 10
   \<and> readBoundingBox storeB_reused 0 = box 5 5 10 10
   \<and> objectIndex storeB_reused ''a'' = None
   \<and> findInBounds DEFAULT_OPTIONS storeB_reused (box 0 0 20 20) [7, 7, 7, 7] noOptions
       = (1, [0, 7, 7, 7], storeB_reused)"
  using reused_handle_resolves_to_new_object
          [OF storeA_removed_remove _ _ storeB_reused_insert, of "box 0 0 20 20" "[7, 7, 7, 7]"
             noOptions 1 "[0, 7, 7, 7]" storeB_reused]
    storeA_removed_remove storeB_reused_insert storeB_reused_query storeA_fields
    storeB_reused_fields
  by (simp add: Flags_None_def storedBox_def box_def fround_eval)

text \<open>
  C9. Every \<^verbatim>\<open>updateBoundingBox\<close> of an indexed object that returns (and it returns, in
  place, when the new box fits the bounds of the object's node) adds one to the window
  counter of the object and to its update counter; when the window counter reaches
  \<^verbatim>\<open>dynamicUpdateWindow\<close> both counters are set to zero instead; when the update counter
  reaches \<^verbatim>\<open>dynamicUpdateThreshold\<close> the \<^verbatim>\<open>Dynamic\<close> flag is set, and a flag that is set
  stays set. The counters are 16-bit.
\<close>

theorem update_bumps_rolling_counters:
  assumes idx: "objectIndex s objectId = Some r"
  shows "(fitsNode opts s (rec_nodeId r) bbox \<longrightarrow>
            (\<exists>res s'. updateBoundingBox opts s objectId bbox = Some (Inr (res, s'))
                \<and> upd_status res = Updated))
       \<and> (\<forall>res s'. updateBoundingBox opts s objectId bbox = Some (Inr (res, s')) \<longrightarrow>
            upd_handle res = rec_handle r
            \<and> objectWindowCounter s' (rec_handle r)
                = (if objectWindowCounter s (rec_handle r) + 1 \<ge> dynamicUpdateWindow opts then 0
                   else (objectWindowCounter s (rec_handle r) + 1) mod 65536)
            \<and> objectUpdateCounter s' (rec_handle r)
                = (if objectWindowCounter s (rec_handle r) + 1 \<ge> dynamicUpdateWindow opts then 0
                   else (objectUpdateCounter s (rec_handle r) + 1) mod 65536)
            \<and> (objectUpdateCounter s (rec_handle r) + 1 \<ge> dynamicUpdateThreshold opts
                 \<longrightarrow> objectFlags s' (rec_handle r) AND Flags_Dynamic \<noteq> 0)
            \<and> (objectFlags s (rec_handle r) AND Flags_Dynamic \<noteq> 0
                 \<longrightarrow> objectFlags s' (rec_handle r) AND Flags_Dynamic \<noteq> 0))"
proof (intro conjI impI allI)
  assume fits: "fitsNode opts s (rec_nodeId r) bbox"
  let ?h = "rec_handle r"
  let ?s1 = "writeBoundingBox s ?h bbox"
  let ?s2 = "?s1\<lparr> objectIndex := (objectIndex ?s1)(objectId := Some (r\<lparr> rec_flags := objectFlags ?s1 ?h \<rparr>)) \<rparr>"
  have "fitsNode opts ?s2 (rec_nodeId r) bbox"
    using fits by (simp add: fitsNode_def writeBoundingBox_def Let_def)
  with idx have "updateBoundingBox opts s objectId bbox
      = Some (Inr (finishUpdate opts ?s2 ?h (rec_nodeId r) Updated))"
    by (simp add: updateBoundingBox_def Let_def)
  thus "\<exists>res s'. updateBoundingBox opts s objectId bbox = Some (Inr (res, s')) \<and> upd_status res = Updated"
    by (cases "finishUpdate opts ?s2 ?h (rec_nodeId r) Updated") (auto dest: finishUpdate_facts(2))
next
  fix res s' assume upd: "updateBoundingBox opts s objectId bbox = Some (Inr (res, s'))"
  from updateBoundingBox_cases[OF idx upd] obtain sx newNode status where
    f: "finishUpdate opts sx (rec_handle r) newNode status = (res, s')"
    and e: "objectFlags sx = objectFlags s" "objectUpdateCounter sx = objectUpdateCounter s"
           "objectWindowCounter sx = objectWindowCounter s"
    by blast
  note ff = finishUpdate_facts[OF f, unfolded e]
  show "upd_handle res = rec_handle r" by (rule ff(1))
  show "objectWindowCounter s' (rec_handle r)
                = (if objectWindowCounter s (rec_handle r) + 1 \<ge> dynamicUpdateWindow opts then 0
                   else (objectWindowCounter s (rec_handle r) + 1) mod 65536)" by (rule ff(3))
  show "objectUpdateCounter s' (rec_handle r)
                = (if objectWindowCounter s (rec_handle r) + 1 \<ge> dynamicUpdateWindow opts then 0
                   else (objectUpdateCounter s (rec_handle r) + 1) mod 65536)" by (rule ff(4))
  show "objectFlags s' (rec_handle r) AND Flags_Dynamic \<noteq> 0"
    if "objectUpdateCounter s (rec_handle r) + 1 \<ge> dynamicUpdateThreshold opts"
    using that by (rule ff(5))
  show "objectFlags s' (rec_handle r) AND Flags_Dynamic \<noteq> 0"
    if "objectFlags s (rec_handle r) AND Flags_Dynamic \<noteq> 0"
    using that by (rule ff(6))
qed

theorem update_bumps_rolling_counters_witness:
  "objectIndex storeA ''a''
     = Some \<lparr> rec_id = ''a'', rec_handle = 0, rec_nodeId = 0, rec_flags = 0,
              rec_updateTicks = 0, rec_windowTicks = 0 \<rparr>
   \<and> fitsNode optsChurn storeA 0 (box 1 1 10 10)
   \<and> updateBoundingBox optsChurn storeA ''a'' (box 1 1 10 10)
       = Some (Inr (\<lparr> upd_handle = 0, upd_nodeId = 0, upd_flags = 38, upd_status = Updated \<rparr>,
                    storeA_churned))
   \<and> dynamicUpdateThreshold optsChurn \<le> objectUpdateCounter storeA 0 + 1
   \<and> dynamicUpdateWindow optsChurn \<le> objectWindowCounter storeA 0 + 1
   \<and> objectFlags storeA 0 AND Flags_Dynamic = 0
   \<and> objectFlags storeA_churned 0 AND Flags_Dynamic \<noteq> 0
   \<and> objectUpdateCounter storeA_churned 0 = 0 \<and> objectWindowCounter storeA_churned 0 = 0
   \<and> updateBoundingBox DEFAULT_OPTIONS storeA ''a'' (box 1 1 10 10)
       = Some (Inr (\<lparr> upd_handle = 0, upd_nodeId = 0, upd_flags = 36, upd_status = Updated \<rparr>,
                    storeA_updated))
   \<and> objectUpdateCounter storeA_updated 0 = 1 \<and> objectWindowCounter storeA_updated 0 = 1
   \<and> objectFlags storeA_updated 0 AND Flags_Dynamic = 0"
proof -
  have idx: "objectIndex storeA ''a''
     = Some \<lparr> rec_id = ''a'', rec_handle = 0, rec_nodeId = 0, rec_flags = 0,
              rec_updateTicks = 0, rec_windowTicks = 0 \<rparr>"
    using storeA_fields by blast
  note t1 = update_bumps_rolling_counters[OF idx, of optsChurn "box 1 1 10 10"]
  note t2 = update_bumps_rolling_counters[OF idx, of DEFAULT_OPTIONS "box 1 1 10 10"]
  have o: "dynamicUpdateThreshold optsChurn = 1 \<and> dynamicUpdateWindow optsChurn = 1
           \<and> dynamicUpdateThreshold DEFAULT_OPTIONS = 6 \<and> dynamicUpdateWindow DEFAULT_OPTIONS = 16"
    by (simp add: optsChurn_def DEFAULT_OPTIONS_def)
  from t1 storeA_churned_update storeA_fields o
  have a: "objectFlags storeA_churned 0 AND Flags_Dynamic \<noteq> 0
           \<and> objectUpdateCounter storeA_churned 0 = 0 \<and> objectWindowCounter storeA_churned 0 = 0"
    by simp
  from t2 storeA_updated_update storeA_fields o
  have b: "objectUpdateCounter storeA_updated 0 = 1 \<and> objectWindowCounter storeA_updated 0 = 1"
    by simp
  have c: "objectFlags storeA 0 AND Flags_Dynamic = 0 \<and> objectFlags storeA_updated 0 AND Flags_Dynamic = 0"
    using storeA_fields storeA_updated_fields by (simp add: Flags_Dynamic_def)
  from idx storeA_fits storeA_churned_update storeA_updated_update storeA_fields o a b c
  show ?thesis by simp
qed

text \<open>
  C10 fails on the code. \<^verbatim>\<open>findInBounds\<close> stores the handle, adds one to the count and
  only then compares the count with the length of the buffer. With a buffer of length
  zero and one object in the queried region the store is dropped by the typed array and
  the function returns the count 1, which exceeds the length 0. On a buffer of length one
  with two objects in the region it returns at once with the first handle found, as the
  claim says; lemma \<open>findInBounds_count_le\<close> shows that the count is within the length of
  every buffer that is not empty.
\<close>

theorem count_exceeds_empty_buffer:
  "newObjectStore DEFAULT_OPTIONS = Inr store0
   \<and> addObj DEFAULT_OPTIONS getBox store0 objA = Some (Inr storeA)
   \<and> findInBounds DEFAULT_OPTIONS storeA (box 0 0 20 20) [] noOptions = (1, [], storeA)
   \<and> \<not> fst (findInBounds DEFAULT_OPTIONS storeA (box 0 0 20 20) [] noOptions)
          \<le> int (length ([] :: int list))
   \<and> addObj DEFAULT_OPTIONS getBox storeA objB = Some (Inr storeAB)
   \<and> findInBounds DEFAULT_OPTIONS storeAB (box 0 0 2000 2000) [7] noOptions = (1, [1], storeAB)"
proof -
  have "\<not> fst (findInBounds DEFAULT_OPTIONS storeA (box 0 0 20 20) [] noOptions)
          \<le> int (length ([] :: int list))"
    by (simp only: storeA_query_empty_buffer) simp
  with store0_new storeA_add[of getBox] storeA_query_empty_buffer storeAB_add[of getBox]
    storeAB_query_full_buffer
  show ?thesis by blast
qed

end
